(* ===== verification/Prelude.thy ===== *)
theory Prelude
  imports Main
begin

text \<open>
  The shared vocabulary of the development: the Python values that \<open>tbutils\<close> passes
  around (\<open>pyval\<close>), the exceptions it raises or lets through (\<open>py_error\<close>), the result
  type \<open>'a result\<close> (an exception or a value), the named theorem collections that the
  component theories fill, and generic lemmas on results, lists and sizes that their
  proofs share.
\<close>

section \<open>Python values\<close>

text \<open>
  The values that reach the library's functions: \<open>None\<close>, booleans, unbounded
  integers, strings, lists, tuples and dicts. A dict is an association list in
  insertion order (Python 3.7+ dicts are ordered); its keys are compared with Python's
  hash equality (see \<open>PyVal.py_key\<close>). Floats, sets, bytes and arbitrary objects are
  not values of the model.
\<close>

datatype pyval =
    PNone
  | PBool bool
  | PInt int
  | PStr string
  | PList "pyval list"
  | PTuple "pyval list"
  | PDict "(pyval \<times> pyval) list"

text \<open>
  Exceptions. The built-in ones are raised by the interpreter (their message text is not
  modelled); \<open>AssertionError\<close> carries the arguments the source's \<open>assert\<close> or
  \<open>raise\<close> passes; \<open>Raised\<close> is an exception raised inside a callable supplied by
  the caller (a discriminator function, a criterion, a default factory, a wrapped
  function), which the library lets through.
\<close>

datatype py_error =
    TypeError
  | ValueError
  | AttributeError
  | KeyError pyval
  | AssertionError "pyval list"
  | Raised pyval

type_synonym 'a result = "py_error + 'a"

text \<open>Keyword arguments of a call, in the order they are passed.\<close>

type_synonym kwargs = "(string \<times> pyval) list"

section \<open>Theorem collections\<close>

named_theorems py_simps "evaluation rules of the Python builtins of the model"
named_theorems state_simps "frame and update rules of the runtime state"

section \<open>Sequencing results\<close>

text \<open>
  \<open>rbind r f\<close> continues with \<open>f\<close> on a value and propagates an exception, as a
  Python statement sequence does.
\<close>

definition rbind :: "'a result \<Rightarrow> ('a \<Rightarrow> 'b result) \<Rightarrow> 'b result" where
  "rbind r f = (case r of Inl e \<Rightarrow> Inl e | Inr a \<Rightarrow> f a)"

lemma rbind_Inl [simp]: "rbind (Inl e) f = Inl e"
  by (simp add: rbind_def)

lemma rbind_Inr [simp]: "rbind (Inr a) f = f a"
  by (simp add: rbind_def)

lemma rbind_eq_Inr_iff: "rbind r f = Inr b \<longleftrightarrow> (\<exists>a. r = Inr a \<and> f a = Inr b)"
  by (cases r) auto

text \<open>
  \<open>rmap\<close> runs a fallible function over a list left to right and stops at the first
  exception, as a Python \<open>for\<close> loop or list comprehension does.
\<close>

fun rmap :: "('a \<Rightarrow> 'b result) \<Rightarrow> 'a list \<Rightarrow> 'b list result" where
  "rmap f [] = Inr []"
| "rmap f (x # xs) = rbind (f x) (\<lambda>y. rbind (rmap f xs) (\<lambda>ys. Inr (y # ys)))"

lemma rmap_cong [fundef_cong]:
  "xs = ys \<Longrightarrow> (\<And>x. x \<in> set ys \<Longrightarrow> f x = g x) \<Longrightarrow> rmap f xs = rmap g ys"
  by (induction ys arbitrary: xs) auto

lemma rmap_Inr_length: "rmap f xs = Inr ys \<Longrightarrow> length ys = length xs"
  by (induction xs arbitrary: ys) (auto simp: rbind_eq_Inr_iff)

lemma rmap_Inr_map: "(\<And>x. x \<in> set xs \<Longrightarrow> f x = Inr (g x)) \<Longrightarrow> rmap f xs = Inr (map g xs)"
  by (induction xs) auto

lemma rmap_Inr_nth:
  "rmap f xs = Inr ys \<Longrightarrow> i < length xs \<Longrightarrow> f (xs ! i) = Inr (ys ! i)"
proof (induction xs arbitrary: ys i)
  case Nil
  then show ?case by simp
next
  case (Cons x xs)
  then show ?case by (cases i) (auto simp: rbind_eq_Inr_iff)
qed

section \<open>Statements on a state\<close>

text \<open>
  A statement of a script: it runs on the state, returns a value or raises, and leaves
  a new state. \<open>sbind\<close> runs the rest of the script only when the statement returned,
  as the interpreter does with an uncaught exception; \<open>srepeat n\<close> is
  \<open>for _ in range(n)\<close> and \<open>sforeach\<close> is \<open>for x in xs\<close>.
\<close>

type_synonym ('a, 's) stm = "'s \<Rightarrow> 'a result \<times> 's"

definition sret :: "'a \<Rightarrow> ('a, 's) stm" where
  "sret a s = (Inr a, s)"

definition sbind :: "('a, 's) stm \<Rightarrow> ('a \<Rightarrow> ('b, 's) stm) \<Rightarrow> ('b, 's) stm" where
  "sbind m f s = (case m s of (Inl e, s') \<Rightarrow> (Inl e, s') | (Inr a, s') \<Rightarrow> f a s')"

definition sthen :: "('a, 's) stm \<Rightarrow> ('b, 's) stm \<Rightarrow> ('b, 's) stm" where
  "sthen m k = sbind m (\<lambda>_. k)"

fun srepeat :: "nat \<Rightarrow> ('a, 's) stm \<Rightarrow> (unit, 's) stm" where
  "srepeat 0 m = sret ()"
| "srepeat (Suc n) m = sthen m (srepeat n m)"

fun sforeach :: "'a list \<Rightarrow> ('a \<Rightarrow> ('b, 's) stm) \<Rightarrow> (unit, 's) stm" where
  "sforeach [] f = sret ()"
| "sforeach (x # xs) f = sthen (f x) (sforeach xs f)"

text \<open>A block of statements whose values are not used, and a statement that only returns.\<close>

definition sdrop :: "('a, 's) stm \<Rightarrow> (unit, 's) stm" where
  "sdrop m = sbind m (\<lambda>_. sret ())"

fun sseq :: "(unit, 's) stm list \<Rightarrow> (unit, 's) stm" where
  "sseq [] = sret ()"
| "sseq (m # ms) = sthen m (sseq ms)"

definition slift :: "'a result \<Rightarrow> ('a, 's) stm" where
  "slift r s = (r, s)"

lemma sbind_Inr [simp]: "m s = (Inr a, s') \<Longrightarrow> sbind m f s = f a s'"
  by (simp add: sbind_def)

lemma sbind_Inl [simp]: "m s = (Inl e, s') \<Longrightarrow> sbind m f s = (Inl e, s')"
  by (simp add: sbind_def)

lemma sthen_Inr [simp]: "m s = (Inr a, s') \<Longrightarrow> sthen m k s = k s'"
  by (simp add: sthen_def)

lemma sret_apply [simp]: "sret a s = (Inr a, s)"
  by (simp add: sret_def)

section \<open>Sizes of nested values\<close>

text \<open>
  The recursion of several routines goes from a container to one of its elements or to
  the list of a dict's values; these lemmas give the measure that decreases.
\<close>

lemma size_elem_less_list [simp]: "x \<in> set xs \<Longrightarrow> size x < size (PList xs)"
  by (induction xs) auto

lemma size_elem_less_tuple [simp]: "x \<in> set xs \<Longrightarrow> size x < size (PTuple xs)"
  by (induction xs) auto

lemma size_value_less_dict [simp]: "(k, v) \<in> set d \<Longrightarrow> size v < size (PDict d)"
  by (induction d) auto

lemma size_elem_less_size_list [simp]: "x \<in> set xs \<Longrightarrow> size x < Suc (size_list size xs)"
  by (induction xs) auto

lemma size_hd_less_size_list [simp]: "xs \<noteq> [] \<Longrightarrow> size (hd xs) < Suc (size_list size xs)"
  by (cases xs) auto

lemma size_values_le_dict: "size_list (size \<circ> snd) d \<le> size_list (size_prod size size) d"
  by (induction d) auto

lemma size_values_less_size_list:
  "d \<noteq> [] \<Longrightarrow> size_list (size \<circ> snd) d < size_list (size_prod size size) d"
  using size_values_le_dict [of "tl d"] by (cases d) (auto simp: comp_def)

lemma size_values_less_dict: "d \<noteq> [] \<Longrightarrow> size (PList (map snd d)) < size (PDict d)"
  using size_values_less_size_list [of d] by (simp add: size_list_map)

section \<open>Lists\<close>

lemma take_filter_Cons_True:
  "P x \<Longrightarrow> take (Suc n) (filter P (x # xs)) = x # take n (filter P xs)"
  by simp

lemma count_list_append_single [simp]:
  "count_list (xs @ [y]) x = count_list xs x + (if x = y then 1 else 0)"
  by (induction xs) auto

end
