(* ===== verification/PyVal.thy ===== *)
theory PyVal
  imports Prelude
begin

text \<open>
  The Python builtins that \<open>tbutils\<close> relies on, as functions on \<open>pyval\<close>:
  hashing of dict keys (\<open>py_key\<close>), truthiness, \<open>str\<close> and \<open>repr\<close> (\<open>py_str\<close>,
  \<open>py_repr\<close>), \<open>str.split\<close> and \<open>str.join\<close> with an explicit separator, the
  operator \<open>in\<close> with a string on its left, subscripting by a string, and dict
  lookup and assignment. These are CPython's semantics, not code of the repository; the
  library's functions are built on them.
\<close>

section \<open>Hashing and key equality\<close>

text \<open>
  \<open>py_key v\<close> is the value a dict compares keys by: \<open>None\<close> for an unhashable value
  (lists and dicts raise \<open>TypeError\<close> when used as keys), and a normal form that
  identifies \<open>True\<close> with \<open>1\<close> and \<open>False\<close> with \<open>0\<close>, as Python's hash
  equality does.
\<close>

fun py_key :: "pyval \<Rightarrow> pyval option" where
  "py_key PNone = Some PNone"
| "py_key (PBool b) = Some (PInt (if b then 1 else 0))"
| "py_key (PInt i) = Some (PInt i)"
| "py_key (PStr s) = Some (PStr s)"
| "py_key (PList xs) = None"
| "py_key (PTuple xs) = map_option PTuple (those (map py_key xs))"
| "py_key (PDict d) = None"

definition hashable :: "pyval \<Rightarrow> bool" where
  "hashable v \<longleftrightarrow> py_key v \<noteq> None"

definition key_eq :: "pyval \<Rightarrow> pyval \<Rightarrow> bool" where
  "key_eq a b \<longleftrightarrow> py_key a \<noteq> None \<and> py_key a = py_key b"

lemma py_key_str [simp]: "py_key (PStr s) = Some (PStr s)"
  by simp

lemma key_eq_str_iff [simp]: "key_eq (PStr s) k \<longleftrightarrow> py_key k = Some (PStr s)"
  by (auto simp: key_eq_def)

lemma py_key_eq_str_iff: "py_key k = Some (PStr s) \<longleftrightarrow> k = PStr s"
proof
  assume "py_key k = Some (PStr s)"
  then show "k = PStr s" by (cases k) (auto split: if_splits)
qed simp

section \<open>Truthiness\<close>

fun py_truthy :: "pyval \<Rightarrow> bool" where
  "py_truthy PNone = False"
| "py_truthy (PBool b) = b"
| "py_truthy (PInt i) = (i \<noteq> 0)"
| "py_truthy (PStr s) = (s \<noteq> [])"
| "py_truthy (PList xs) = (xs \<noteq> [])"
| "py_truthy (PTuple xs) = (xs \<noteq> [])"
| "py_truthy (PDict d) = (d \<noteq> [])"

section \<open>Decimal and textual representation\<close>

definition digit_char :: "nat \<Rightarrow> char" where
  "digit_char d = char_of (48 + d)"

fun nat_str :: "nat \<Rightarrow> string" where
  "nat_str n = (if n < 10 then [digit_char n] else nat_str (n div 10) @ [digit_char (n mod 10)])"

declare nat_str.simps [simp del]

definition int_str :: "int \<Rightarrow> string" where
  "int_str i = (if i < 0 then CHR ''-'' # nat_str (nat (- i)) else nat_str (nat i))"

text \<open>\<open>str.join\<close>: the separator between consecutive items.\<close>

fun py_join :: "string \<Rightarrow> string list \<Rightarrow> string" where
  "py_join sep [] = []"
| "py_join sep [x] = x"
| "py_join sep (x # y # ys) = x @ sep @ py_join sep (y # ys)"

text \<open>
  \<open>repr\<close> of a string: single quotes unless the string holds a single quote and no
  double quote; backslash, the chosen quote, tab, newline and carriage return escaped;
  other control characters as \<open>\x\<close> and two hex digits. Characters are bytes here,
  so a non-ASCII character is its UTF-8 bytes, passed through.
\<close>

definition hex_char :: "nat \<Rightarrow> char" where
  "hex_char d = (if d < 10 then char_of (48 + d) else char_of (87 + d))"

definition escape_char :: "char \<Rightarrow> char \<Rightarrow> string" where
  "escape_char q c =
     (if c = CHR 0x5C then [CHR 0x5C, CHR 0x5C]
      else if c = q then [CHR 0x5C, q]
      else if c = CHR 0x09 then [CHR 0x5C, CHR ''t'']
      else if c = CHR 0x0A then [CHR 0x5C, CHR ''n'']
      else if c = CHR 0x0D then [CHR 0x5C, CHR ''r'']
      else if of_char c < (32::nat) \<or> of_char c = (127::nat)
        then [CHR 0x5C, CHR ''x'', hex_char (of_char c div 16), hex_char (of_char c mod 16)]
      else [c])"

definition repr_str :: "string \<Rightarrow> string" where
  "repr_str s =
     (let q = (if CHR 0x27 \<in> set s \<and> CHR 0x22 \<notin> set s then CHR 0x22 else CHR 0x27)
      in q # concat (map (escape_char q) s) @ [q])"

fun py_repr :: "pyval \<Rightarrow> string" where
  "py_repr PNone = ''None''"
| "py_repr (PBool b) = (if b then ''True'' else ''False'')"
| "py_repr (PInt i) = int_str i"
| "py_repr (PStr s) = repr_str s"
| "py_repr (PList xs) = ''['' @ py_join '', '' (map py_repr xs) @ '']''"
| "py_repr (PTuple xs) =
     (case xs of
        [x] \<Rightarrow> ''('' @ py_repr x @ '',)''
      | _ \<Rightarrow> ''('' @ py_join '', '' (map py_repr xs) @ '')'')"
| "py_repr (PDict d) =
     ''{'' @ py_join '', '' (map (\<lambda>kv. py_repr (fst kv) @ '': '' @ py_repr (snd kv)) d) @ ''}''"

text \<open>\<open>str\<close>, which is also what \<open>print\<close> writes and an f-string field inserts.\<close>

fun py_str :: "pyval \<Rightarrow> string" where
  "py_str (PStr s) = s"
| "py_str v = py_repr v"

section \<open>Splitting strings\<close>

text \<open>
  \<open>s.split(sep)\<close> with an explicit separator: the pieces between the occurrences of
  \<open>sep\<close>, found left to right without overlap; an empty separator raises
  \<open>ValueError\<close>. \<open>split_on sep cur s\<close> scans \<open>s\<close> with the current piece
  \<open>cur\<close> kept reversed.
\<close>

fun split_on :: "string \<Rightarrow> string \<Rightarrow> string \<Rightarrow> string list" where
  "split_on sep cur [] = [rev cur]"
| "split_on sep cur (c # cs) =
     (if sep \<noteq> [] \<and> take (length sep) (c # cs) = sep
      then rev cur # split_on sep [] (drop (length sep) (c # cs))
      else split_on sep (c # cur) cs)"

definition py_split :: "string \<Rightarrow> string \<Rightarrow> string list result" where
  "py_split s sep = (if sep = [] then Inl ValueError else Inr (split_on sep [] s))"

section \<open>The operator in, subscripting, dicts\<close>

text \<open>\<open>sub in s\<close> for two strings: substring test.\<close>

fun str_contains :: "string \<Rightarrow> string \<Rightarrow> bool" where
  "str_contains sub [] = (sub = [])"
| "str_contains sub (c # cs) = (take (length sub) (c # cs) = sub \<or> str_contains sub cs)"

text \<open>Lookup of a key in a dict, by hash equality, and the key stored for it.\<close>

fun dict_get :: "(pyval \<times> pyval) list \<Rightarrow> pyval \<Rightarrow> pyval option" where
  "dict_get [] k = None"
| "dict_get ((k', v) # d) k = (if key_eq k k' then Some v else dict_get d k)"

text \<open>
  \<open>d[k] = v\<close>: an existing key keeps its place (and its original key object) and gets
  the new value; a new key goes to the end.
\<close>

fun dict_set :: "(pyval \<times> pyval) list \<Rightarrow> pyval \<Rightarrow> pyval \<Rightarrow> (pyval \<times> pyval) list" where
  "dict_set [] k v = [(k, v)]"
| "dict_set ((k', v') # d) k v = (if key_eq k k' then (k', v) # d else (k', v') # dict_set d k v)"

text \<open>\<open>dict(items)\<close> (and a dict comprehension): later pairs overwrite the value of an earlier equal key in place.\<close>

definition dict_of_list :: "(pyval \<times> pyval) list \<Rightarrow> (pyval \<times> pyval) list" where
  "dict_of_list items = fold (\<lambda>(k, v) d. dict_set d k v) items []"

text \<open>
  \<open>item in container\<close> for a string \<open>item\<close>, the only case the library meets: a
  dict tests its keys, a string its substrings, a list or tuple its elements; \<open>in\<close>
  on an integer, a boolean or \<open>None\<close> raises \<open>TypeError\<close>.
\<close>

fun str_in :: "string \<Rightarrow> pyval \<Rightarrow> bool result" where
  "str_in k (PDict d) = Inr (dict_get d (PStr k) \<noteq> None)"
| "str_in k (PStr s) = Inr (str_contains k s)"
| "str_in k (PList xs) = Inr (PStr k \<in> set xs)"
| "str_in k (PTuple xs) = Inr (PStr k \<in> set xs)"
| "str_in k _ = Inl TypeError"

text \<open>
  \<open>container[k]\<close> for a string \<open>k\<close>: a dict looks it up (a missing key raises
  \<open>KeyError\<close>, which the library never reaches: it tests \<open>in\<close> first), a string, list
  or tuple wants an integer index and raises \<open>TypeError\<close>, other values are not
  subscriptable (\<open>TypeError\<close>).
\<close>

fun str_getitem :: "pyval \<Rightarrow> string \<Rightarrow> pyval result" where
  "str_getitem (PDict d) k = (case dict_get d (PStr k) of Some v \<Rightarrow> Inr v | None \<Rightarrow> Inl (KeyError (PStr k)))"
| "str_getitem _ k = Inl TypeError"

section \<open>Rules for splitting and dicts\<close>

lemma split_on_nonempty [simp]: "split_on sep cur s \<noteq> []"
  by (induction sep cur s rule: split_on.induct) auto

lemma split_on_char_plain: "c \<notin> set x \<Longrightarrow> split_on [c] cur x = [rev cur @ x]"
  by (induction x arbitrary: cur) auto

lemma split_on_char_sep:
  "c \<notin> set x \<Longrightarrow> split_on [c] cur (x @ c # rest) = (rev cur @ x) # split_on [c] [] rest"
  by (induction x arbitrary: cur) auto

lemma py_join_Cons: "ks \<noteq> [] \<Longrightarrow> py_join sep (k # ks) = k @ sep @ py_join sep ks"
  by (cases ks) auto

text \<open>
  With a one-character separator, splitting undoes joining pieces that do not contain
  it (the round trip \<open>sep.join(parts).split(sep) == parts\<close>).
\<close>

lemma split_join_char:
  assumes "ks \<noteq> []" and "\<forall>k \<in> set ks. c \<notin> set k"
  shows "py_split (py_join [c] ks) [c] = Inr ks"
proof -
  have "split_on [c] [] (py_join [c] ks) = ks"
    using assms
  proof (induction ks)
    case Nil
    then show ?case by simp
  next
    case (Cons k ks)
    show ?case
    proof (cases "ks = []")
      case True
      with Cons.prems show ?thesis by (simp add: split_on_char_plain)
    next
      case False
      with Cons show ?thesis by (simp add: py_join_Cons split_on_char_sep)
    qed
  qed
  then show ?thesis by (simp add: py_split_def)
qed

lemma join_char_inj:
  assumes "xs \<noteq> []" "ys \<noteq> []" "\<forall>k \<in> set xs. c \<notin> set k" "\<forall>k \<in> set ys. c \<notin> set k"
    and "py_join [c] xs = py_join [c] ys"
  shows "xs = ys"
proof -
  have a: "py_split (py_join [c] xs) [c] = Inr xs" by (rule split_join_char [OF assms(1,3)])
  have b: "py_split (py_join [c] ys) [c] = Inr ys" by (rule split_join_char [OF assms(2,4)])
  from a b show ?thesis unfolding assms(5) by simp
qed

lemma str_contains_single: "str_contains [c] s \<longleftrightarrow> c \<in> set s"
  by (induction s) auto

lemma dict_get_str_None_iff: "dict_get d (PStr k) = None \<longleftrightarrow> PStr k \<notin> fst ` set d"
  by (induction d) (auto simp: py_key_eq_str_iff split: if_splits)

lemma dict_set_str_new: "PStr k \<notin> fst ` set d \<Longrightarrow> dict_set d (PStr k) v = d @ [(PStr k, v)]"
  by (induction d) (auto simp: py_key_eq_str_iff)

lemma dict_get_dict_set_str [simp]: "dict_get (dict_set d (PStr k) v) (PStr k) = Some v"
  by (induction d) (auto simp: py_key_eq_str_iff)

lemma dict_set_dict_set_str [simp]: "dict_set (dict_set d (PStr k) v) (PStr k) w = dict_set d (PStr k) w"
  by (induction d) (auto simp: py_key_eq_str_iff)

lemma dict_set_str_last [simp]: "PStr k \<notin> fst ` set d \<Longrightarrow> dict_set (d @ [(PStr k, v)]) (PStr k) w = d @ [(PStr k, w)]"
  by (induction d) (auto simp: py_key_eq_str_iff)

lemma dict_set_same_str: "dict_get d (PStr k) = Some v \<Longrightarrow> dict_set d (PStr k) v = d"
  by (induction d) (auto simp: py_key_eq_str_iff split: if_splits)

lemma dict_get_dict_set: "dict_get (dict_set d k v) k' = (if key_eq k' k then Some v else dict_get d k')"
  by (induction d) (auto simp: key_eq_def)

lemma dict_get_fold_set:
  "dict_get (fold (\<lambda>(k, v) d. dict_set d k v) items d0) k' =
     (case filter (\<lambda>(k, v). key_eq k' k) items of [] \<Rightarrow> dict_get d0 k' | xs \<Rightarrow> Some (snd (last xs)))"
proof (induction items arbitrary: d0)
  case (Cons kv items)
  then show ?case
    by (cases kv) (auto simp: dict_get_dict_set split: list.splits)
qed simp

lemma dict_get_dict_of_list:
  "dict_get (dict_of_list items) k' =
     (case filter (\<lambda>(k, v). key_eq k' k) items of [] \<Rightarrow> None | xs \<Rightarrow> Some (snd (last xs)))"
  by (simp add: dict_of_list_def dict_get_fold_set split: list.splits)

text \<open>A property of every value survives assignment and \<open>dict(items)\<close>.\<close>

lemma dict_set_values_pres:
  "P v \<Longrightarrow> \<forall>x \<in> set d. P (snd x) \<Longrightarrow> \<forall>x \<in> set (dict_set d k v). P (snd x)"
  by (induction d) (force split: if_splits)+

lemma dict_of_list_values_pres:
  "\<forall>x \<in> set its. P (snd x) \<Longrightarrow> \<forall>x \<in> set (dict_of_list its). P (snd x)"
proof -
  have "\<forall>x \<in> set acc. P (snd x) \<Longrightarrow> \<forall>x \<in> set its. P (snd x) \<Longrightarrow>
        \<forall>x \<in> set (fold (\<lambda>(k, v) d. dict_set d k v) its acc). P (snd x)" for acc
  proof (induction its arbitrary: acc)
    case (Cons kv its)
    obtain k v where kv: "kv = (k, v)" by (cases kv)
    have "\<forall>x \<in> set (dict_set acc k v). P (snd x)"
      using Cons.prems kv by (intro dict_set_values_pres) auto
    with Cons.IH [of "dict_set acc k v"] Cons.prems(2) show ?case by (simp add: kv)
  qed simp
  then show "\<forall>x \<in> set its. P (snd x) \<Longrightarrow> \<forall>x \<in> set (dict_of_list its). P (snd x)"
    unfolding dict_of_list_def by (metis empty_iff list.set(1))
qed


text \<open>\<open>s.split(c)\<close> for a one-character separator has one part more than \<open>s\<close> has \<open>c\<close>s.\<close>

lemma split_on_char_length: "length (split_on [c] cur s) = Suc (count_list s c)"
  by (induction s arbitrary: cur) auto

end
