(* ===== verification/World.thy ===== *)
theory World
  imports PyVal
begin

text \<open>
  The part of the Python runtime that \<open>tbutils\<close> reads or writes, as a record threaded
  through every operation: the lines written to standard output, the calls made to
  \<open>logging.Logger.log\<close>, the process environment \<open>os.environ\<close>, the names in
  \<open>sys.modules\<close>, the state of the \<open>random\<close> module, and the seeds of the numeric
  libraries. The library's own module globals extend this record (\<open>ExecMaxN.tb_state\<close>),
  so the operations on it apply to every extension.
\<close>

section \<open>The runtime state\<close>

text \<open>One call \<open>logger.log(level, msg, *args, **kwargs)\<close>, as the logger receives it.\<close>

record log_call =
  lc_logger :: string
  lc_level :: int
  lc_msg :: pyval
  lc_args :: "pyval list"
  lc_kwargs :: kwargs

text \<open>
  The \<open>random\<close> module: the seed it was last given (\<open>None\<close>: seeded from the
  operating system at start), how many values it has produced since, and the raw value
  it produces at each position of the stream of each seed. The generator itself
  (Mersenne Twister) is not modelled: \<open>rng_stream\<close> is any function, and every property
  below holds for all of them.
\<close>

record world =
  stdout :: "string list"
  log_calls :: "log_call list"
  environ :: "string \<Rightarrow> string option"
  sys_modules :: "string list"
  rng_seed :: "int option"
  rng_pos :: nat
  rng_stream :: "int option \<Rightarrow> nat \<Rightarrow> int"
  np_seed :: "int option"
  torch_seed :: "int option"
  torch_cuda_seed :: "int option"
  torch_cuda_seed_all :: "int option"
  cudnn_deterministic :: bool
  cudnn_enabled :: bool
  cudnn_benchmark :: bool
  tf_seed :: "int option"

section \<open>Primitive effects\<close>

text \<open>\<open>print(s)\<close>: one line on standard output.\<close>

definition py_print :: "string \<Rightarrow> 'z world_scheme \<Rightarrow> 'z world_scheme" where
  "py_print line s = s\<lparr>stdout := stdout s @ [line]\<rparr>"

definition logger_log ::
  "string \<Rightarrow> int \<Rightarrow> pyval \<Rightarrow> pyval list \<Rightarrow> kwargs \<Rightarrow> 'z world_scheme \<Rightarrow> 'z world_scheme" where
  "logger_log logger level msg args kw s =
     s\<lparr>log_calls := log_calls s @
        [\<lparr>lc_logger = logger, lc_level = level, lc_msg = msg, lc_args = args, lc_kwargs = kw\<rparr>]\<rparr>"

text \<open>
  \<open>random.randint(a, b)\<close>: \<open>ValueError\<close> on an empty range, otherwise a value of
  \<open>[a, b]\<close> taken from the current position of the stream, which advances.
\<close>

definition randint :: "int \<Rightarrow> int \<Rightarrow> 'z world_scheme \<Rightarrow> int result \<times> 'z world_scheme" where
  "randint a b s =
     (if b < a then (Inl ValueError, s)
      else (Inr (a + rng_stream s (rng_seed s) (rng_pos s) mod (b - a + 1)),
            s\<lparr>rng_pos := Suc (rng_pos s)\<rparr>))"

text \<open>\<open>random.seed(n)\<close>: restart the stream of seed \<open>n\<close>.\<close>

definition random_seed :: "int \<Rightarrow> 'z world_scheme \<Rightarrow> 'z world_scheme" where
  "random_seed n s = s\<lparr>rng_seed := Some n, rng_pos := 0\<rparr>"

section \<open>Rules\<close>

lemma py_print_stdout [simp, state_simps]: "stdout (py_print l s) = stdout s @ [l]"
  by (simp add: py_print_def)

lemma py_print_frame [simp, state_simps]:
  "log_calls (py_print l s) = log_calls s" "environ (py_print l s) = environ s"
  "rng_seed (py_print l s) = rng_seed s" "rng_pos (py_print l s) = rng_pos s"
  "rng_stream (py_print l s) = rng_stream s" "world.more (py_print l s) = world.more s"
  by (simp_all add: py_print_def)

lemma logger_log_frame [simp, state_simps]:
  "stdout (logger_log lg lv m a k s) = stdout s"
  "log_calls (logger_log lg lv m a k s) = log_calls s @
     [\<lparr>lc_logger = lg, lc_level = lv, lc_msg = m, lc_args = a, lc_kwargs = k\<rparr>]"
  "world.more (logger_log lg lv m a k s) = world.more s"
  by (simp_all add: logger_log_def)

lemma randint_in_range:
  assumes "randint a b s = (Inr r, s')"
  shows "a \<le> r \<and> r \<le> b"
proof -
  from assms have le: "a \<le> b" and r: "r = a + rng_stream s (rng_seed s) (rng_pos s) mod (b - a + 1)"
    by (auto simp: randint_def split: if_splits)
  from le have m: "0 < b - a + 1" by simp
  have "0 \<le> rng_stream s (rng_seed s) (rng_pos s) mod (b - a + 1)"
    using m by (rule pos_mod_sign)
  moreover have "rng_stream s (rng_seed s) (rng_pos s) mod (b - a + 1) < b - a + 1"
    using m by (rule pos_mod_bound)
  ultimately have "0 \<le> rng_stream s (rng_seed s) (rng_pos s) mod (b - a + 1)"
    and "rng_stream s (rng_seed s) (rng_pos s) mod (b - a + 1) \<le> b - a"
    by simp_all
  with r show ?thesis by simp
qed

lemma randint_error_iff: "fst (randint a b s) = Inl e \<longleftrightarrow> b < a \<and> e = ValueError"
  by (auto simp: randint_def)

end
