(* ===== verification/ExecMaxN.thy ===== *)
theory ExecMaxN
  imports World
begin

text \<open>
  \<open>src/tbutils/exec_max_n.py\<close>: rate-limited printing, logging and execution.
  The module keeps two global counter tables, \<open>dict_printing_objs_counter\<close> and
  \<open>dict_log_objs_counter\<close> (\<open>defaultdict(int)\<close>, keyed by a discriminator); they
  extend the runtime record as \<open>tb_state\<close>. \<open>print_max_n\<close> and \<open>log_max_n\<close>
  (and their \<open>once\<close>/\<open>warn\<close> shortcuts) act at most \<open>n\<close> times per discriminator
  key; \<open>exec_max_n\<close> wraps a callable in a function object whose attribute
  \<open>counter\<close> counts down the executions left.
\<close>

section \<open>Module state\<close>

text \<open>
  A \<open>defaultdict(int)\<close> is a total function with default \<open>0\<close>, indexed by the
  hash-normal form of the key (\<open>PyVal.py_key\<close>), so that \<open>True\<close> and \<open>1\<close> share a
  counter as they do in Python.
\<close>

record tb_state = world +
  dict_printing_objs_counter :: "pyval \<Rightarrow> int"
  dict_log_objs_counter :: "pyval \<Rightarrow> int"

text \<open>Importing the module: both tables start empty, every counter reads \<open>0\<close>.\<close>

definition tb_import :: "world \<Rightarrow> tb_state" where
  "tb_import w = world.extend w (tb_state.fields (\<lambda>_. 0) (\<lambda>_. 0))"

lemma tb_import_simps [simp, state_simps]:
  "stdout (tb_import w) = stdout w" "log_calls (tb_import w) = log_calls w"
  "dict_printing_objs_counter (tb_import w) = (\<lambda>_. 0)"
  "dict_log_objs_counter (tb_import w) = (\<lambda>_. 0)"
  by (simp_all add: tb_import_def world.defs tb_state.defs)

lemma effects_keep_counters [simp, state_simps]:
  "dict_printing_objs_counter (py_print l s) = dict_printing_objs_counter s"
  "dict_log_objs_counter (py_print l s) = dict_log_objs_counter s"
  "dict_printing_objs_counter (logger_log lg lv m a k s) = dict_printing_objs_counter s"
  "dict_log_objs_counter (logger_log lg lv m a k s) = dict_log_objs_counter s"
  by (simp_all add: py_print_def logger_log_def)

text \<open>A discriminator function: a callable on one value that may raise.\<close>

type_synonym discr_fn = "pyval \<Rightarrow> pyval result"

definition INFO :: int where "INFO = 20"
definition WARNING :: int where "WARNING = 30"

section \<open>Discriminators\<close>

definition obj_to_discr_obj :: "pyval \<Rightarrow> pyval \<Rightarrow> discr_fn option \<Rightarrow> pyval result" where
  "obj_to_discr_obj obj discr_obj discr_fn =
     (let d = (if discr_obj = PNone then obj else discr_obj)
      in case discr_fn of None \<Rightarrow> Inr d | Some f \<Rightarrow> f d)"

text \<open>
  The counter slot a discriminator selects: subscripting a dict with an unhashable key
  raises \<open>TypeError\<close>.
\<close>

definition counter_key :: "pyval \<Rightarrow> pyval result" where
  "counter_key d = (case py_key d of None \<Rightarrow> Inl TypeError | Some k \<Rightarrow> Inr k)"

text \<open>The text \<open>f"{obj} ({counter+1}/{n})"\<close> of the counting variants.\<close>

definition counted_text :: "pyval \<Rightarrow> int \<Rightarrow> int \<Rightarrow> string" where
  "counted_text obj c n = py_str obj @ '' ('' @ int_str (c + 1) @ ''/'' @ int_str n @ '')''"

section \<open>Printing and logging at most n times\<close>

definition print_max_n ::
  "pyval \<Rightarrow> int \<Rightarrow> pyval \<Rightarrow> discr_fn option \<Rightarrow> bool \<Rightarrow> 'z tb_state_scheme
   \<Rightarrow> pyval result \<times> 'z tb_state_scheme" where
  "print_max_n obj n discr_obj discr_fn show_counter s =
     (case rbind (obj_to_discr_obj obj discr_obj discr_fn) counter_key of
        Inl e \<Rightarrow> (Inl e, s)
      | Inr k \<Rightarrow>
          (let c = dict_printing_objs_counter s k in
           if c < n then
             (Inr PNone,
              (py_print (if show_counter then counted_text obj c n else py_str obj) s)
                \<lparr>dict_printing_objs_counter := (dict_printing_objs_counter s)(k := c + 1)\<rparr>)
           else (Inr PNone, s)))"

definition print_once ::
  "pyval \<Rightarrow> pyval \<Rightarrow> discr_fn option \<Rightarrow> bool \<Rightarrow> 'z tb_state_scheme
   \<Rightarrow> pyval result \<times> 'z tb_state_scheme" where
  "print_once obj discr_obj discr_fn show_counter s =
     print_max_n obj 1 discr_obj discr_fn show_counter s"

definition log_max_n ::
  "string \<Rightarrow> pyval \<Rightarrow> int \<Rightarrow> pyval \<Rightarrow> discr_fn option \<Rightarrow> int \<Rightarrow> bool \<Rightarrow> pyval list \<Rightarrow> kwargs
   \<Rightarrow> 'z tb_state_scheme \<Rightarrow> pyval result \<times> 'z tb_state_scheme" where
  "log_max_n logger obj n discr_obj discr_fn level show_counter args kw s =
     (case rbind (obj_to_discr_obj obj discr_obj discr_fn) counter_key of
        Inl e \<Rightarrow> (Inl e, s)
      | Inr k \<Rightarrow>
          (let c = dict_log_objs_counter s k in
           if c < n then
             (Inr PNone,
              (logger_log logger level
                 (if show_counter then PStr (counted_text obj c n) else obj) args kw s)
                \<lparr>dict_log_objs_counter := (dict_log_objs_counter s)(k := c + 1)\<rparr>)
           else (Inr PNone, s)))"

definition log_once ::
  "string \<Rightarrow> pyval \<Rightarrow> pyval \<Rightarrow> discr_fn option \<Rightarrow> int \<Rightarrow> bool \<Rightarrow> pyval list \<Rightarrow> kwargs
   \<Rightarrow> 'z tb_state_scheme \<Rightarrow> pyval result \<times> 'z tb_state_scheme" where
  "log_once logger obj discr_obj discr_fn level show_counter args kw s =
     log_max_n logger obj 1 discr_obj discr_fn level show_counter args kw s"

definition warn_max_n ::
  "string \<Rightarrow> pyval \<Rightarrow> int \<Rightarrow> pyval \<Rightarrow> discr_fn option \<Rightarrow> bool \<Rightarrow> pyval list \<Rightarrow> kwargs
   \<Rightarrow> 'z tb_state_scheme \<Rightarrow> pyval result \<times> 'z tb_state_scheme" where
  "warn_max_n logger obj n discr_obj discr_fn show_counter args kw s =
     log_max_n logger obj n discr_obj discr_fn WARNING show_counter args kw s"

definition warn_once ::
  "string \<Rightarrow> pyval \<Rightarrow> pyval \<Rightarrow> discr_fn option \<Rightarrow> bool \<Rightarrow> pyval list \<Rightarrow> kwargs
   \<Rightarrow> 'z tb_state_scheme \<Rightarrow> pyval result \<times> 'z tb_state_scheme" where
  "warn_once logger obj discr_obj discr_fn show_counter args kw s =
     log_once logger obj discr_obj discr_fn WARNING show_counter args kw s"

section \<open>Executing at most n times\<close>

text \<open>
  A callable of the program: called with positional and keyword arguments on the state
  \<open>'w\<close>, it returns a value or raises, and changes the state. A criterion is a
  callable whose result is used for its truth value.
\<close>

type_synonym 'w action = "pyval list \<Rightarrow> kwargs \<Rightarrow> 'w \<Rightarrow> pyval result \<times> 'w"

type_synonym criteria = "pyval list \<Rightarrow> kwargs \<Rightarrow> pyval result"

text \<open>What is passed as \<open>func\<close>: a function (with its \<open>__name__\<close>) or another value.\<close>

datatype 'w func_arg = Callable string "'w action" | NotCallable pyval

text \<open>
  The function object \<open>wrapper\<close> that \<open>exec_max_n\<close> returns: the closure's free
  variables and the attribute \<open>wrapper.counter\<close>.
\<close>

record 'w wrapper =
  w_name :: string
  w_func :: "'w action"
  w_n :: int
  w_criteria :: "criteria option"
  w_show_counter :: bool
  counter :: int

definition exec_max_n ::
  "'w func_arg \<Rightarrow> int \<Rightarrow> criteria option \<Rightarrow> bool \<Rightarrow> 'w wrapper result" where
  "exec_max_n func n criteria_exec show_counter =
     (case func of
        NotCallable v \<Rightarrow> Inl (AssertionError [PStr (''Expected a callable, got '' @ py_str v)])
      | Callable name f \<Rightarrow>
          Inr \<lparr>w_name = name, w_func = f, w_n = n, w_criteria = criteria_exec,
               w_show_counter = show_counter, counter = n\<rparr>)"

definition exec_once :: "'w func_arg \<Rightarrow> criteria option \<Rightarrow> bool \<Rightarrow> 'w wrapper result" where
  "exec_once func criteria_exec show_counter = exec_max_n func 1 criteria_exec show_counter"

text \<open>The message \<open>f"{func.__name__} was called ({n-wrapper.counter+1}/{n})"\<close>.\<close>

definition called_text :: "string \<Rightarrow> int \<Rightarrow> int \<Rightarrow> string" where
  "called_text name n c = name @ '' was called ('' @ int_str (n - c + 1) @ ''/'' @ int_str n @ '')''"

text \<open>
  One call \<open>wrapper(*args, **kwargs)\<close>. A criterion that raises propagates its
  exception; a false criterion returns \<open>None\<close>; otherwise, while the counter is positive,
  the message is printed (with \<open>show_counter\<close>), the counter is decremented and only
  then is \<open>func\<close> called, so an exception of \<open>func\<close> still consumes the execution.
\<close>

definition wrapper_call ::
  "'z world_scheme wrapper \<Rightarrow> pyval list \<Rightarrow> kwargs \<Rightarrow> 'z world_scheme
   \<Rightarrow> pyval result \<times> 'z world_scheme wrapper \<times> 'z world_scheme" where
  "wrapper_call w args kw s =
     (let run =
        (if 0 < counter w then
           (let s1 = (if w_show_counter w then py_print (called_text (w_name w) (w_n w) (counter w)) s else s);
                (r, s2) = w_func w args kw s1
            in (r, w\<lparr>counter := counter w - 1\<rparr>, s2))
         else (Inr PNone, w, s))
      in case w_criteria w of
           None \<Rightarrow> run
         | Some crit \<Rightarrow>
             (case crit args kw of
                Inl e \<Rightarrow> (Inl e, w, s)
              | Inr b \<Rightarrow> if py_truthy b then run else (Inr PNone, w, s)))"

section \<open>Runs of print requests\<close>

text \<open>
  A print request: the arguments \<open>obj\<close>, \<open>discr_obj\<close>, \<open>discr_fn\<close> of one call of
  \<open>print_max_n\<close>; a run makes the calls one after the other with the same \<open>n\<close> and
  \<open>show_counter\<close>.
\<close>

type_synonym print_req = "pyval \<times> pyval \<times> discr_fn option"

definition req_key :: "print_req \<Rightarrow> pyval result" where
  "req_key r = (case r of (obj, d, f) \<Rightarrow> rbind (obj_to_discr_obj obj d f) counter_key)"

fun print_run :: "int \<Rightarrow> bool \<Rightarrow> print_req list \<Rightarrow> 'z tb_state_scheme \<Rightarrow> 'z tb_state_scheme" where
  "print_run n sc [] s = s"
| "print_run n sc ((obj, d, f) # rs) s = print_run n sc rs (snd (print_max_n obj n d f sc s))"

text \<open>A run of \<open>log_max_n\<close> calls on one logger with the same \<open>n\<close>, level and arguments.\<close>

fun log_run ::
  "string \<Rightarrow> int \<Rightarrow> int \<Rightarrow> bool \<Rightarrow> pyval list \<Rightarrow> kwargs \<Rightarrow> print_req list
   \<Rightarrow> 'z tb_state_scheme \<Rightarrow> 'z tb_state_scheme" where
  "log_run lg n lv sc args kw [] s = s"
| "log_run lg n lv sc args kw ((obj, d, f) # rs) s =
     log_run lg n lv sc args kw rs (snd (log_max_n lg obj n d f lv sc args kw s))"

text \<open>
  The abstract specification: a request is printed exactly when fewer than \<open>n\<close> of the
  requests before it have its key. It mentions no counter.
\<close>

definition first_n_per_key :: "int \<Rightarrow> ('a \<Rightarrow> 'k) \<Rightarrow> 'a list \<Rightarrow> 'a list" where
  "first_n_per_key n key xs =
     map fst (filter (\<lambda>(x, i). int (count_list (map key (take i xs)) (key x)) < n)
                     (zip xs [0..<length xs]))"

lemma first_n_per_key_snoc:
  "first_n_per_key n key (xs @ [x]) =
     first_n_per_key n key xs @ (if int (count_list (map key xs) (key x)) < n then [x] else [])"
proof -
  have "\<forall>p \<in> set (zip xs [0..<length xs]). snd p < length xs"
    by (auto simp: set_zip)
  then have "filter (\<lambda>(y, i). int (count_list (map key (take i (xs @ [x]))) (key y)) < n)
               (zip xs [0..<length xs])
           = filter (\<lambda>(y, i). int (count_list (map key (take i xs)) (key y)) < n)
               (zip xs [0..<length xs])"
    by (intro filter_cong) auto
  then show ?thesis by (simp add: first_n_per_key_def)
qed

lemma first_n_per_key_Nil [simp]: "first_n_per_key n key [] = []"
  by (simp add: first_n_per_key_def)

lemma count_first_n_per_key:
  "int (count_list (map key (first_n_per_key n key xs)) k) = min (max 0 n) (int (count_list (map key xs) k))"
proof (induction xs rule: rev_induct)
  case Nil
  then show ?case by simp
next
  case (snoc x xs)
  then show ?case by (auto simp: first_n_per_key_snoc)
qed

lemma print_run_snoc:
  "print_run n sc (rs @ [(obj, d, f)]) s = snd (print_max_n obj n d f sc (print_run n sc rs s))"
  by (induction n sc rs s rule: print_run.induct) auto

text \<open>The effect of one call whose discriminator yields the key \<open>k\<close>.\<close>

lemma print_max_n_key:
  assumes "req_key (obj, d, f) = Inr k"
  shows "print_max_n obj n d f sc s =
    (let c = dict_printing_objs_counter s k in
     if c < n then
       (Inr PNone,
        (py_print (if sc then counted_text obj c n else py_str obj) s)
          \<lparr>dict_printing_objs_counter := (dict_printing_objs_counter s)(k := c + 1)\<rparr>)
     else (Inr PNone, s))"
  using assms by (simp add: print_max_n_def req_key_def)

lemma print_max_n_error:
  assumes "req_key (obj, d, f) = Inl e"
  shows "print_max_n obj n d f sc s = (Inl e, s)"
  using assms by (simp add: print_max_n_def req_key_def)

definition req_obj :: "print_req \<Rightarrow> pyval" where
  "req_obj r = fst r"

text \<open>
  Refinement: from fresh counters, a run of requests whose keys are all computed leaves
  every counter at \<open>min (max 0 n)\<close> of the number of requests with that key, and
  prints the \<open>str\<close> of exactly the requests \<open>first_n_per_key\<close> keeps, in order.
\<close>

lemma print_run_refines:
  assumes keys: "\<forall>r \<in> set rs. req_key r = Inr (key r)"
    and fresh: "\<forall>k. dict_printing_objs_counter s k = 0"
  shows "dict_printing_objs_counter (print_run n False rs s) k
           = min (max 0 n) (int (count_list (map key rs) k))
         \<and> stdout (print_run n False rs s)
           = stdout s @ map (py_str \<circ> req_obj) (first_n_per_key n key rs)"
  using keys
proof (induction rs arbitrary: k rule: rev_induct)
  case Nil
  then show ?case using fresh by simp
next
  case (snoc r rs)
  obtain obj d f where r: "r = (obj, d, f)" by (cases r) auto
  from snoc.prems have IH: "\<And>k. dict_printing_objs_counter (print_run n False rs s) k
           = min (max 0 n) (int (count_list (map key rs) k))"
    "stdout (print_run n False rs s) = stdout s @ map (py_str \<circ> req_obj) (first_n_per_key n key rs)"
    using snoc.IH by auto
  from snoc.prems r have kr: "req_key (obj, d, f) = Inr (key r)" by simp
  show ?case
    using IH(1) [of "key r"] IH
    by (auto simp: r print_run_snoc print_max_n_key [OF kr] first_n_per_key_snoc req_obj_def
             Let_def)
qed

lemma log_run_snoc:
  "log_run lg n lv sc args kw (rs @ [(obj, d, f)]) s
     = snd (log_max_n lg obj n d f lv sc args kw (log_run lg n lv sc args kw rs s))"
  by (induction lg n lv sc args kw rs s rule: log_run.induct) auto

lemma log_max_n_key:
  assumes "req_key (obj, d, f) = Inr k"
  shows "log_max_n lg obj n d f lv sc args kw s =
    (let c = dict_log_objs_counter s k in
     if c < n then
       (Inr PNone,
        (logger_log lg lv (if sc then PStr (counted_text obj c n) else obj) args kw s)
          \<lparr>dict_log_objs_counter := (dict_log_objs_counter s)(k := c + 1)\<rparr>)
     else (Inr PNone, s))"
  using assms by (simp add: log_max_n_def req_key_def)

text \<open>
  The same refinement for the logging side: from fresh log counters, a run logs exactly
  the requests \<open>first_n_per_key\<close> keeps, each with the run's level and arguments.
\<close>

lemma log_run_refines:
  assumes keys: "\<forall>r \<in> set rs. req_key r = Inr (key r)"
    and fresh: "\<forall>k. dict_log_objs_counter s k = 0"
  shows "dict_log_objs_counter (log_run lg n lv False args kw rs s) k
           = min (max 0 n) (int (count_list (map key rs) k))
         \<and> log_calls (log_run lg n lv False args kw rs s)
           = log_calls s @ map (\<lambda>r. \<lparr>lc_logger = lg, lc_level = lv, lc_msg = req_obj r,
                                       lc_args = args, lc_kwargs = kw\<rparr>) (first_n_per_key n key rs)"
  using keys
proof (induction rs arbitrary: k rule: rev_induct)
  case Nil
  then show ?case using fresh by simp
next
  case (snoc r rs)
  obtain obj d f where r: "r = (obj, d, f)" by (cases r) auto
  from snoc.prems have IH: "\<And>k. dict_log_objs_counter (log_run lg n lv False args kw rs s) k
           = min (max 0 n) (int (count_list (map key rs) k))"
    "log_calls (log_run lg n lv False args kw rs s)
       = log_calls s @ map (\<lambda>r. \<lparr>lc_logger = lg, lc_level = lv, lc_msg = req_obj r,
                                  lc_args = args, lc_kwargs = kw\<rparr>) (first_n_per_key n key rs)"
    using snoc.IH by auto
  from snoc.prems r have kr: "req_key (obj, d, f) = Inr (key r)" by simp
  show ?case
    using IH(1) [of "key r"] IH
    by (auto simp: r log_run_snoc log_max_n_key [OF kr] first_n_per_key_snoc req_obj_def Let_def)
qed

section \<open>Runs of a wrapper\<close>

text \<open>
  A sequence of calls of one wrapper, each with its arguments; every call's result (a
  value or the exception it raised) is recorded and the next call is made on the
  wrapper and the state the previous one left.
\<close>

type_synonym call = "pyval list \<times> kwargs"

fun wrapper_run ::
  "'z world_scheme wrapper \<Rightarrow> call list \<Rightarrow> 'z world_scheme
   \<Rightarrow> pyval result list \<times> 'z world_scheme wrapper \<times> 'z world_scheme" where
  "wrapper_run w [] s = ([], w, s)"
| "wrapper_run w ((a, k) # cs) s =
     (case wrapper_call w a k s of
        (r, w', s') \<Rightarrow> (case wrapper_run w' cs s' of (rs, w'', s'') \<Rightarrow> (r # rs, w'', s'')))"

text \<open>Whether a call gets past the criterion: it is absent, or returns a true value.\<close>

definition crit_pass :: "criteria option \<Rightarrow> call \<Rightarrow> bool" where
  "crit_pass crit c =
     (case crit of
        None \<Rightarrow> True
      | Some f \<Rightarrow> (case f (fst c) (snd c) of Inl _ \<Rightarrow> False | Inr b \<Rightarrow> py_truthy b))"

text \<open>The specification's side: the calls made to \<open>func\<close>, one after the other.\<close>

fun run_actions :: "'w action \<Rightarrow> call list \<Rightarrow> 'w \<Rightarrow> 'w" where
  "run_actions f [] s = s"
| "run_actions f ((a, k) # cs) s = run_actions f cs (snd (f a k s))"

lemma wrapper_call_skip:
  "\<not> crit_pass (w_criteria w) (a, k) \<Longrightarrow> snd (wrapper_call w a k s) = (w, s)"
  by (auto simp: wrapper_call_def crit_pass_def split: option.splits sum.splits)

lemma wrapper_call_exhausted:
  "counter w \<le> 0 \<Longrightarrow> snd (wrapper_call w a k s) = (w, s)"
  by (auto simp: wrapper_call_def Let_def split: option.splits sum.splits)

lemma wrapper_call_exec:
  assumes "crit_pass (w_criteria w) (a, k)" and "0 < counter w"
  shows "snd (wrapper_call w a k s) =
    (w\<lparr>counter := counter w - 1\<rparr>,
     snd (w_func w a k (if w_show_counter w then py_print (called_text (w_name w) (w_n w) (counter w)) s else s)))"
  using assms
  by (auto simp: wrapper_call_def crit_pass_def Let_def split: option.splits sum.splits prod.splits)

lemma wrapper_run_Cons_snd:
  "snd (wrapper_run w ((a, k) # cs) s) =
     snd (wrapper_run (fst (snd (wrapper_call w a k s))) cs (snd (snd (wrapper_call w a k s))))"
  by (simp split: prod.splits)

text \<open>
  The wrapper's run, abstracted to the calls that reach \<open>func\<close>: the executed calls
  are the first \<open>counter\<close> calls that pass the criterion, and the counter goes down
  by their number (and stays put once it is not positive); without the counter display,
  the state after the run is the state after calling \<open>func\<close> on exactly those calls.
\<close>

definition executed :: "'w wrapper \<Rightarrow> call list \<Rightarrow> call list" where
  "executed w cs = take (nat (counter w)) (filter (crit_pass (w_criteria w)) cs)"

lemma executed_Cons_exec:
  "crit_pass (w_criteria w) (a, k) \<Longrightarrow> 0 < counter w \<Longrightarrow>
   executed w ((a, k) # cs) = (a, k) # executed (w\<lparr>counter := counter w - 1\<rparr>) cs"
  by (simp add: executed_def take_Cons' nat_diff_distrib)

lemma executed_Cons_skip:
  "\<not> crit_pass (w_criteria w) (a, k) \<Longrightarrow> executed w ((a, k) # cs) = executed w cs"
  by (simp add: executed_def)

lemma executed_exhausted: "counter w \<le> 0 \<Longrightarrow> executed w cs = []"
  by (simp add: executed_def)

lemma wrapper_run_refines:
  "counter (fst (snd (wrapper_run w cs s))) =
     (if counter w \<le> 0 then counter w else counter w - int (length (executed w cs)))
   \<and> (\<not> w_show_counter w \<longrightarrow>
        snd (snd (wrapper_run w cs s)) = run_actions (w_func w) (executed w cs) s)"
proof (induction cs arbitrary: w s)
  case Nil
  then show ?case by (simp add: executed_def)
next
  case (Cons c cs)
  obtain a k where c: "c = (a, k)" by (cases c) auto
  consider (skip) "\<not> crit_pass (w_criteria w) (a, k)"
    | (out) "crit_pass (w_criteria w) (a, k)" "counter w \<le> 0"
    | (exec) "crit_pass (w_criteria w) (a, k)" "0 < counter w"
    by linarith
  then show ?case
  proof cases
    case skip
    then have "snd (wrapper_call w a k s) = (w, s)" by (rule wrapper_call_skip)
    with skip Cons.IH [of w s] show ?thesis
      by (simp add: c wrapper_run_Cons_snd executed_Cons_skip del: wrapper_run.simps(2))
  next
    case out
    then have "snd (wrapper_call w a k s) = (w, s)" by (simp add: wrapper_call_exhausted)
    with out Cons.IH [of w s] show ?thesis
      by (simp add: c wrapper_run_Cons_snd executed_exhausted del: wrapper_run.simps(2))
  next
    case exec
    let ?w' = "w\<lparr>counter := counter w - 1\<rparr>"
    let ?s1 = "if w_show_counter w then py_print (called_text (w_name w) (w_n w) (counter w)) s else s"
    from exec have call: "snd (wrapper_call w a k s) = (?w', snd (w_func w a k ?s1))"
      by (rule wrapper_call_exec)
    have "executed ?w' cs = [] \<or> 0 < counter ?w'" by (auto simp: executed_exhausted)
    with exec call Cons.IH [of ?w' "snd (w_func w a k ?s1)"] show ?thesis
      by (auto simp: c wrapper_run_Cons_snd executed_Cons_exec simp del: wrapper_run.simps(2))
  qed
qed

end
