(* ===== verification/Config.thy ===== *)
theory Config
  imports ExecMaxN
begin

text \<open>
  \<open>src/tbutils/config.py\<close>: \<open>try_get\<close> (dotted-path lookup with a default),
  \<open>merge_container\<close>, \<open>get_env_variable\<close> and \<open>instantiate_class\<close>.
  \<open>try_get\<close> splits the key with \<open>str.split\<close>, descends with the operators \<open>in\<close>
  and \<open>[]\<close> (so it inherits their behaviour on strings, lists and scalars), evaluates
  the default, optionally warns once per key through \<open>ExecMaxN.print_once\<close>, and
  returns. The abstract contract is \<open>cfg_lookup\<close>: descent through dicts only.
\<close>

section \<open>Defaults\<close>

text \<open>
  The code object of a Python function, as far as \<open>try_get\<close> and the call
  \<open>default(**kwargs)\<close> see it: \<open>co_varnames\<close> (parameter names, then local
  variable names), the parameters that accept a keyword argument, those without a
  default value, and whether there is a \<open>**kwargs\<close> parameter.
\<close>

record pycode =
  co_varnames :: "string list"
  kw_params :: "string list"
  required_params :: "string list"
  var_kw :: bool

text \<open>
  The argument \<open>default\<close>: a plain value, a Python function (code object and body), or
  a callable without \<open>__code__\<close> (a class or a builtin such as \<open>list\<close>).
\<close>

datatype default_arg =
    DValue pyval
  | DFunction pycode "kwargs \<Rightarrow> pyval result"
  | DNoCode

text \<open>
  \<open>f(**kwargs)\<close>: a keyword that names no parameter (without \<open>**kwargs\<close>) or a
  required parameter left unbound raises \<open>TypeError\<close>; otherwise the body runs.
\<close>

definition call_kw :: "pycode \<Rightarrow> (kwargs \<Rightarrow> pyval result) \<Rightarrow> kwargs \<Rightarrow> pyval result" where
  "call_kw code body kw =
     (if \<not> var_kw code \<and> (\<exists>(k, _) \<in> set kw. k \<notin> set (kw_params code)) then Inl TypeError
      else if \<exists>p \<in> set (required_params code). p \<notin> fst ` set kw then Inl TypeError
      else body kw)"

text \<open>Lines 43--51 of \<open>try_get\<close>: the default value on a miss.\<close>

definition default_value :: "default_arg \<Rightarrow> pyval \<Rightarrow> string \<Rightarrow> pyval result" where
  "default_value dflt config key =
     (case dflt of
        DValue v \<Rightarrow> Inr v
      | DNoCode \<Rightarrow> Inl AttributeError
      | DFunction code body \<Rightarrow>
          call_kw code body
            ((if ''config'' \<in> set (co_varnames code) then [(''config'', config)] else [])
             @ (if ''key'' \<in> set (co_varnames code) then [(''key'', PStr key)] else [])))"

section \<open>try_get\<close>

text \<open>
  The loop \<open>for subkey in key_split\<close>: \<open>Inl v\<close> when the path is exhausted at
  \<open>v\<close>, \<open>Inr subkey\<close> at the first subkey that is not \<open>in\<close> the current value, or
  the exception that \<open>in\<close> or \<open>[]\<close> raised.
\<close>

fun try_get_path :: "pyval \<Rightarrow> string list \<Rightarrow> (pyval + string) result" where
  "try_get_path v [] = Inr (Inl v)"
| "try_get_path v (k # ks) =
     (case str_in k v of
        Inl e \<Rightarrow> Inl e
      | Inr True \<Rightarrow> rbind (str_getitem v k) (\<lambda>v'. try_get_path v' ks)
      | Inr False \<Rightarrow> Inr (Inr k))"

definition warn_text :: "string \<Rightarrow> string \<Rightarrow> pyval \<Rightarrow> string" where
  "warn_text key subkey dv =
     ''[tbutils.config WARNING] The key '' @ key @ '' is not found ('' @ subkey
     @ '' not in config/subconfig), using a default value: '' @ py_str dv"

definition try_get ::
  "pyval \<Rightarrow> string \<Rightarrow> default_arg \<Rightarrow> bool \<Rightarrow> string \<Rightarrow> 'z tb_state_scheme
   \<Rightarrow> pyval result \<times> 'z tb_state_scheme" where
  "try_get config key dflt warn_if_unvalid sep s =
     (case rbind (py_split key sep) (try_get_path config) of
        Inl e \<Rightarrow> (Inl e, s)
      | Inr (Inl v) \<Rightarrow> (Inr v, s)
      | Inr (Inr subkey) \<Rightarrow>
          (case default_value dflt config key of
             Inl e \<Rightarrow> (Inl e, s)
           | Inr dv \<Rightarrow>
               if warn_if_unvalid
               then (Inr dv, snd (print_once (PStr (warn_text key subkey dv)) (PStr key) None False s))
               else (Inr dv, s)))"

section \<open>The contract: descent through mappings\<close>

text \<open>
  The specification's lookup: follow the path through dicts; a missing key or a
  non-mapping before the end of the path means "not found".
\<close>

fun cfg_lookup :: "pyval \<Rightarrow> string list \<Rightarrow> pyval option" where
  "cfg_lookup v [] = Some v"
| "cfg_lookup (PDict d) (k # ks) = (case dict_get d (PStr k) of None \<Rightarrow> None | Some v \<Rightarrow> cfg_lookup v ks)"
| "cfg_lookup _ (k # ks) = None"

lemma try_get_path_dict:
  "try_get_path (PDict d) (k # ks) =
     (case dict_get d (PStr k) of None \<Rightarrow> Inr (Inr k) | Some v \<Rightarrow> try_get_path v ks)"
  by (cases "dict_get d (PStr k)") auto

lemma try_get_path_found: "cfg_lookup v ks = Some r \<Longrightarrow> try_get_path v ks = Inr (Inl r)"
proof (induction v ks rule: cfg_lookup.induct)
  case (2 d k ks)
  then show ?case by (auto simp: try_get_path_dict split: option.splits)
qed auto

lemma try_get_path_missing: "try_get_path v ks = Inr (Inr k) \<Longrightarrow> cfg_lookup v ks = None"
proof (induction v ks rule: cfg_lookup.induct)
  case (2 d k' ks)
  then show ?case by (auto simp: try_get_path_dict split: option.splits)
qed auto

text \<open>
  Where the code leaves the contract: a non-mapping reached before the end of the path
  makes \<open>in\<close> or \<open>[]\<close> raise \<open>TypeError\<close>, except when \<open>in\<close> says no (a string
  without the subkey as a substring, a list or tuple without it as an element), which is
  the specification's "not found".
\<close>

lemma cfg_lookup_append:
  "cfg_lookup v ks = Some u \<Longrightarrow> cfg_lookup v (ks @ ks') = cfg_lookup u ks'"
  by (induction v ks rule: cfg_lookup.induct) (auto split: option.splits)

lemma try_get_path_append:
  "cfg_lookup v ks = Some u \<Longrightarrow> try_get_path v (ks @ ks') = try_get_path u ks'"
  by (induction v ks rule: cfg_lookup.induct) (auto simp: try_get_path_dict split: option.splits)

lemma try_get_path_cases:
  "(\<exists>r. try_get_path v ks = Inr (Inl r) \<and> cfg_lookup v ks = Some r)
   \<or> try_get_path v ks \<in> Inr ` Inr ` set ks \<and> cfg_lookup v ks = None
   \<or> try_get_path v ks = Inl TypeError \<and> cfg_lookup v ks = None"
proof (induction v ks rule: cfg_lookup.induct)
  case (2 d k ks)
  then show ?case by (auto simp: try_get_path_dict split: option.splits)
qed (auto split: bool.splits)

section \<open>merge_container\<close>

text \<open>
  \<open>OmegaConf.to_container\<close> on a resolver argument: a \<open>ListConfig\<close> becomes a
  list and a \<open>DictConfig\<close> a dict (the model's values are already plain); anything else
  (a primitive, or a plain Python container that is not a config node) raises
  \<open>ValueError\<close>. OmegaConf stores sequences as \<open>ListConfig\<close>, so no node converts
  to a tuple.
\<close>

fun to_container :: "pyval \<Rightarrow> pyval result" where
  "to_container (PList xs) = Inr (PList xs)"
| "to_container (PDict d) = Inr (PDict d)"
| "to_container _ = Inl ValueError"

fun as_list :: "pyval \<Rightarrow> pyval list option" where
  "as_list (PList xs) = Some xs"
| "as_list _ = None"

fun as_dict :: "pyval \<Rightarrow> (pyval \<times> pyval) list option" where
  "as_dict (PDict d) = Some d"
| "as_dict _ = None"

fun as_tuple :: "pyval \<Rightarrow> pyval list option" where
  "as_tuple (PTuple xs) = Some xs"
| "as_tuple _ = None"

text \<open>
  The three \<open>all(isinstance(...))\<close> tests in order, each with its comprehension:
  concatenation for lists and tuples, and for dicts a comprehension in which a later
  container's value for an equal key overwrites the earlier one in place.
\<close>

definition merge_container :: "pyval list \<Rightarrow> pyval result" where
  "merge_container containers =
     rbind (rmap to_container containers) (\<lambda>cs.
       case those (map as_list cs) of
         Some xss \<Rightarrow> Inr (PList (concat xss))
       | None \<Rightarrow>
           (case those (map as_dict cs) of
              Some ds \<Rightarrow> Inr (PDict (dict_of_list (concat ds)))
            | None \<Rightarrow>
                (case those (map as_tuple cs) of
                   Some xss \<Rightarrow> Inr (PTuple (concat xss))
                 | None \<Rightarrow> Inl ValueError)))"

section \<open>get_env_variable\<close>

definition get_env_variable :: "string \<Rightarrow> 'z world_scheme \<Rightarrow> pyval" where
  "get_env_variable name s = (case environ s name of Some v \<Rightarrow> PStr v | None \<Rightarrow> PNone)"

section \<open>register_hydra_resolvers\<close>

text \<open>
  OmegaConf's global resolver registry, as the list of registered names and what each
  resolves with. \<open>OmegaConf.register_new_resolver(name, f)\<close> (with its default
  \<open>replace=False\<close>) raises \<open>ValueError\<close> when the name is already registered and
  registers it otherwise.
\<close>

datatype resolver = RMerge | REval | REnvVariable

type_synonym resolver_table = "(string \<times> resolver) list"

definition register_new_resolver :: "string \<Rightarrow> resolver \<Rightarrow> (unit, resolver_table) stm" where
  "register_new_resolver name r tbl =
     (if name \<in> set (map fst tbl) then (Inl ValueError, tbl) else (Inr (), tbl @ [(name, r)]))"

definition register_hydra_resolvers :: "(unit, resolver_table) stm" where
  "register_hydra_resolvers =
     sseq [register_new_resolver ''merge'' RMerge, register_new_resolver ''eval'' REval,
           register_new_resolver ''env_variable'' REnvVariable]"

definition hydra_names :: "string list" where
  "hydra_names = [''merge'', ''eval'', ''env_variable'']"

section \<open>instantiate_class\<close>

text \<open>
  \<open>importlib.import_module\<close> on each name: the module, as a map from attribute names
  to constructors, or the exception the import raises (\<open>ModuleNotFoundError\<close>, or
  \<open>ValueError\<close> for an empty name). A constructor receives keyword arguments and
  returns the instance or raises.
\<close>

type_synonym constructor = "kwargs \<Rightarrow> pyval result"
type_synonym module_table = "string \<Rightarrow> (string \<Rightarrow> constructor option) result"

definition class_string_error :: py_error where
  "class_string_error = AssertionError [PStr ''The class_string should be specified in the config'']"

text \<open>
  \<open>class_string.split(":")\<close> unpacked into two names: \<open>AttributeError\<close> when the value is
  not a string, \<open>ValueError\<close> unless there are exactly two parts.
\<close>

definition split_class_string :: "pyval \<Rightarrow> (string \<times> string) result" where
  "split_class_string v =
     (case v of
        PStr cs \<Rightarrow> rbind (py_split cs '':'') (\<lambda>parts.
                    case parts of [m, c] \<Rightarrow> Inr (m, c) | _ \<Rightarrow> Inl ValueError)
      | _ \<Rightarrow> Inl AttributeError)"

text \<open>\<open>getattr(module, class_name)\<close>, then \<open>Class(**object_config)\<close> without \<open>class_string\<close>.\<close>

definition instantiate_class :: "module_table \<Rightarrow> kwargs \<Rightarrow> pyval result" where
  "instantiate_class modules kwargs =
     (case map_of kwargs ''class_string'' of
        None \<Rightarrow> Inl class_string_error
      | Some class_string \<Rightarrow>
          rbind (split_class_string class_string) (\<lambda>(module_name, class_name).
            rbind (modules module_name) (\<lambda>module.
              case module class_name of
                None \<Rightarrow> Inl AttributeError
              | Some Class \<Rightarrow> Class (filter (\<lambda>(k, _). k \<noteq> ''class_string'') kwargs))))"

section \<open>Rules for the helpers\<close>

lemma rmap_to_container_shape:
  "rmap to_container cs = Inr cs' \<Longrightarrow> cs' = cs \<and> (\<forall>c \<in> set cs. (\<exists>xs. c = PList xs) \<or> (\<exists>d. c = PDict d))"
proof (induction cs arbitrary: cs')
  case (Cons c cs)
  then show ?case by (cases c) (auto simp: rbind_eq_Inr_iff)
qed simp

lemma rmap_to_container_error: "rmap to_container cs = Inl e \<Longrightarrow> e = ValueError"
proof (induction cs)
  case (Cons c cs)
  then show ?case by (cases c; cases "rmap to_container cs") auto
qed simp

lemma rmap_to_container_lists [simp]: "rmap to_container (map PList xss) = Inr (map PList xss)"
  by (induction xss) auto

lemma rmap_to_container_dicts [simp]: "rmap to_container (map PDict ds) = Inr (map PDict ds)"
  by (induction ds) auto

lemma those_as_list_lists [simp]: "those (map (as_list \<circ> PList) xss) = Some xss"
  by (induction xss) auto

lemma those_as_dict_dicts [simp]: "those (map (as_dict \<circ> PDict) ds) = Some ds"
  by (induction ds) auto

lemma those_as_list_dicts [simp]: "ds \<noteq> [] \<Longrightarrow> those (map (as_list \<circ> PDict) ds) = None"
  by (cases ds) auto

lemma those_map_None: "x \<in> set xs \<Longrightarrow> f x = None \<Longrightarrow> those (map f xs) = None"
  by (induction xs) (auto split: option.splits)

lemma those_as_tuple_containers:
  "\<forall>c \<in> set cs. (\<exists>xs. c = PList xs) \<or> (\<exists>d. c = PDict d) \<Longrightarrow> cs \<noteq> [] \<Longrightarrow> those (map as_tuple cs) = None"
  by (cases cs) auto

lemma split_class_string_ok:
  "CHR '':'' \<notin> set m \<Longrightarrow> CHR '':'' \<notin> set c \<Longrightarrow> split_class_string (PStr (m @ '':'' @ c)) = Inr (m, c)"
  using split_on_char_sep [of "CHR '':''" m "[]" c] split_on_char_plain [of "CHR '':''" c]
  by (simp add: split_class_string_def py_split_def)

lemma split_class_string_no_colon:
  "CHR '':'' \<notin> set cs \<Longrightarrow> split_class_string (PStr cs) = Inl ValueError"
  using split_on_char_plain [of "CHR '':''" cs "[]"]
  by (simp add: split_class_string_def py_split_def)


lemma split_class_string_count:
  "count_list cs CHR '':'' \<noteq> 1 \<Longrightarrow> split_class_string (PStr cs) = Inl ValueError"
  using split_on_char_length [of "CHR '':''" "[]" cs]
  by (auto simp: split_class_string_def py_split_def split: list.split)

lemma merge_container_mixed_error:
  assumes "PList xs \<in> set cs" and "PDict d \<in> set cs"
  shows "merge_container cs = Inl ValueError"
proof (cases "rmap to_container cs")
  case (Inl e)
  then show ?thesis using rmap_to_container_error [OF Inl] by (simp add: merge_container_def)
next
  case (Inr cs')
  with rmap_to_container_shape [OF Inr] have "cs' = cs" by simp
  moreover have "those (map as_list cs) = None" by (rule those_map_None [OF assms(2)]) simp
  moreover have "those (map as_dict cs) = None" by (rule those_map_None [OF assms(1)]) simp
  moreover have "those (map as_tuple cs) = None" by (rule those_map_None [OF assms(1)]) simp
  ultimately show ?thesis using Inr by (simp add: merge_container_def)
qed

lemma register_hydra_resolvers_fresh:
  "set hydra_names \<inter> set (map fst tbl) = {} \<Longrightarrow>
   register_hydra_resolvers tbl = (Inr (), tbl @ [(''merge'', RMerge), (''eval'', REval), (''env_variable'', REnvVariable)])"
  by (auto simp: register_hydra_resolvers_def register_new_resolver_def hydra_names_def sthen_def sbind_def)

text \<open>
  When only a later name is taken, the earlier ones stay registered although the call
  raised.
\<close>

lemma register_hydra_resolvers_partial:
  "''merge'' \<notin> set (map fst tbl) \<Longrightarrow> ''eval'' \<in> set (map fst tbl) \<Longrightarrow>
   register_hydra_resolvers tbl = (Inl ValueError, tbl @ [(''merge'', RMerge)])"
  by (simp add: register_hydra_resolvers_def register_new_resolver_def sthen_def sbind_def)

text \<open>
  C19. \<open>register_hydra_resolvers\<close> can run only once per process: after a call that
  succeeded, a second call raises \<open>ValueError\<close> (OmegaConf refuses to re-register
  \<open>merge\<close> without \<open>replace=True\<close>) and leaves the registry as it was.
\<close>

lemma register_hydra_resolvers_twice:
  "register_hydra_resolvers tbl = (Inr (), tbl') \<Longrightarrow> register_hydra_resolvers tbl' = (Inl ValueError, tbl')"
  by (auto simp: register_hydra_resolvers_def register_new_resolver_def sthen_def sbind_def split: if_splits)

lemma register_hydra_resolvers_twice_witness:
  "register_hydra_resolvers [] = (Inr (), [(''merge'', RMerge), (''eval'', REval), (''env_variable'', REnvVariable)])
   \<and> register_hydra_resolvers [(''merge'', RMerge), (''eval'', REval), (''env_variable'', REnvVariable)]
     = (Inl ValueError, [(''merge'', RMerge), (''eval'', REval), (''env_variable'', REnvVariable)])"
proof -
  have fresh: "register_hydra_resolvers [] = (Inr (), [(''merge'', RMerge), (''eval'', REval), (''env_variable'', REnvVariable)])"
    by (simp add: register_hydra_resolvers_def register_new_resolver_def sthen_def sbind_def)
  show ?thesis using fresh register_hydra_resolvers_twice [OF fresh] by simp
qed

end
