(* ===== verification/Seed.thy ===== *)
theory Seed
  imports Config
begin

text \<open>
  \<open>src/tbutils/seed.py\<close>: \<open>try_get_seed\<close> reads the seed of a run config through
  \<open>Config.try_get\<close>, with a random default drawn from the \<open>random\<close> module, and
  replaces a value that is not an \<open>int\<close> by a fresh random seed, warning once through
  \<open>ExecMaxN.print_once\<close>; \<open>set_seed\<close> seeds \<open>random\<close>, sets
  \<open>PYTHONHASHSEED\<close>, and seeds numpy, PyTorch and TensorFlow when they are in
  \<open>sys.modules\<close>. Both are state transformers of the runtime record.
\<close>

section \<open>try_get_seed\<close>

text \<open>\<open>isinstance(v, int)\<close>: \<open>bool\<close> is a subclass of \<open>int\<close>.\<close>

fun py_isint :: "pyval \<Rightarrow> bool" where
  "py_isint (PInt _) = True"
| "py_isint (PBool _) = True"
| "py_isint _ = False"

definition seed_warning :: "int \<Rightarrow> string" where
  "seed_warning seed = ''[WARNING] The seed is not an integer, using a random seed instead: '' @ int_str seed"

text \<open>
  The default \<open>random.randint(0, seed_max - 1)\<close> is an argument of \<open>try_get\<close>, so it is
  drawn before the lookup, whether or not the config has a seed.
\<close>

definition try_get_seed ::
  "pyval \<Rightarrow> int \<Rightarrow> string \<Rightarrow> bool \<Rightarrow> 'z tb_state_scheme \<Rightarrow> pyval result \<times> 'z tb_state_scheme" where
  "try_get_seed config seed_max key_seed warn_if_unvalid s =
     (case randint 0 (seed_max - 1) s of
        (Inl e, s1) \<Rightarrow> (Inl e, s1)
      | (Inr r, s1) \<Rightarrow>
          (case try_get config key_seed (DValue (PInt r)) False ''.'' s1 of
             (Inl e, s2) \<Rightarrow> (Inl e, s2)
           | (Inr seed, s2) \<Rightarrow>
               if py_isint seed then (Inr seed, s2)
               else
                 (case randint 0 (seed_max - 1) s2 of
                    (Inl e, s3) \<Rightarrow> (Inl e, s3)
                  | (Inr seed', s3) \<Rightarrow>
                      if warn_if_unvalid then
                        (case print_once (PStr (seed_warning seed')) PNone None False s3 of
                           (Inl e, s4) \<Rightarrow> (Inl e, s4)
                         | (Inr _, s4) \<Rightarrow> (Inr (PInt seed'), s4))
                      else (Inr (PInt seed'), s3))))"

section \<open>set_seed\<close>

definition set_seed :: "int \<Rightarrow> 'z world_scheme \<Rightarrow> 'z world_scheme" where
  "set_seed seed s =
     (let s1 = random_seed seed s;
          s2 = s1\<lparr>environ := (environ s1)(''PYTHONHASHSEED'' \<mapsto> int_str seed)\<rparr>;
          s3 = (if ''numpy'' \<in> set (sys_modules s2) then s2\<lparr>np_seed := Some 0\<rparr> else s2);
          s4 = (if ''torch'' \<in> set (sys_modules s3)
                then s3\<lparr>torch_seed := Some seed, torch_cuda_seed := Some seed,
                        torch_cuda_seed_all := Some seed, cudnn_deterministic := True,
                        cudnn_enabled := False, cudnn_benchmark := False\<rparr>
                else s3)
      in if ''tensorflow'' \<in> set (sys_modules s4) then s4\<lparr>tf_seed := Some seed\<rparr> else s4)"

section \<open>Rules\<close>

text \<open>\<open>try_get\<close> and \<open>print_max_n\<close> touch only standard output and the counter tables.\<close>

lemma tb_import_world [simp, state_simps]:
  "rng_seed (tb_import w) = rng_seed w" "rng_pos (tb_import w) = rng_pos w"
  "rng_stream (tb_import w) = rng_stream w" "sys_modules (tb_import w) = sys_modules w"
  "environ (tb_import w) = environ w" "np_seed (tb_import w) = np_seed w"
  by (simp_all add: tb_import_def world.defs tb_state.defs)

lemma print_max_n_rng [simp, state_simps]:
  "rng_seed (snd (print_max_n obj n d f sc s)) = rng_seed s"
  "rng_pos (snd (print_max_n obj n d f sc s)) = rng_pos s"
  "rng_stream (snd (print_max_n obj n d f sc s)) = rng_stream s"
  by (simp_all add: print_max_n_def Let_def split: sum.splits)

lemma try_get_rng [simp, state_simps]:
  "rng_seed (snd (try_get c k d w sep s)) = rng_seed s"
  "rng_pos (snd (try_get c k d w sep s)) = rng_pos s"
  "rng_stream (snd (try_get c k d w sep s)) = rng_stream s"
  by (simp_all add: try_get_def print_once_def split: sum.splits)

lemma try_get_nowarn_state [simp]: "snd (try_get c k d False sep s) = s"
  by (simp add: try_get_def split: sum.splits)

lemma try_get_result_indep: "fst (try_get c k d w sep s) = fst (try_get c k d w' sep t)"
  by (auto simp: try_get_def split: sum.splits)

lemma try_get_fst_found:
  "py_split key sep = Inr ks \<Longrightarrow> cfg_lookup config ks = Some v \<Longrightarrow> fst (try_get config key d w sep s) = Inr v"
  by (simp add: try_get_def try_get_path_found)

lemma try_get_fst_missing:
  "py_split key sep = Inr ks \<Longrightarrow> try_get_path config ks = Inr (Inr k) \<Longrightarrow>
     fst (try_get config key (DValue dv) w sep s) = Inr dv"
  by (simp add: try_get_def default_value_def split: sum.splits)

text \<open>A value \<open>try_get\<close> returns with a plain default is the found value or the default.\<close>

lemma try_get_fst_cases:
  assumes "fst (try_get config key (DValue dv) w sep s) = Inr v"
  shows "(\<exists>ks. py_split key sep = Inr ks \<and> cfg_lookup config ks = Some v) \<or> v = dv"
proof (cases "py_split key sep")
  case (Inr ks)
  then show ?thesis
    using assms try_get_path_cases [of config ks]
    by (auto simp: try_get_def default_value_def split: sum.splits if_splits)
qed (use assms in \<open>simp add: try_get_def\<close>)

lemma randint_Inr:
  "a \<le> b \<Longrightarrow> randint a b s = (Inr (a + rng_stream s (rng_seed s) (rng_pos s) mod (b - a + 1)),
                                  s\<lparr>rng_pos := Suc (rng_pos s)\<rparr>)"
  by (simp add: randint_def)

lemma try_get_nowarn_pair: "\<exists>res. try_get c k d False sep s = (res, s)"
  by (metis prod.collapse try_get_nowarn_state)

lemma print_once_str: "fst (print_once (PStr t) PNone None sc s) = Inr PNone"
  by (simp add: print_once_def print_max_n_def obj_to_discr_obj_def counter_key_def Let_def)

lemma print_once_str_state:
  "stdout (snd (print_once (PStr t) PNone None False s)) =
     stdout s @ (if dict_printing_objs_counter s (PStr t) < 1 then [t] else [])"
  "rng_pos (snd (print_once (PStr t) PNone None False s)) = rng_pos s"
  by (simp_all add: print_once_def print_max_n_def obj_to_discr_obj_def counter_key_def Let_def)

lemma try_get_seed_draw:
  assumes "0 < seed_max"
  shows "try_get_seed config seed_max key w s =
    (let r = rng_stream s (rng_seed s) (rng_pos s) mod seed_max;
         s1 = s\<lparr>rng_pos := Suc (rng_pos s)\<rparr>
     in case fst (try_get config key (DValue (PInt r)) False ''.'' s1) of
          Inl e \<Rightarrow> (Inl e, s1)
        | Inr seed \<Rightarrow>
            if py_isint seed then (Inr seed, s1)
            else
              (let r' = rng_stream s (rng_seed s) (Suc (rng_pos s)) mod seed_max;
                   s3 = s\<lparr>rng_pos := Suc (Suc (rng_pos s))\<rparr>
               in if w then (Inr (PInt r'), snd (print_once (PStr (seed_warning r')) PNone None False s3))
                  else (Inr (PInt r'), s3)))"
proof -
  define r where "r = rng_stream s (rng_seed s) (rng_pos s) mod seed_max"
  define s1 where "s1 = s\<lparr>rng_pos := Suc (rng_pos s)\<rparr>"
  have le: "0 \<le> seed_max - 1" using assms by simp
  have d1: "randint 0 (seed_max - 1) s = (Inr r, s1)"
    by (simp add: randint_Inr [OF le] r_def s1_def)
  obtain res where tg: "try_get config key (DValue (PInt r)) False ''.'' s1 = (res, s1)"
    using try_get_nowarn_pair by blast
  have d2: "randint 0 (seed_max - 1) s1 =
      (Inr (rng_stream s (rng_seed s) (Suc (rng_pos s)) mod seed_max), s\<lparr>rng_pos := Suc (Suc (rng_pos s))\<rparr>)"
    by (simp add: randint_Inr [OF le] s1_def)
  have po: "(case print_once (PStr t) PNone None False st of (Inl e, s4) \<Rightarrow> (Inl e, s4) | (Inr _, s4) \<Rightarrow> (Inr v, s4))
      = (Inr v, snd (print_once (PStr t) PNone None False st))"
    for t v and st :: "'a tb_state_scheme"
    using print_once_str [of t False st] by (cases "print_once (PStr t) PNone None False st") auto
  show ?thesis
    unfolding try_get_seed_def d1
    by (simp add: r_def [symmetric] s1_def [symmetric] tg d2 po Let_def split: sum.splits)
qed

lemma set_seed_fields [simp, state_simps]:
  "rng_seed (set_seed n s) = Some n"
  "rng_pos (set_seed n s) = 0"
  "rng_stream (set_seed n s) = rng_stream s"
  "environ (set_seed n s) = (environ s)(''PYTHONHASHSEED'' \<mapsto> int_str n)"
  "stdout (set_seed n s) = stdout s"
  "log_calls (set_seed n s) = log_calls s"
  "sys_modules (set_seed n s) = sys_modules s"
  "world.more (set_seed n s) = world.more s"
  by (simp_all add: set_seed_def random_seed_def Let_def)

end
