(* ===== verification/Struct.thy ===== *)
theory Struct
  imports PyVal
begin

text \<open>
  \<open>src/tbutils/struct.py\<close>: \<open>get_dict_flattened\<close> turns a nested dict into a flat dict
  whose keys are the paths joined by \<open>sep\<close>; \<open>unflatten_dict\<close> rebuilds the nesting
  by splitting the keys; \<open>get_shape\<close> describes the shape of nested containers,
  optionally asserting that siblings agree. All three are pure functions of their
  arguments; exceptions are results.
\<close>

section \<open>Flattening\<close>

text \<open>\<open>f"{parent_key}{sep}{k}" if parent_key else k\<close>.\<close>

definition flat_key :: "string \<Rightarrow> pyval \<Rightarrow> pyval \<Rightarrow> pyval" where
  "flat_key sep parent k =
     (if py_truthy parent then PStr (py_str parent @ sep @ py_str k) else k)"

definition sep_error :: "string \<Rightarrow> py_error" where
  "sep_error sep = AssertionError [PStr (''Separator '' @ sep @ '' is not allowed in keys'')]"

text \<open>
  The loop over \<open>d.items()\<close> with its accumulated \<open>items\<close>: the assertion on the key,
  then either the items of the flattened sub-dict (itself a \<open>dict(...)\<close>) or the pair.
\<close>

function flat_items :: "string \<Rightarrow> pyval \<Rightarrow> (pyval \<times> pyval) list \<Rightarrow> (pyval \<times> pyval) list result" where
  "flat_items sep parent [] = Inr []"
| "flat_items sep parent ((k, v) # rest) =
     rbind (str_in sep k) (\<lambda>b.
       if b then Inl (sep_error sep)
       else rbind (case v of
                     PDict d \<Rightarrow> rbind (flat_items sep (flat_key sep parent k) d) (\<lambda>its. Inr (dict_of_list its))
                   | _ \<Rightarrow> Inr [(flat_key sep parent k, v)])
              (\<lambda>its. rbind (flat_items sep parent rest) (\<lambda>its'. Inr (its @ its'))))"
  by pat_completeness auto
termination
  by (relation "measure (\<lambda>(sep, parent, xs). size (PDict xs))") auto

definition get_dict_flattened :: "pyval \<Rightarrow> pyval \<Rightarrow> string \<Rightarrow> pyval result" where
  "get_dict_flattened d parent_key sep =
     (case d of
        PDict items \<Rightarrow> rbind (flat_items sep parent_key items) (\<lambda>its. Inr (PDict (dict_of_list its)))
      | _ \<Rightarrow> Inl AttributeError)"

section \<open>Unflattening\<close>

text \<open>
  One key of the input: walk \<open>keys[:-1]\<close> from the result dict, creating empty dicts
  for missing steps, and assign \<open>keys[-1]\<close>. The variable \<open>current\<close> of the source is
  a reference into the result; since every dict on the path was reached from the
  result, updating along the path is the same as mutating through \<open>current\<close>. A
  non-dict met on the way raises \<open>TypeError\<close> (\<open>in\<close> on a scalar, or item assignment
  or string indexing on a string, list or tuple).
\<close>

fun set_path :: "pyval \<Rightarrow> string list \<Rightarrow> string \<Rightarrow> pyval \<Rightarrow> pyval result" where
  "set_path (PDict d) [] lk v = Inr (PDict (dict_set d (PStr lk) v))"
| "set_path (PDict d) (k # ks) lk v =
     (let d1 = (if dict_get d (PStr k) = None then dict_set d (PStr k) (PDict []) else d)
      in case dict_get d1 (PStr k) of
           None \<Rightarrow> Inl TypeError
         | Some sub \<Rightarrow> rbind (set_path sub ks lk v) (\<lambda>sub'. Inr (PDict (dict_set d1 (PStr k) sub'))))"
| "set_path _ ks lk v = Inl TypeError"

fun unflatten_items :: "string \<Rightarrow> pyval \<Rightarrow> (pyval \<times> pyval) list \<Rightarrow> pyval result" where
  "unflatten_items sep res [] = Inr res"
| "unflatten_items sep res ((PStr key, value) # rest) =
     rbind (py_split key sep) (\<lambda>keys.
       rbind (set_path res (butlast keys) (last keys) value) (\<lambda>res'. unflatten_items sep res' rest))"
| "unflatten_items sep res ((_, value) # rest) = Inl AttributeError"

definition unflatten_dict :: "pyval \<Rightarrow> string \<Rightarrow> pyval result" where
  "unflatten_dict d sep =
     (case d of PDict items \<Rightarrow> unflatten_items sep (PDict []) items | _ \<Rightarrow> Inl AttributeError)"

section \<open>Shapes\<close>

text \<open>
  The container types that may be listed in \<open>authorized_types\<close> (\<open>np.ndarray\<close> and
  \<open>set\<close> are not values of the model); the default is list, tuple and dict.
\<close>

datatype ctype = CList | CTuple | CDict

fun ctype_of :: "pyval \<Rightarrow> ctype option" where
  "ctype_of (PList _) = Some CList"
| "ctype_of (PTuple _) = Some CTuple"
| "ctype_of (PDict _) = Some CDict"
| "ctype_of _ = None"

definition is_authorized :: "ctype list \<Rightarrow> pyval \<Rightarrow> bool" where
  "is_authorized auth v = (case ctype_of v of Some t \<Rightarrow> t \<in> set auth | None \<Rightarrow> False)"

definition default_authorized :: "ctype list" where
  "default_authorized = [CList, CTuple, CDict]"

fun elems :: "pyval \<Rightarrow> pyval list" where
  "elems (PList xs) = xs"
| "elems (PTuple xs) = xs"
| "elems (PDict d) = map fst d"
| "elems _ = []"

text \<open>\<open>(len(obj), *first_shape)\<close>: iterating a tuple gives its items, a string its characters.\<close>

fun splat :: "pyval \<Rightarrow> pyval list" where
  "splat (PTuple xs) = xs"
| "splat (PStr s) = map (\<lambda>c. PStr [c]) s"
| "splat _ = []"

definition shape_error :: "pyval list \<Rightarrow> py_error" where
  "shape_error subs = AssertionError [PStr ''All sub-objects must have the same shape, but got: '', PList subs]"

function get_shape :: "ctype list \<Rightarrow> bool \<Rightarrow> pyval \<Rightarrow> pyval result" where
  "get_shape auth strict obj =
     (if is_authorized auth obj then
        (if elems obj = [] then Inr (PTuple [PInt 0])
         else case obj of
           PDict d \<Rightarrow>
             rbind (get_shape auth strict (PList (map snd d))) (\<lambda>sh.
               Inr (PStr (''Dict('' @ int_str (int (length d)) @ '' keys to '' @ py_str sh @ '')'')))
         | _ \<Rightarrow>
             rbind (get_shape auth strict (hd (elems obj))) (\<lambda>first.
               rbind (if strict
                      then rbind (rmap (get_shape auth strict) (elems obj)) (\<lambda>subs.
                             if \<exists>sh \<in> set subs. sh \<noteq> first then Inl (shape_error subs) else Inr ())
                      else Inr ())
                 (\<lambda>_. Inr (PTuple (PInt (int (length (elems obj))) # splat first)))))
      else Inr (PTuple []))"
  by pat_completeness auto
termination
proof (relation "measure (\<lambda>(auth, strict, v). size v)")
  show "wf (measure (\<lambda>(auth, strict, v). size v))" by simp
qed (auto simp: is_authorized_def size_values_less_size_list split: option.splits)

declare get_shape.simps [simp del]

section \<open>Flatness\<close>

text \<open>Whether a value is a dict; the flattened dict has no dict among its values.\<close>

fun is_dict :: "pyval \<Rightarrow> bool" where
  "is_dict (PDict _) = True"
| "is_dict _ = False"

lemma flat_items_no_dict:
  "flat_items sep parent d = Inr its \<Longrightarrow> \<forall>x \<in> set its. \<not> is_dict (snd x)"
proof (induction sep parent d arbitrary: its rule: flat_items.induct)
  case (2 sep parent k v rest)
  from "2.prems" obtain b where b: "str_in sep k = Inr b" and nb: "\<not> b"
    by (cases "str_in sep k") (auto split: if_splits)
  show ?case
  proof (cases "is_dict v")
    case True
    then obtain d where v: "v = PDict d" by (cases v) auto
    from "2.prems" b nb v obtain its1 its2 where
      i1: "flat_items sep (flat_key sep parent k) d = Inr its1" and
      i2: "flat_items sep parent rest = Inr its2" and its: "its = dict_of_list its1 @ its2"
      by (auto simp: rbind_eq_Inr_iff)
    have "\<forall>x \<in> set (dict_of_list its1). \<not> is_dict (snd x)"
      using "2.IH"(1) [OF nb v i1] by (rule dict_of_list_values_pres)
    moreover have "\<forall>x \<in> set its2. \<not> is_dict (snd x)" using "2.IH"(2) nb i2 by blast
    ultimately show ?thesis using its by auto
  next
    case False
    from "2.prems" b nb False obtain its2 where
      i2: "flat_items sep parent rest = Inr its2" and its: "its = (flat_key sep parent k, v) # its2"
      by (cases v) (auto simp: rbind_eq_Inr_iff)
    have "\<forall>x \<in> set its2. \<not> is_dict (snd x)" using "2.IH"(2) nb i2 by blast
    with False its show ?thesis by auto
  qed
qed simp

section \<open>The round trip of flattening\<close>

text \<open>
  The leaves of a nested dict with string keys: each non-dict value with its path of
  keys, in the order \<open>get_dict_flattened\<close> visits them.
\<close>

function leaves :: "(pyval \<times> pyval) list \<Rightarrow> (string list \<times> pyval) list" where
  "leaves [] = []"
| "leaves ((k, PDict d) # rest) = map (\<lambda>(ks, v). (py_str k # ks, v)) (leaves d) @ leaves rest"
| "leaves ((k, PNone) # rest) = ([py_str k], PNone) # leaves rest"
| "leaves ((k, PBool b) # rest) = ([py_str k], PBool b) # leaves rest"
| "leaves ((k, PInt i) # rest) = ([py_str k], PInt i) # leaves rest"
| "leaves ((k, PStr t) # rest) = ([py_str k], PStr t) # leaves rest"
| "leaves ((k, PList xs) # rest) = ([py_str k], PList xs) # leaves rest"
| "leaves ((k, PTuple xs) # rest) = ([py_str k], PTuple xs) # leaves rest"
  by pat_completeness auto
termination
  by (relation "measure (\<lambda>xs. size (PDict xs))") auto

text \<open>
  The dicts the round trip is about: string keys without the separator character,
  distinct at each level, every nested dict non-empty, and (at the top) a non-empty key
  for every dict value, since \<open>get_dict_flattened\<close> does not prefix the children of
  a key that is falsy.
\<close>

function nested_ok :: "char \<Rightarrow> (pyval \<times> pyval) list \<Rightarrow> bool" where
  "nested_ok c d \<longleftrightarrow>
     distinct (map fst d)
     \<and> list_all (\<lambda>kv. (case fst kv of PStr s \<Rightarrow> c \<notin> set s | _ \<Rightarrow> False)
                     \<and> (case snd kv of PDict d' \<Rightarrow> d' \<noteq> [] \<and> nested_ok c d' | _ \<Rightarrow> True)) d"
  by pat_completeness auto
termination
proof (relation "measure (\<lambda>(c, xs). size (PDict xs))")
  show "wf (measure (\<lambda>(c, xs). size (PDict xs)))" by simp
next
  fix c :: char and d :: "(pyval \<times> pyval) list" and kv :: "pyval \<times> pyval" and d'
  assume "kv \<in> set d" and "snd kv = PDict d'"
  then have "(fst kv, PDict d') \<in> set d" by (metis prod.collapse)
  then have "size (PDict d') < size (PDict d)" by (rule size_value_less_dict)
  then show "((c, d'), c, d) \<in> measure (\<lambda>(c, xs). size (PDict xs))" by simp
qed

declare nested_ok.simps [simp del]

definition top_ok :: "(pyval \<times> pyval) list \<Rightarrow> bool" where
  "top_ok d \<longleftrightarrow> list_all (\<lambda>(k, v). case v of PDict _ \<Rightarrow> k \<noteq> PStr [] | _ \<Rightarrow> True) d"

lemma nested_ok_Nil [simp]: "nested_ok c []"
  by (simp add: nested_ok.simps)

lemma nested_ok_Cons:
  "nested_ok c ((k, v) # rest) \<longleftrightarrow>
     k \<notin> fst ` set rest \<and> (\<exists>s. k = PStr s \<and> c \<notin> set s)
     \<and> (case v of PDict d' \<Rightarrow> d' \<noteq> [] \<and> nested_ok c d' | _ \<Rightarrow> True) \<and> nested_ok c rest"
proof -
  have "nested_ok c ((k, v) # rest) \<longleftrightarrow>
     distinct (map fst ((k, v) # rest))
     \<and> list_all (\<lambda>kv. (case fst kv of PStr s \<Rightarrow> c \<notin> set s | _ \<Rightarrow> False)
                     \<and> (case snd kv of PDict d' \<Rightarrow> d' \<noteq> [] \<and> nested_ok c d' | _ \<Rightarrow> True)) ((k, v) # rest)"
    by (rule nested_ok.simps)
  moreover have "nested_ok c rest \<longleftrightarrow>
     distinct (map fst rest)
     \<and> list_all (\<lambda>kv. (case fst kv of PStr s \<Rightarrow> c \<notin> set s | _ \<Rightarrow> False)
                     \<and> (case snd kv of PDict d' \<Rightarrow> d' \<noteq> [] \<and> nested_ok c d' | _ \<Rightarrow> True)) rest"
    by (rule nested_ok.simps)
  moreover have "(case k of PStr s \<Rightarrow> c \<notin> set s | _ \<Rightarrow> False) \<longleftrightarrow> (\<exists>s. k = PStr s \<and> c \<notin> set s)"
    by (cases k) auto
  ultimately show ?thesis by auto
qed

lemma leaves_shape: "\<forall>p \<in> set (leaves d). fst p \<noteq> [] \<and> (\<forall>d'. snd p \<noteq> PDict d')"
  by (induction d rule: leaves.induct) auto

lemma leaves_sep_free: "nested_ok c d \<Longrightarrow> \<forall>p \<in> set (leaves d). \<forall>k \<in> set (fst p). c \<notin> set k"
  by (induction d rule: leaves.induct) (auto simp: nested_ok_Cons)

lemma leaves_hd: "nested_ok c d \<Longrightarrow> \<forall>p \<in> set (leaves d). PStr (hd (fst p)) \<in> fst ` set d"
  by (induction d rule: leaves.induct) (auto simp: nested_ok_Cons)

lemma leaves_single_key:
  "([s], b) \<in> set (leaves rest) \<Longrightarrow> nested_ok c rest \<Longrightarrow> PStr s \<in> fst ` set rest"
  using leaves_hd [of c rest] by force

lemma leaves_distinct: "nested_ok c d \<Longrightarrow> distinct (map fst (leaves d))"
proof (induction d rule: leaves.induct)
  case (2 k d rest)
  then obtain s where k: "k = PStr s" and notin: "k \<notin> fst ` set rest" by (auto simp: nested_ok_Cons)
  have d: "distinct (map fst (leaves d))" and r: "distinct (map fst (leaves rest))"
    using 2 by (auto simp: nested_ok_Cons)
  have "\<forall>p \<in> set (leaves rest). hd (fst p) \<noteq> s"
    using leaves_hd [of c rest] 2(3) notin k by (auto simp: nested_ok_Cons)
  then have "\<forall>p \<in> set (leaves rest). \<forall>q \<in> set (leaves d). fst p \<noteq> s # fst q"
    by fastforce
  with d r k show ?case
    by (auto simp: distinct_map inj_on_def case_prod_beta) (metis fst_conv)
qed (auto simp: nested_ok_Cons dest: leaves_single_key)

lemma fold_dict_set_fresh:
  "\<forall>p \<in> set xs. \<exists>s. fst p = PStr s \<Longrightarrow> distinct (map fst xs) \<Longrightarrow> fst ` set xs \<inter> fst ` set acc = {}
   \<Longrightarrow> fold (\<lambda>(k, v) d. dict_set d k v) xs acc = acc @ xs"
proof (induction xs arbitrary: acc)
  case (Cons p xs)
  obtain s v where p: "p = (PStr s, v)" using Cons.prems(1) by (cases p) auto
  have "dict_set acc (PStr s) v = acc @ [(PStr s, v)]"
    using Cons.prems(3) p by (intro dict_set_str_new) auto
  with Cons show ?case by (auto simp: p)
qed simp

lemma dict_of_list_distinct:
  "\<forall>p \<in> set xs. \<exists>s. fst p = PStr s \<Longrightarrow> distinct (map fst xs) \<Longrightarrow> dict_of_list xs = xs"
  using fold_dict_set_fresh [of xs "[]"] by (simp add: dict_of_list_def)

text \<open>The flat keys under a non-empty prefix are distinct strings.\<close>

lemma flat_keys_distinct:
  assumes "nested_ok c d"
  shows "distinct (map fst (map (\<lambda>(ks, v). (PStr (p @ py_join [c] ks), v)) (leaves d)))"
proof -
  have inj: "inj_on (\<lambda>ks. PStr (p @ py_join [c] ks)) (fst ` set (leaves d))"
    using leaves_shape [of d] leaves_sep_free [OF assms] join_char_inj [of _ _ c]
    by (auto simp: inj_on_def)
  have "distinct (map (\<lambda>ks. PStr (p @ py_join [c] ks)) (map fst (leaves d)))"
    using leaves_distinct [OF assms] inj by (auto simp: distinct_map intro: comp_inj_on)
  then show ?thesis by (simp add: case_prod_beta comp_def)
qed

lemma flat_items_nested:
  "nested_ok c d \<Longrightarrow> p \<noteq> [] \<Longrightarrow>
     flat_items [c] (PStr p) d = Inr (map (\<lambda>(ks, v). (PStr (p @ [c] @ py_join [c] ks), v)) (leaves d))"
proof (induction d arbitrary: p rule: leaves.induct)
  case (2 k d rest)
  from "2.prems" obtain s where k: "k = PStr s" and cs: "c \<notin> set s" and ne: "d \<noteq> []"
    and okd: "nested_ok c d" and okr: "nested_ok c rest"
    by (auto simp: nested_ok_Cons)
  have IHd: "flat_items [c] (PStr (p @ [c] @ s)) d
      = Inr (map (\<lambda>(ks, v). (PStr ((p @ [c] @ s) @ [c] @ py_join [c] ks), v)) (leaves d))"
    using "2.IH"(1) okd by simp
  have dd: "dict_of_list (map (\<lambda>(ks, v). (PStr ((p @ [c] @ s) @ [c] @ py_join [c] ks), v)) (leaves d))
      = map (\<lambda>(ks, v). (PStr ((p @ [c] @ s) @ [c] @ py_join [c] ks), v)) (leaves d)"
    using flat_keys_distinct [OF okd, of "p @ [c] @ s @ [c]"] by (intro dict_of_list_distinct) auto
  have join: "map (\<lambda>(ks, v). (PStr ((p @ [c] @ s) @ [c] @ py_join [c] ks), v)) (leaves d)
      = map (\<lambda>(ks, v). (PStr (p @ [c] @ py_join [c] ks), v)) (map (\<lambda>(ks, v). (s # ks, v)) (leaves d))"
    using leaves_shape [of d] by (auto simp: py_join_Cons)
  show ?case
    using "2.prems"(2) "2.IH"(2) [OF okr "2.prems"(2)] IHd dd join cs
    by (simp add: k flat_key_def str_contains_single)
qed (auto simp: nested_ok_Cons flat_key_def str_contains_single)

lemma flat_items_top:
  "nested_ok c d \<Longrightarrow> top_ok d \<Longrightarrow>
     flat_items [c] (PStr []) d = Inr (map (\<lambda>(ks, v). (PStr (py_join [c] ks), v)) (leaves d))"
proof (induction d rule: leaves.induct)
  case (2 k d rest)
  from "2.prems" obtain s where k: "k = PStr s" and cs: "c \<notin> set s" and ne: "d \<noteq> []"
    and okd: "nested_ok c d" and okr: "nested_ok c rest" and s: "s \<noteq> []" and topr: "top_ok rest"
    by (auto simp: nested_ok_Cons top_ok_def)
  have dd: "dict_of_list (map (\<lambda>(ks, v). (PStr (s @ [c] @ py_join [c] ks), v)) (leaves d))
      = map (\<lambda>(ks, v). (PStr (s @ [c] @ py_join [c] ks), v)) (leaves d)"
    using flat_keys_distinct [OF okd, of "s @ [c]"] by (intro dict_of_list_distinct) auto
  have join: "map (\<lambda>(ks, v). (PStr (s @ [c] @ py_join [c] ks), v)) (leaves d)
      = map (\<lambda>(ks, v). (PStr (py_join [c] ks), v)) (map (\<lambda>(ks, v). (s # ks, v)) (leaves d))"
    using leaves_shape [of d] by (auto simp: py_join_Cons)
  show ?case
    using "2.IH"(2) [OF okr topr] flat_items_nested [OF okd s] dd join cs
    by (simp add: k flat_key_def str_contains_single)
qed (auto simp: nested_ok_Cons top_ok_def flat_key_def str_contains_single)

text \<open>Inserting paths one after the other, as \<open>unflatten_dict\<close> does after splitting.\<close>

fun ins_paths :: "pyval \<Rightarrow> (string list \<times> pyval) list \<Rightarrow> pyval result" where
  "ins_paths r [] = Inr r"
| "ins_paths r ((ks, v) # L) = rbind (set_path r (butlast ks) (last ks) v) (\<lambda>r'. ins_paths r' L)"

lemma ins_paths_append: "ins_paths r (A @ B) = rbind (ins_paths r A) (\<lambda>r'. ins_paths r' B)"
  by (induction r A rule: ins_paths.induct) (auto simp: rbind_def split: sum.splits)

lemma unflatten_items_joined:
  "\<forall>p \<in> set L. fst p \<noteq> [] \<and> (\<forall>k \<in> set (fst p). c \<notin> set k) \<Longrightarrow>
   unflatten_items [c] r (map (\<lambda>(ks, v). (PStr (py_join [c] ks), v)) L) = ins_paths r L"
proof (induction L arbitrary: r)
  case (Cons p L)
  obtain ks v where p: "p = (ks, v)" by (cases p) auto
  have "py_split (py_join [c] ks) [c] = Inr ks"
    using Cons.prems p by (intro split_join_char) auto
  with Cons show ?case by (simp add: p)
qed simp

lemma ins_paths_under_key:
  "dict_get r (PStr k) = Some sub \<Longrightarrow> \<forall>p \<in> set L. fst p \<noteq> [] \<Longrightarrow>
   ins_paths (PDict r) (map (\<lambda>(ks, v). (k # ks, v)) L)
     = rbind (ins_paths sub L) (\<lambda>sub'. Inr (PDict (dict_set r (PStr k) sub')))"
proof (induction L arbitrary: r sub)
  case (Cons p L)
  obtain ks v where p: "p = (ks, v)" and ks: "ks \<noteq> []" using Cons.prems(2) by (cases p) auto
  show ?case
  proof (cases "set_path sub (butlast ks) (last ks) v")
    case (Inl e)
    with Cons.prems(1) ks show ?thesis by (simp add: p)
  next
    case (Inr sub1)
    have "ins_paths (PDict (dict_set r (PStr k) sub1)) (map (\<lambda>(ks, v). (k # ks, v)) L)
        = rbind (ins_paths sub1 L) (\<lambda>sub'. Inr (PDict (dict_set (dict_set r (PStr k) sub1) (PStr k) sub')))"
      using Cons.prems(2) by (intro Cons.IH) auto
    with Inr Cons.prems(1) ks show ?thesis by (simp add: p)
  qed
qed (simp add: dict_set_same_str)

lemma set_path_new_key:
  "dict_get r (PStr k) = None \<Longrightarrow>
   set_path (PDict r) (k # ks) lk v = set_path (PDict (dict_set r (PStr k) (PDict []))) (k # ks) lk v"
  by simp

lemma ins_paths_new_key:
  assumes "dict_get r (PStr k) = None" and "L \<noteq> []"
  shows "ins_paths (PDict r) (map (\<lambda>(ks, v). (k # ks, v)) L)
       = ins_paths (PDict (dict_set r (PStr k) (PDict []))) (map (\<lambda>(ks, v). (k # ks, v)) L)"
proof -
  obtain ks v L' where L: "L = (ks, v) # L'" using assms(2) by (cases L) auto
  show ?thesis
  proof (cases "ks = []")
    case True
    with assms(1) show ?thesis by (simp add: L)
  next
    case False
    then have "butlast (k # ks) = k # butlast ks" by simp
    with assms(1) show ?thesis by (simp add: L)
  qed
qed

lemma leaves_nonempty: "nested_ok c d \<Longrightarrow> d \<noteq> [] \<Longrightarrow> leaves d \<noteq> []"
  by (induction d rule: leaves.induct) (auto simp: nested_ok_Cons)

lemma ins_paths_leaves:
  "nested_ok c d \<Longrightarrow> fst ` set d \<inter> fst ` set r = {} \<Longrightarrow>
   ins_paths (PDict r) (leaves d) = Inr (PDict (r @ d))"
proof (induction d arbitrary: r rule: leaves.induct)
  case (2 k d rest)
  from "2.prems"(1) obtain s where k: "k = PStr s" and ne: "d \<noteq> []"
    and okd: "nested_ok c d" and okr: "nested_ok c rest" and nk: "k \<notin> fst ` set rest"
    by (auto simp: nested_ok_Cons)
  have new: "dict_get r (PStr s) = None"
    using "2.prems"(2) k by (simp add: dict_get_str_None_iff)
  have L: "leaves d \<noteq> []" by (rule leaves_nonempty [OF okd ne])
  have first: "ins_paths (PDict r) (map (\<lambda>(ks, v). (s # ks, v)) (leaves d)) = Inr (PDict (r @ [(PStr s, PDict d)]))"
  proof -
    have "ins_paths (PDict r) (map (\<lambda>(ks, v). (s # ks, v)) (leaves d))
        = ins_paths (PDict (dict_set r (PStr s) (PDict []))) (map (\<lambda>(ks, v). (s # ks, v)) (leaves d))"
      by (rule ins_paths_new_key [OF new L])
    also have "\<dots> = rbind (ins_paths (PDict []) (leaves d))
                      (\<lambda>sub'. Inr (PDict (dict_set (dict_set r (PStr s) (PDict [])) (PStr s) sub')))"
      using leaves_shape [of d] by (intro ins_paths_under_key) auto
    also have "\<dots> = Inr (PDict (dict_set r (PStr s) (PDict d)))"
      using "2.IH"(1) [OF okd, of "[]"] by simp
    also have "\<dots> = Inr (PDict (r @ [(PStr s, PDict d)]))"
      using new by (simp add: dict_set_str_new dict_get_str_None_iff)
    finally show ?thesis .
  qed
  have "fst ` set rest \<inter> fst ` set (r @ [(PStr s, PDict d)]) = {}"
    using "2.prems"(2) nk k by auto
  with "2.IH"(2) [OF okr] first show ?case
    by (simp add: k ins_paths_append)
qed (auto simp: nested_ok_Cons dict_set_str_new)

section \<open>Rules for shapes\<close>

lemma get_shape_dict:
  "is_authorized auth (PDict d) \<Longrightarrow> d \<noteq> [] \<Longrightarrow>
   get_shape auth strict (PDict d) =
     rbind (get_shape auth strict (PList (map snd d))) (\<lambda>sh.
       Inr (PStr (''Dict('' @ int_str (int (length d)) @ '' keys to '' @ py_str sh @ '')'')))"
  by (subst get_shape.simps) simp

lemma get_shape_seq:
  assumes "is_authorized auth obj" and "elems obj \<noteq> []" and "\<forall>d. obj \<noteq> PDict d"
  shows "get_shape auth strict obj =
     rbind (get_shape auth strict (hd (elems obj))) (\<lambda>first.
       rbind (if strict
              then rbind (rmap (get_shape auth strict) (elems obj)) (\<lambda>subs.
                     if \<exists>sh \<in> set subs. sh \<noteq> first then Inl (shape_error subs) else Inr ())
              else Inr ())
         (\<lambda>_. Inr (PTuple (PInt (int (length (elems obj))) # splat first))))"
  unfolding get_shape.simps [of auth strict obj] using assms by (cases obj) auto

lemma get_shape_leaf:
  "\<not> (is_authorized auth obj \<and> elems obj \<noteq> []) \<Longrightarrow>
   get_shape auth strict obj = (if is_authorized auth obj then Inr (PTuple [PInt 0]) else Inr (PTuple []))"
  by (subst get_shape.simps) auto

lemma size_hd_elems: "is_authorized auth obj \<Longrightarrow> elems obj \<noteq> [] \<Longrightarrow> \<forall>d. obj \<noteq> PDict d
   \<Longrightarrow> size (hd (elems obj)) < size obj"
  by (cases obj) (auto simp: is_authorized_def)

lemma get_shape_nonstrict_total: "\<exists>r. get_shape auth False obj = Inr r"
proof (induction "size obj" arbitrary: obj rule: less_induct)
  case less
  show ?case
  proof (cases "is_authorized auth obj \<and> elems obj \<noteq> []")
    case False
    then show ?thesis by (simp add: get_shape_leaf)
  next
    case True
    show ?thesis
    proof (cases "\<exists>d. obj = PDict d")
      case True
      then obtain d where o: "obj = PDict d" by blast
      with \<open>is_authorized auth obj \<and> elems obj \<noteq> []\<close> have a: "is_authorized auth (PDict d)" "d \<noteq> []" by simp_all
      have "size (PList (map snd d)) < size obj" unfolding o using a(2) by (rule size_values_less_dict)
      then obtain r where "get_shape auth False (PList (map snd d)) = Inr r" using less by blast
      then show ?thesis using a by (simp add: o get_shape_dict)
    next
      case False
      with True have "size (hd (elems obj)) < size obj" using size_hd_elems by blast
      then obtain r where "get_shape auth False (hd (elems obj)) = Inr r" using less by blast
      with True False show ?thesis by (simp add: get_shape_seq)
    qed
  qed
qed

lemma get_shape_strict_nonstrict:
  "get_shape auth True obj = Inr r \<Longrightarrow> get_shape auth False obj = Inr r"
proof (induction "size obj" arbitrary: obj r rule: less_induct)
  case less
  show ?case
  proof (cases "is_authorized auth obj \<and> elems obj \<noteq> []")
    case False
    with less.prems show ?thesis by (simp add: get_shape_leaf)
  next
    case True
    show ?thesis
    proof (cases "\<exists>d. obj = PDict d")
      case True
      then obtain d where o: "obj = PDict d" by blast
      with \<open>is_authorized auth obj \<and> elems obj \<noteq> []\<close> have a: "is_authorized auth (PDict d)" "d \<noteq> []" by simp_all
      have lt: "size (PList (map snd d)) < size obj" unfolding o using a(2) by (rule size_values_less_dict)
      from less.prems a obtain sh
        where sh: "get_shape auth True (PList (map snd d)) = Inr sh"
        and r: "r = PStr (''Dict('' @ int_str (int (length d)) @ '' keys to '' @ py_str sh @ '')'')"
        by (auto simp: o get_shape_dict rbind_eq_Inr_iff)
      from less.hyps [OF lt sh] r a show ?thesis by (simp add: o get_shape_dict)
    next
      case False
      with True have lt: "size (hd (elems obj)) < size obj" using size_hd_elems by blast
      from less.prems True False obtain first
        where f: "get_shape auth True (hd (elems obj)) = Inr first"
        and r: "r = PTuple (PInt (int (length (elems obj))) # splat first)"
        by (auto simp: get_shape_seq rbind_eq_Inr_iff split: if_splits)
      from less.hyps [OF lt f] r True False show ?thesis by (simp add: get_shape_seq)
    qed
  qed
qed

end
