(* ===== verification/Examples.thy ===== *)
theory Examples
  imports Seed Struct
begin

text \<open>
  The scripts of \<open>src/examples/\<close>, which exercise the library, as scripts of statements
  on the runtime state (\<open>Prelude.sseq\<close>, \<open>sbind\<close>): each \<open>print\<close> line, each call of a
  library function and each loop of the script in order, an uncaught exception ending
  the run. The functions, lambdas and values the scripts define are definitions here;
  their outputs are computed in \<open>Spec2Isabelle\<close>.
\<close>

section \<open>examples/exec_max_n.py\<close>

definition ex_print :: "string \<Rightarrow> (pyval, 'z world_scheme) stm" where
  "ex_print line s = (Inr PNone, py_print line s)"

text \<open>\<open>test_func\<close> and \<open>test_func2\<close>: each prints a fixed line.\<close>

definition test_func :: "'z world_scheme action" where
  "test_func args kw s = (Inr PNone, py_print ''Will be printed only once'' s)"

definition test_func2 :: "'z world_scheme action" where
  "test_func2 args kw s = (Inr PNone, py_print ''Will be printed only 3 times'' s)"

text \<open>The discriminator \<open>lambda x: x // 10\<close>.\<close>

definition tens :: discr_fn where
  "tens v = (case v of PInt i \<Rightarrow> Inr (PInt (i div 10)) | PBool b \<Rightarrow> Inr (PInt 0) | _ \<Rightarrow> Inl TypeError)"

text \<open>\<open>for _ in range(n): wrapper()\<close>, the wrapper object changing at each call.\<close>

fun wrapper_calls :: "nat \<Rightarrow> 'z world_scheme wrapper \<Rightarrow> ('z world_scheme wrapper, 'z world_scheme) stm" where
  "wrapper_calls 0 w s = (Inr w, s)"
| "wrapper_calls (Suc n) w s =
     (case wrapper_call w [] [] s of
        (Inl e, w', s') \<Rightarrow> (Inl e, s')
      | (Inr _, w', s') \<Rightarrow> wrapper_calls n w' s')"

text \<open>
  The \<open>__main__\<close> block, after \<open>input(...)\<close> has given \<open>show_counter\<close> (the prompt,
  written without a line break before the answer is read, is not part of the model's
  output); the logger is \<open>logging.getLogger("__main__")\<close>, and \<open>logging.basicConfig\<close>
  only sets how its records are formatted.
\<close>

definition exec_example_main :: "bool \<Rightarrow> (unit, tb_state) stm" where
  "exec_example_main show_counter = sseq
     [sdrop (ex_print ''Testing printing functions:''),
      sdrop (print_once (PStr ''Will be printed only once'') PNone None False),
      sdrop (print_once (PStr ''Will be printed only once'') PNone None False),
      sdrop (ex_print []),
      srepeat 5 (print_max_n (PStr ''Will be printed only 3 times'') 3 PNone None show_counter),
      sdrop (ex_print []),
      sdrop (ex_print ''Testing logging functions:''),
      sdrop (log_once ''__main__'' (PStr ''Will be logged only once'') PNone None INFO False [] []),
      sdrop (log_once ''__main__'' (PStr ''Will be logged only once'') PNone None INFO False [] []),
      sdrop (ex_print []),
      srepeat 5 (log_max_n ''__main__'' (PStr ''Will be logged only 3 times'') 3 PNone None INFO show_counter [] []),
      sdrop (ex_print []),
      sdrop (ex_print ''Testing one_time_exec:''),
      sdrop (sbind (slift (exec_once (Callable ''test_func'' test_func) None False)) (wrapper_calls 2)),
      sdrop (sbind (slift (exec_max_n (Callable ''test_func2'' test_func2) 3 None show_counter)) (wrapper_calls 5)),
      sdrop (ex_print []),
      sdrop (ex_print ''Testing discr_obj and discr_fn:''),
      sforeach [5, 9, 13, 14, 15, 16, 25]
        (\<lambda>k. print_once (PStr (''A number of a new ten was detected : '' @ int_str k)) (PInt k) (Some tens) False)]"

section \<open>examples/struct_example.py\<close>

text \<open>The nested dict \<open>d\<close>.\<close>

definition struct_d :: "(pyval \<times> pyval) list" where
  "struct_d = [(PStr ''key1'', PInt 1),
     (PStr ''key2'', PDict [(PStr ''key3'', PInt 3), (PStr ''key4'', PDict [(PStr ''key5'', PInt 5)])]),
     (PStr ''key6'', PDict [(PStr ''key7'', PInt 7)])]"

text \<open>The ragged list \<open>[[[None]*7, [4]], [None, [7, 8]]]\<close>.\<close>

definition ragged :: pyval where
  "ragged = PList [PList [PList (replicate 7 PNone), PList [PInt 4]], PList [PNone, PList [PInt 7, PInt 8]]]"

text \<open>
  \<open>np.array([[1, 2], [3, 4]])\<close>: for \<open>get_shape\<close> an array is authorized, has a length
  and iterates over its rows, whose items (NumPy scalars) are not authorized; the nested
  list of its rows behaves the same. The dict \<open>{1: [1, 2], 2: (1, 2), 3: {1, 2}}\<close> holds
  a set, which is not a value of the model: without \<open>assert_same_shape\<close>, \<open>get_shape\<close>
  reads only the number of values and the first one (\<open>Struct.get_shape_seq\<close>), so the
  set is written as a tuple of the same items.
\<close>

definition np_rows :: pyval where
  "np_rows = PList [PList [PInt 1, PInt 2], PList [PInt 3, PInt 4]]"

definition shape_dict :: pyval where
  "shape_dict = PDict [(PInt 1, PList [PInt 1, PInt 2]), (PInt 2, PTuple [PInt 1, PInt 2]),
                       (PInt 3, PTuple [PInt 1, PInt 2])]"

text \<open>\<open>print(f"{expr=}")\<close>: the text of the expression, \<open>=\<close>, and the \<open>repr\<close> of its value.\<close>

definition print_expr :: "string \<Rightarrow> pyval result \<Rightarrow> (pyval, 'z world_scheme) stm" where
  "print_expr expr r = sbind (slift r) (\<lambda>v. ex_print (expr @ ''='' @ py_repr v))"

text \<open>\<open>str(e)\<close> of an exception with arguments \<open>args\<close>: the argument alone, or the tuple.\<close>

definition exc_str :: "pyval list \<Rightarrow> string" where
  "exc_str args = (case args of [a] \<Rightarrow> py_str a | _ \<Rightarrow> py_repr (PTuple args))"

definition struct_example_main :: "(unit, 'z world_scheme) stm" where
  "struct_example_main = sseq
     [sdrop (ex_print (''Testing get_dict_flattened with '' @ py_str (PDict struct_d))),
      sdrop (sbind (slift (get_dict_flattened (PDict struct_d) (PStr []) ''.'')) (\<lambda>flattened.
        sthen (ex_print (''Flattened: '' @ py_str flattened))
          (sbind (slift (unflatten_dict flattened ''.'')) (\<lambda>unflattened.
            ex_print (''Unflattened: '' @ py_str unflattened))))),
      sdrop (print_expr ''get_shape([[1, 2], [3, 4]])''
        (get_shape default_authorized False (PList [PList [PInt 1, PInt 2], PList [PInt 3, PInt 4]]))),
      sdrop (print_expr ''get_shape(np.array([[1, 2], [3, 4]]))'' (get_shape default_authorized False np_rows)),
      sdrop (print_expr ''get_shape({1: [1, 2], 2: (1, 2), 3: {1, 2}})'' (get_shape default_authorized False shape_dict)),
      sdrop (print_expr ''get_shape([[[None, None, None, None, None, None, None], [4]], [None, [7, 8]]])''
        (get_shape default_authorized False ragged)),
      sdrop (case get_shape default_authorized True ragged of
               Inl (AssertionError args) \<Rightarrow> ex_print (''AssertionError was raised: '' @ exc_str args)
             | Inl e \<Rightarrow> slift (Inl e)
             | Inr v \<Rightarrow> ex_print (''get_shape([[[None, None, None, None, None, None, None], [4]], [None, [7, 8]]], assert_same_shape=True)=''
                                  @ py_repr v))]"

section \<open>examples/config.py\<close>

text \<open>The config \<open>{'a': {'b': {'c': 1}}}\<close>.\<close>

definition cfg_abc :: pyval where
  "cfg_abc = PDict [(PStr ''a'', PDict [(PStr ''b'', PDict [(PStr ''c'', PInt 1)])])]"

text \<open>\<open>lambda config, key: config['a'] * 2\<close>.\<close>

definition double_a_code :: pycode where
  "double_a_code = \<lparr>co_varnames = [''config'', ''key''], kw_params = [''config'', ''key''],
     required_params = [''config'', ''key''], var_kw = False\<rparr>"

definition double_a_body :: "kwargs \<Rightarrow> pyval result" where
  "double_a_body kw =
     (case map_of kw ''config'' of
        Some c \<Rightarrow> rbind (str_getitem c ''a'') (\<lambda>v. case v of PInt i \<Rightarrow> Inr (PInt (2 * i)) | _ \<Rightarrow> Inl TypeError)
      | None \<Rightarrow> Inl TypeError)"

text \<open>
  \<open>Class\<close>, its instance shown by its \<open>repr\<close> (which \<open>str\<close> falls back to), and the
  module table in which \<open>examples.config\<close> defines it.
\<close>

definition example_class :: constructor where
  "example_class kw =
     (case (map_of kw ''arg1'', map_of kw ''arg2'') of
        (Some a, Some b) \<Rightarrow>
          if set (map fst kw) \<subseteq> {''arg1'', ''arg2''}
          then Inr (PStr (''Class(arg1='' @ py_str a @ '', arg2='' @ py_str b @ '')''))
          else Inl TypeError
      | _ \<Rightarrow> Inl TypeError)"

definition example_modules :: module_table where
  "example_modules m =
     (if m = ''examples.config'' then Inr (\<lambda>c. if c = ''Class'' then Some example_class else None)
      else Inl (Raised (PStr ''ModuleNotFoundError'')))"

definition config_for_class :: kwargs where
  "config_for_class = [(''class_string'', PStr ''examples.config:Class''), (''arg1'', PInt 1), (''arg2'', PInt 2)]"

definition kwargs_dict :: "kwargs \<Rightarrow> pyval" where
  "kwargs_dict kw = PDict (map (\<lambda>(k, v). (PStr k, v)) kw)"

text \<open>
  The \<open>__main__\<close> block; \<open>modules\<close> is what \<open>import_module\<close> finds (the comment of the
  script: \<open>examples.config\<close> imports when run from the root of the project).
\<close>

definition config_example_main :: "module_table \<Rightarrow> (unit, 'z tb_state_scheme) stm" where
  "config_example_main modules = sseq
     [sdrop (sbind (try_get cfg_abc ''a.b.c'' (DValue PNone) False ''.'') (\<lambda>v.
        ex_print (''try_get('' @ py_repr cfg_abc @ '', '' @ repr_str ''a.b.c'' @ '')='' @ py_repr v))),
      sdrop (sbind (try_get (PDict [(PStr ''a'', PInt 1)]) ''double_a'' (DFunction double_a_code double_a_body) False ''.'')
        (\<lambda>v. ex_print (''try_get('' @ py_repr (PDict [(PStr ''a'', PInt 1)]) @ '', '' @ repr_str ''double_a''
                        @ '', lambda config, key: config['' @ repr_str ''a'' @ ''] * 2)='' @ py_repr v))),
      sdrop (ex_print (''Class instanciation from config: '' @ py_str (kwargs_dict config_for_class))),
      sdrop (sbind (slift (instantiate_class modules config_for_class)) (\<lambda>obj. ex_print (''Obj: '' @ py_str obj))),
      sdrop (\<lambda>s. ex_print (''Environment variable: '' @ py_str (get_env_variable ''USERNAME'' s)) s)]"

section \<open>examples/seed.py\<close>

definition seed_example_main :: "(unit, 'z tb_state_scheme) stm" where
  "seed_example_main = sseq
     [sdrop (sbind (try_get_seed (PDict [(PStr ''seed'', PInt 42)]) 1000 ''seed'' True) (\<lambda>v.
        ex_print (''Try get seed on a config with seed: '' @ py_str v))),
      sdrop (sbind (try_get_seed (PDict []) 1000 ''seed'' True) (\<lambda>v.
        ex_print (''Try get seed on a config without seed: '' @ py_str v))),
      sdrop (sbind (try_get_seed (PDict [(PStr ''seed'', PStr ''42'')]) 1000 ''seed'' True) (\<lambda>v.
        ex_print (''Try get seed on a config with non-integer seed: '' @ py_str v))),
      (\<lambda>s. (Inr (), set_seed 42 s))]"

section \<open>What the example inputs evaluate to\<close>

text \<open>The flattened form of \<open>d\<close> in \<open>examples/struct_example.py\<close>.\<close>

definition flat_d :: "(pyval \<times> pyval) list" where
  "flat_d = [(PStr ''key1'', PInt 1), (PStr ''key2.key3'', PInt 3), (PStr ''key2.key4.key5'', PInt 5),
             (PStr ''key6.key7'', PInt 7)]"

lemma struct_d_flattened: "get_dict_flattened (PDict struct_d) (PStr []) ''.'' = Inr (PDict flat_d)"
  by code_simp

lemma flat_d_unflattened: "unflatten_dict (PDict flat_d) ''.'' = Inr (PDict struct_d)"
  by code_simp

lemma example_shapes:
  "get_shape default_authorized False (PList [PList [PInt 1, PInt 2], PList [PInt 3, PInt 4]]) = Inr (PTuple [PInt 2, PInt 2])"
  "get_shape default_authorized False np_rows = Inr (PTuple [PInt 2, PInt 2])"
  "get_shape default_authorized False shape_dict = Inr (PStr ''Dict(3 keys to (3, 2))'')"
  "get_shape default_authorized False ragged = Inr (PTuple [PInt 2, PInt 2, PInt 7])"
  "get_shape default_authorized True ragged =
     Inl (AssertionError [PStr ''All sub-objects must have the same shape, but got: '',
                          PList [PTuple [PInt 7], PTuple [PInt 1]]])"
  by code_simp+

lemma example_reprs:
  "py_repr (PInt 1) = ''1''" "py_repr (PInt 2) = ''2''"
  "py_repr (PTuple [PInt 2, PInt 2]) = ''(2, 2)''" "py_repr (PTuple [PInt 2, PInt 2, PInt 7]) = ''(2, 2, 7)''"
  "py_repr (PStr t) = repr_str t" "int_str 42 = ''42''"
  "exc_str [PStr ''All sub-objects must have the same shape, but got: '', PList [PTuple [PInt 7], PTuple [PInt 1]]]
     = ''('' @ repr_str ''All sub-objects must have the same shape, but got: '' @ '', [(7,), (1,)])''"
  by code_simp+

lemma example_lookups:
  "try_get cfg_abc ''a.b.c'' (DValue PNone) False ''.'' s = (Inr (PInt 1), s)"
  "try_get (PDict [(PStr ''a'', PInt 1)]) ''double_a'' (DFunction double_a_code double_a_body) False ''.'' s
     = (Inr (PInt 2), s)"
proof -
  have "py_split ''a.b.c'' ''.'' = Inr [''a'', ''b'', ''c'']" by code_simp
  moreover have "try_get_path cfg_abc [''a'', ''b'', ''c''] = Inr (Inl (PInt 1))" by code_simp
  ultimately show "try_get cfg_abc ''a.b.c'' (DValue PNone) False ''.'' s = (Inr (PInt 1), s)"
    by (simp add: try_get_def)
next
  have "py_split ''double_a'' ''.'' = Inr [''double_a'']" by code_simp
  moreover have "try_get_path (PDict [(PStr ''a'', PInt 1)]) [''double_a''] = Inr (Inr ''double_a'')" by code_simp
  moreover have "default_value (DFunction double_a_code double_a_body) (PDict [(PStr ''a'', PInt 1)]) ''double_a''
                   = Inr (PInt 2)" by code_simp
  ultimately show "try_get (PDict [(PStr ''a'', PInt 1)]) ''double_a'' (DFunction double_a_code double_a_body)
                     False ''.'' s = (Inr (PInt 2), s)"
    by (simp add: try_get_def)
qed

lemma example_instance: "instantiate_class example_modules config_for_class = Inr (PStr ''Class(arg1=1, arg2=2)'')"
  by code_simp

lemma seed_key_split: "py_split ''seed'' ''.'' = Inr [''seed'']"
  by code_simp

lemma example_seed_lookups:
  "fst (try_get (PDict [(PStr ''seed'', PInt 42)]) ''seed'' d False ''.'' s) = Inr (PInt 42)"
  "fst (try_get (PDict []) ''seed'' (DValue dv) False ''.'' s) = Inr dv"
  "fst (try_get (PDict [(PStr ''seed'', PStr ''42'')]) ''seed'' d False ''.'' s) = Inr (PStr ''42'')"
proof -
  show "fst (try_get (PDict [(PStr ''seed'', PInt 42)]) ''seed'' d False ''.'' s) = Inr (PInt 42)"
    by (rule try_get_fst_found [OF seed_key_split]) (simp add: key_eq_def)
  show "fst (try_get (PDict []) ''seed'' (DValue dv) False ''.'' s) = Inr dv"
    by (rule try_get_fst_missing [OF seed_key_split]) code_simp
  show "fst (try_get (PDict [(PStr ''seed'', PStr ''42'')]) ''seed'' d False ''.'' s) = Inr (PStr ''42'')"
    by (rule try_get_fst_found [OF seed_key_split]) (simp add: key_eq_def)
qed

lemmas example_script_defs = sdrop_def sthen_def sbind_def slift_def ex_print_def print_expr_def py_print_def

end
