(* ===== verification/Jax.thy ===== *)
theory Jax
  imports Prelude "HOL-Library.Sublist"
begin

text \<open>
  \<open>src/tbutils/jax.py\<close>: the decorator \<open>nest_for_array\<close> applies a function to every
  array of a nested structure of dicts and lists, in place, and, when the keyword
  argument \<open>key_random\<close> is given, hands each element its own PRNG key by splitting
  the current key once per element (\<open>key_random, subkey = random.split(key_random)\<close>).
  Arrays are an opaque type \<open>'a\<close>; a key is the path of \<open>random.split\<close> calls that
  produced it from the root key (\<open>False\<close>: the first half, \<open>True\<close>: the second), so
  two keys are the same exactly when they were derived along the same path. The function
  and its extra arguments are a parameter \<open>'a \<Rightarrow> prng_key option \<Rightarrow> 'b result\<close>.
  \<open>check_jax_device\<close>, which only prints, is modelled in \<open>Info\<close>.
\<close>

section \<open>Nested arrays and keys\<close>

text \<open>The values \<open>wrapper\<close> distinguishes: a \<open>jnp.ndarray\<close>, a dict, a list, anything else.\<close>

datatype 'a jval = JArr 'a | JDict "(pyval \<times> 'a jval) list" | JList "'a jval list" | JOther pyval

type_synonym prng_key = "bool list"

text \<open>\<open>jax.random.split(key)\<close>: the two halves, as the paths that name them.\<close>

definition jsplit :: "prng_key \<Rightarrow> prng_key \<times> prng_key" where
  "jsplit k = (k @ [False], k @ [True])"

section \<open>nest_for_array\<close>

text \<open>
  \<open>wrapper(arr, key_random=k)\<close>, with the loops over \<open>arr.items()\<close> and
  \<open>enumerate(arr)\<close> as \<open>nest_dict\<close> and \<open>nest_list\<close>: each element is replaced by
  the result of the recursive call, which receives the second half of a split of the
  current key while the first half becomes the current key. The first exception stops
  the loop.
\<close>

fun nest_apply :: "('a \<Rightarrow> prng_key option \<Rightarrow> 'b result) \<Rightarrow> prng_key option \<Rightarrow> 'a jval \<Rightarrow> 'b jval result"
and nest_dict :: "('a \<Rightarrow> prng_key option \<Rightarrow> 'b result) \<Rightarrow> prng_key option \<Rightarrow> (pyval \<times> 'a jval) list
                   \<Rightarrow> (pyval \<times> 'b jval) list result"
and nest_list :: "('a \<Rightarrow> prng_key option \<Rightarrow> 'b result) \<Rightarrow> prng_key option \<Rightarrow> 'a jval list \<Rightarrow> 'b jval list result"
where
  "nest_apply f k (JArr a) = rbind (f a k) (\<lambda>b. Inr (JArr b))"
| "nest_apply f k (JDict d) = rbind (nest_dict f k d) (\<lambda>d'. Inr (JDict d'))"
| "nest_apply f k (JList xs) = rbind (nest_list f k xs) (\<lambda>xs'. Inr (JList xs'))"
| "nest_apply f k (JOther v) = Inl ValueError"
| "nest_dict f k [] = Inr []"
| "nest_dict f None ((key, v) # rest) =
     rbind (nest_apply f None v) (\<lambda>v'. rbind (nest_dict f None rest) (\<lambda>rest'. Inr ((key, v') # rest')))"
| "nest_dict f (Some kr) ((key, v) # rest) =
     (let (kr', sub) = jsplit kr in
      rbind (nest_apply f (Some sub) v) (\<lambda>v'. rbind (nest_dict f (Some kr') rest) (\<lambda>rest'. Inr ((key, v') # rest'))))"
| "nest_list f k [] = Inr []"
| "nest_list f None (v # rest) =
     rbind (nest_apply f None v) (\<lambda>v'. rbind (nest_list f None rest) (\<lambda>rest'. Inr (v' # rest')))"
| "nest_list f (Some kr) (v # rest) =
     (let (kr', sub) = jsplit kr in
      rbind (nest_apply f (Some sub) v) (\<lambda>v'. rbind (nest_list f (Some kr') rest) (\<lambda>rest'. Inr (v' # rest'))))"

section \<open>Leaves\<close>

text \<open>The arrays of a structure, in the order \<open>wrapper\<close> visits them.\<close>

fun jleaves :: "'a jval \<Rightarrow> 'a list"
and jleaves_dict :: "(pyval \<times> 'a jval) list \<Rightarrow> 'a list"
and jleaves_list :: "'a jval list \<Rightarrow> 'a list"
where
  "jleaves (JArr a) = [a]"
| "jleaves (JDict d) = jleaves_dict d"
| "jleaves (JList xs) = jleaves_list xs"
| "jleaves (JOther v) = []"
| "jleaves_dict [] = []"
| "jleaves_dict ((k, v) # rest) = jleaves v @ jleaves_dict rest"
| "jleaves_list [] = []"
| "jleaves_list (v # rest) = jleaves v @ jleaves_list rest"

text \<open>Whether a structure holds a value of a type \<open>wrapper\<close> rejects.\<close>

fun has_other :: "'a jval \<Rightarrow> bool"
and has_other_dict :: "(pyval \<times> 'a jval) list \<Rightarrow> bool"
and has_other_list :: "'a jval list \<Rightarrow> bool"
where
  "has_other (JArr a) = False"
| "has_other (JDict d) = has_other_dict d"
| "has_other (JList xs) = has_other_list xs"
| "has_other (JOther v) = True"
| "has_other_dict [] = False"
| "has_other_dict ((k, v) # rest) = (has_other v \<or> has_other_dict rest)"
| "has_other_list [] = False"
| "has_other_list (v # rest) = (has_other v \<or> has_other_list rest)"

text \<open>Keys no one of which was derived from another (so none is reused).\<close>

fun prefix_free :: "prng_key list \<Rightarrow> bool" where
  "prefix_free [] = True"
| "prefix_free (k # ks) = ((\<forall>k' \<in> set ks. \<not> prefix k k' \<and> \<not> prefix k' k) \<and> prefix_free ks)"

section \<open>Independence of the keys\<close>

text \<open>
  The keys handed to the arrays of a structure, recorded next to each array: every one
  is derived from \<open>k0\<close>, and no one is derived from another.
\<close>

definition keys_ok :: "prng_key \<Rightarrow> ('a \<times> prng_key option) list \<Rightarrow> bool" where
  "keys_ok k0 xs \<longleftrightarrow> (\<forall>x \<in> set xs. \<exists>kk. snd x = Some kk \<and> prefix k0 kk) \<and> prefix_free (map (the \<circ> snd) xs)"

lemma prefix_free_append:
  "prefix_free (xs @ ys) \<longleftrightarrow> prefix_free xs \<and> prefix_free ys \<and> (\<forall>x \<in> set xs. \<forall>y \<in> set ys. \<not> prefix x y \<and> \<not> prefix y x)"
  by (induction xs) auto

lemma prefix_split_incomparable:
  assumes "prefix (k @ [True]) x" and "prefix (k @ [False]) y"
  shows "\<not> prefix x y \<and> \<not> prefix y x"
proof -
  have ne: "\<not> prefix (k @ [True]) (k @ [False]) \<and> \<not> prefix (k @ [False]) (k @ [True])" by simp
  have a: "\<not> prefix (k @ [True]) y"
  proof
    assume "prefix (k @ [True]) y"
    from prefix_same_cases [OF this assms(2)] ne show False by blast
  qed
  have b: "\<not> prefix (k @ [False]) x"
  proof
    assume "prefix (k @ [False]) x"
    from prefix_same_cases [OF assms(1) this] ne show False by blast
  qed
  have "\<not> prefix x y"
  proof
    assume "prefix x y"
    with assms(1) have "prefix (k @ [True]) y" by (rule prefix_order.trans)
    with a show False by contradiction
  qed
  moreover have "\<not> prefix y x"
  proof
    assume "prefix y x"
    with assms(2) have "prefix (k @ [False]) x" by (rule prefix_order.trans)
    with b show False by contradiction
  qed
  ultimately show ?thesis by blast
qed

lemma keys_ok_Nil [simp]: "keys_ok k []"
  by (simp add: keys_ok_def)

lemma prefix_snoc_prefix: "prefix (k @ [b]) kk \<Longrightarrow> prefix k kk"
  using prefix_order.trans [of k "k @ [b]" kk] by simp

lemma keys_ok_ext:
  assumes "keys_ok (k @ [b]) A" and "x \<in> set A"
  shows "\<exists>kk. snd x = Some kk \<and> prefix k kk"
proof -
  from assms obtain kk where s: "snd x = Some kk" and p: "prefix (k @ [b]) kk"
    unfolding keys_ok_def by (elim conjE) (drule bspec, assumption, elim exE conjE, blast)
  from p have "prefix k kk" by (rule prefix_snoc_prefix)
  with s show ?thesis by (intro exI conjI)
qed

lemma keys_ok_key:
  assumes "keys_ok k0 A" and "x \<in> set A"
  obtains kk where "snd x = Some kk" and "prefix k0 kk"
  using assms unfolding keys_ok_def by (elim conjE) (drule bspec, assumption, elim exE conjE, blast)

lemma keys_ok_cross:
  assumes a: "keys_ok (k @ [True]) A" and b: "keys_ok (k @ [False]) B"
    and x: "x \<in> set (map (the \<circ> snd) A)" and y: "y \<in> set (map (the \<circ> snd) B)"
  shows "\<not> prefix x y \<and> \<not> prefix y x"
proof -
  from x obtain xa where xa: "xa \<in> set A" and xe: "x = the (snd xa)" by auto
  from y obtain yb where yb: "yb \<in> set B" and ye: "y = the (snd yb)" by auto
  obtain kx where kx: "snd xa = Some kx" "prefix (k @ [True]) kx" by (rule keys_ok_key [OF a xa])
  obtain ky where ky: "snd yb = Some ky" "prefix (k @ [False]) ky" by (rule keys_ok_key [OF b yb])
  have "\<not> prefix kx ky \<and> \<not> prefix ky kx" by (rule prefix_split_incomparable [OF kx(2) ky(2)])
  then show ?thesis by (simp add: xe ye kx(1) ky(1))
qed

lemma keys_ok_split:
  assumes a: "keys_ok (k @ [True]) A" and b: "keys_ok (k @ [False]) B"
  shows "keys_ok k (A @ B)"
proof -
  have ext: "\<forall>x \<in> set (A @ B). \<exists>kk. snd x = Some kk \<and> prefix k kk"
  proof
    fix x assume "x \<in> set (A @ B)"
    then have "x \<in> set A \<or> x \<in> set B" by simp
    then show "\<exists>kk. snd x = Some kk \<and> prefix k kk"
    proof
      assume "x \<in> set A" then show ?thesis by (rule keys_ok_ext [OF a])
    next
      assume "x \<in> set B" then show ?thesis by (rule keys_ok_ext [OF b])
    qed
  qed
  have pa: "prefix_free (map (the \<circ> snd) A)" using a unfolding keys_ok_def by (elim conjE)
  have pb: "prefix_free (map (the \<circ> snd) B)" using b unfolding keys_ok_def by (elim conjE)
  have "prefix_free (map (the \<circ> snd) A @ map (the \<circ> snd) B)"
    unfolding prefix_free_append using pa pb keys_ok_cross [OF a b] by blast
  with ext show ?thesis unfolding keys_ok_def map_append by (intro conjI)
qed

lemma keys_ok_single: "keys_ok k0 [(a, Some k0)]"
  by (simp add: keys_ok_def)

text \<open>
  With a function that records the key it receives, the keys at the leaves are
  independent descendants of the key given to the decorated function.
\<close>

lemma nest_keys:
  shows "\<And>k0 v'. (\<forall>a k. f a k = Inr (a, k)) \<Longrightarrow> k = Some k0 \<Longrightarrow> nest_apply f k v = Inr v' \<Longrightarrow> keys_ok k0 (jleaves v')"
    and "\<And>k0 d'. (\<forall>a k. f a k = Inr (a, k)) \<Longrightarrow> k = Some k0 \<Longrightarrow> nest_dict f k d = Inr d' \<Longrightarrow> keys_ok k0 (jleaves_dict d')"
    and "\<And>k0 xs'. (\<forall>a k. f a k = Inr (a, k)) \<Longrightarrow> k = Some k0 \<Longrightarrow> nest_list f k xs = Inr xs' \<Longrightarrow> keys_ok k0 (jleaves_list xs')"
proof (induction f k v and f k d and f k xs rule: nest_apply_nest_dict_nest_list.induct)
  case (1 f k a)
  then show ?case by (auto simp: keys_ok_single)
next
  case (7 f kr key v rest)
  from "7.prems"(3) obtain v'' rest' where v: "nest_apply f (Some (kr @ [True])) v = Inr v''"
    and r: "nest_dict f (Some (kr @ [False])) rest = Inr rest'" and d: "d' = (key, v'') # rest'"
    by (auto simp: jsplit_def rbind_eq_Inr_iff)
  have js: "(kr @ [False], kr @ [True]) = jsplit kr" by (simp add: jsplit_def)
  have "keys_ok (kr @ [True]) (jleaves v'')"
    by (rule "7.IH"(1) [OF refl js "7.prems"(1) refl v])
  moreover have "keys_ok (kr @ [False]) (jleaves_dict rest')"
    using "7.IH"(2) js "7.prems"(1) v r by blast
  ultimately show ?case using "7.prems"(2) d by (simp add: keys_ok_split)
next
  case (10 f kr v rest)
  from "10.prems"(3) obtain v'' rest' where v: "nest_apply f (Some (kr @ [True])) v = Inr v''"
    and r: "nest_list f (Some (kr @ [False])) rest = Inr rest'" and d: "xs' = v'' # rest'"
    by (auto simp: jsplit_def rbind_eq_Inr_iff)
  have js: "(kr @ [False], kr @ [True]) = jsplit kr" by (simp add: jsplit_def)
  have "keys_ok (kr @ [True]) (jleaves v'')"
    by (rule "10.IH"(1) [OF refl js "10.prems"(1) refl v])
  moreover have "keys_ok (kr @ [False]) (jleaves_list rest')"
    using "10.IH"(2) js "10.prems"(1) v r by blast
  ultimately show ?case using "10.prems"(2) d by (simp add: keys_ok_split)
qed (auto simp: rbind_eq_Inr_iff)

section \<open>Without a key\<close>

text \<open>
  Without \<open>key_random\<close>, \<open>nest_for_array(func)\<close> is the structural map of \<open>func\<close>
  over the arrays, or \<open>ValueError\<close> when the structure holds anything else.
\<close>

lemma nest_nokey:
  shows "(\<forall>a k. f a k = Inr (g a k)) \<Longrightarrow> k = None \<Longrightarrow>
           nest_apply f k v = (if has_other v then Inl ValueError else Inr (map_jval (\<lambda>a. g a None) v))"
    and "(\<forall>a k. f a k = Inr (g a k)) \<Longrightarrow> k = None \<Longrightarrow>
           nest_dict f k d = (if has_other_dict d then Inl ValueError
                              else Inr (map (\<lambda>(key, v). (key, map_jval (\<lambda>a. g a None) v)) d))"
    and "(\<forall>a k. f a k = Inr (g a k)) \<Longrightarrow> k = None \<Longrightarrow>
           nest_list f k xs = (if has_other_list xs then Inl ValueError else Inr (map (map_jval (\<lambda>a. g a None)) xs))"
proof (induction f k v and f k d and f k xs rule: nest_apply_nest_dict_nest_list.induct)
  case (2 f k d)
  then show ?case by (simp add: case_prod_beta' map_prod_def)
qed (auto simp: case_prod_beta')

end
