(* ===== verification/Info.thy ===== *)
theory Info
  imports World
begin

text \<open>
  \<open>src/tbutils/info.py\<close> and \<open>check_jax_device\<close> of \<open>src/tbutils/jax.py\<close>: reports on
  the interpreter, the operating system and the numeric libraries that are installed.
  What the libraries answer (versions, devices) is a record \<open>sysinfo\<close> read by the
  operations; their only effect is the lines they print.
\<close>

section \<open>What the environment answers\<close>

record torch_rt =
  torch_version :: string
  cuda_available :: bool
  torch_cuda_version :: string
  gpu_names :: "string list"

record tf_rt =
  tf_version :: string
  built_with_cuda :: bool
  tf_gpus :: "string list"

record jax_rt =
  jax_version :: string
  jax_devices :: string
  jax_platform :: string

text \<open>
  \<open>sys.version\<close>, \<open>platform.system()\<close>, \<open>platform.machine()\<close>, and for each library
  the answers of its installed version (\<open>None\<close>: not installed).
\<close>

record sysinfo =
  sys_version :: string
  system_name :: string
  machine :: string
  numpy_version :: "string option"
  torch_rt :: "torch_rt option"
  tf_rt :: "tf_rt option"
  jax_rt :: "jax_rt option"

text \<open>\<open>importlib.util.find_spec(name) is not None\<close> for the names the module asks about.\<close>

definition is_installed :: "sysinfo \<Rightarrow> string \<Rightarrow> bool" where
  "is_installed si name =
     (if name = ''numpy'' then numpy_version si \<noteq> None
      else if name = ''torch'' then torch_rt si \<noteq> None
      else if name = ''tensorflow'' then tf_rt si \<noteq> None
      else if name = ''jax'' then jax_rt si \<noteq> None
      else False)"

section \<open>check_versions\<close>

definition tab :: string where
  "tab = [CHR 0x09]"

definition bool_str :: "bool \<Rightarrow> string" where
  "bool_str b = (if b then ''True'' else ''False'')"

definition torch_lines :: "torch_rt \<Rightarrow> string list" where
  "torch_lines t =
     [''PyTorch: '' @ torch_version t,
      tab @ ''CUDA Available: '' @ bool_str (cuda_available t),
      tab @ ''CUDA Version: '' @ (if cuda_available t then torch_cuda_version t else ''N/A''),
      tab @ ''Available GPUs: '' @ int_str (int (length (gpu_names t)))]
     @ map (\<lambda>(i, name). tab @ ''  - GPU '' @ int_str (int i) @ '': '' @ name)
           (zip [0..<length (gpu_names t)] (gpu_names t))"

definition tf_lines :: "tf_rt \<Rightarrow> string list" where
  "tf_lines t =
     [''TensorFlow: '' @ tf_version t,
      tab @ ''CUDA Available: '' @ bool_str (built_with_cuda t),
      tab @ ''Available GPUs: '' @ int_str (int (length (tf_gpus t)))]
     @ map (\<lambda>gpu. tab @ ''  - '' @ gpu) (tf_gpus t)"

definition jax_lines :: "jax_rt \<Rightarrow> string list" where
  "jax_lines j =
     [''JAX: '' @ jax_version j, tab @ ''Available Devices: '' @ jax_devices j,
      tab @ ''Platform: '' @ jax_platform j]"

definition versions_header :: string where
  "versions_header = CHR 0x0A # ''============== Checking Packages & System Info ================''"

definition versions_footer :: string where
  "versions_footer = ''===============================================================''"

text \<open>The lines in the order the function prints them; \<open>sys.version.split(" ")[0]\<close>.\<close>

definition check_versions_lines :: "sysinfo \<Rightarrow> string list" where
  "check_versions_lines si =
     [versions_header,
      ''OS: '' @ system_name si @ '' ('' @ machine si @ '')'',
      ''Python: '' @ hd (split_on '' '' [] (sys_version si))]
     @ (if is_installed si ''numpy'' then [''NumPy: '' @ the (numpy_version si)] else [])
     @ (if is_installed si ''torch'' then torch_lines (the (torch_rt si)) else [])
     @ (if is_installed si ''tensorflow'' then tf_lines (the (tf_rt si)) else [])
     @ (if is_installed si ''jax'' then jax_lines (the (jax_rt si)) else [])
     @ [versions_footer]"

definition check_versions :: "sysinfo \<Rightarrow> 'z world_scheme \<Rightarrow> 'z world_scheme" where
  "check_versions si s = fold py_print (check_versions_lines si) s"

section \<open>check_jax_device\<close>

text \<open>
  The \<open>try\<close> block prints its first line before it touches \<open>jax\<close>; without JAX the
  module never bound the name, so the \<open>NameError\<close> is caught and reported.
\<close>

definition check_jax_device :: "sysinfo \<Rightarrow> 'z world_scheme \<Rightarrow> 'z world_scheme" where
  "check_jax_device si s =
     (let s1 = py_print ''Checking device used by JAX:'' s in
      case jax_rt si of
        Some j \<Rightarrow> py_print (tab @ ''Platform: '' @ jax_platform j)
                    (py_print (tab @ ''Available devices: '' @ jax_devices j) s1)
      | None \<Rightarrow> py_print (''Error while checking JAX device: '' @ ''name '' @ [CHR 0x27] @ ''jax'' @ [CHR 0x27] @ '' is not defined'') s1)"

section \<open>Rules\<close>

lemma fold_py_print_stdout [simp]: "stdout (fold py_print ls s) = stdout s @ ls"
  by (induction ls arbitrary: s) auto

lemma fold_py_print_frame [simp]:
  "log_calls (fold py_print ls s) = log_calls s" "rng_pos (fold py_print ls s) = rng_pos s"
  "rng_seed (fold py_print ls s) = rng_seed s" "environ (fold py_print ls s) = environ s"
  by (induction ls arbitrary: s; simp)+

lemma zip_upt_nth: "zip [0..<length xs] xs = map (\<lambda>i. (i, xs ! i)) [0..<length xs]"
  by (rule nth_equalityI) simp_all

lemma torch_lines_gpus:
  "drop 4 (torch_lines t) = map (\<lambda>i. tab @ ''  - GPU '' @ int_str (int i) @ '': '' @ gpu_names t ! i) [0..<length (gpu_names t)]"
  unfolding torch_lines_def zip_upt_nth by simp

text \<open>
  C31. \<open>check_versions\<close> prints its report and nothing else: the header first, the footer
  last, and between them the OS and Python lines, one line for numpy, four lines and one
  per GPU for PyTorch, three lines and one per GPU for TensorFlow and three lines for JAX,
  each only when that library is installed. With PyTorch, the CUDA version is shown
  exactly when CUDA is available (\<open>N/A\<close> otherwise) and every GPU is listed with its
  index and name.
\<close>

lemma check_versions_report:
  "stdout (check_versions si s) = stdout s @ check_versions_lines si
   \<and> hd (check_versions_lines si) = versions_header
   \<and> last (check_versions_lines si) = versions_footer
   \<and> length (check_versions_lines si) =
       4 + (case numpy_version si of None \<Rightarrow> 0 | Some _ \<Rightarrow> 1)
         + (case torch_rt si of None \<Rightarrow> 0 | Some t \<Rightarrow> 4 + length (gpu_names t))
         + (case tf_rt si of None \<Rightarrow> 0 | Some t \<Rightarrow> 3 + length (tf_gpus t))
         + (case jax_rt si of None \<Rightarrow> 0 | Some _ \<Rightarrow> 3)
   \<and> (case torch_rt si of None \<Rightarrow> True | Some t \<Rightarrow>
        tab @ ''CUDA Version: '' @ (if cuda_available t then torch_cuda_version t else ''N/A'')
          \<in> set (check_versions_lines si)
        \<and> set (map (\<lambda>i. tab @ ''  - GPU '' @ int_str (int i) @ '': '' @ gpu_names t ! i)
                    [0..<length (gpu_names t)]) \<subseteq> set (check_versions_lines si))"
proof -
  have base: "stdout (check_versions si s) = stdout s @ check_versions_lines si
   \<and> hd (check_versions_lines si) = versions_header
   \<and> last (check_versions_lines si) = versions_footer
   \<and> length (check_versions_lines si) =
       4 + (case numpy_version si of None \<Rightarrow> 0 | Some _ \<Rightarrow> 1)
         + (case torch_rt si of None \<Rightarrow> 0 | Some t \<Rightarrow> 4 + length (gpu_names t))
         + (case tf_rt si of None \<Rightarrow> 0 | Some t \<Rightarrow> 3 + length (tf_gpus t))
         + (case jax_rt si of None \<Rightarrow> 0 | Some _ \<Rightarrow> 3)"
    by (simp add: check_versions_def check_versions_lines_def is_installed_def torch_lines_def tf_lines_def
        jax_lines_def split: option.split)
  have torch: "set (torch_lines t) \<subseteq> set (check_versions_lines si)" if "torch_rt si = Some t" for t
    using that by (auto simp: check_versions_lines_def is_installed_def)
  have cuda: "tab @ ''CUDA Version: '' @ (if cuda_available t then torch_cuda_version t else ''N/A'')
      \<in> set (torch_lines t)" for t
    by (simp add: torch_lines_def)
  have gpus: "set (map (\<lambda>i. tab @ ''  - GPU '' @ int_str (int i) @ '': '' @ gpu_names t ! i)
                    [0..<length (gpu_names t)]) \<subseteq> set (torch_lines t)" for t
    using torch_lines_gpus [of t] set_drop_subset [of 4 "torch_lines t"] by simp
  show ?thesis
  proof (cases "torch_rt si")
    case (Some t)
    with base torch [OF Some] cuda [of t] gpus [of t] show ?thesis by auto
  qed (use base in simp)
qed

lemma check_jax_device_stdout:
  "stdout (check_jax_device si s) = stdout s @ ''Checking device used by JAX:'' #
     (case jax_rt si of
        Some j \<Rightarrow> [tab @ ''Available devices: '' @ jax_devices j, tab @ ''Platform: '' @ jax_platform j]
      | None \<Rightarrow> [''Error while checking JAX device: name '' @ [CHR 0x27] @ ''jax'' @ [CHR 0x27] @ '' is not defined''])"
  by (simp add: check_jax_device_def split: option.split)

end
