(* ===== verification/Spec2Isabelle.thy ===== *)
theory Spec2Isabelle
  imports Examples Jax Info
begin

text \<open>
  \<^bold>\<open>A verification library for tbutils.\<close>
  \<open>tbutils\<close> (\<open>src/tbutils/\<close>) is a set of independent helpers: rate-limited
  printing, logging and execution (\<open>exec_max_n.py\<close>), dotted-path config lookup and
  config helpers (\<open>config.py\<close>), flattening and shape inspection of nested containers
  (\<open>struct.py\<close>), seeding (\<open>seed.py\<close>), a decorator over nested JAX arrays
  (\<open>jax.py\<close>) and a report of installed libraries (\<open>info.py\<close>); the scripts of
  \<open>src/examples/\<close> call them. The only shared state is the pair of
  global counter tables of \<open>exec_max_n.py\<close>, which \<open>try_get\<close> and
  \<open>try_get_seed\<close> also use through \<open>print_once\<close>, and the process state
  (standard output, \<open>os.environ\<close>, \<open>sys.modules\<close>, the \<open>random\<close> module).
  \<open>seed.py\<close> calls \<open>config.try_get\<close>, which calls \<open>exec_max_n.print_once\<close>; the
  import graph of the theories follows these calls.

  \<^bold>\<open>Theories.\<close>
  \<^item> \<open>Prelude\<close>: the Python values \<open>pyval\<close> (None, bool, int, str, list, tuple, dict
    as an ordered association list), the exceptions \<open>py_error\<close>, results
    \<open>'a result = py_error + 'a\<close> with \<open>rbind\<close>/\<open>rmap\<close>, statements on a state
    \<open>('a, 's) stm\<close> (\<open>sret\<close>, \<open>sbind\<close>, \<open>sthen\<close>, \<open>srepeat\<close>, \<open>sforeach\<close>,
    \<open>sseq\<close>: a script whose first exception ends the run), size lemmas for the
    recursions.
  \<^item> \<open>PyVal\<close>: the CPython builtins the code relies on: hash keys (\<open>py_key\<close>, where
    \<open>True\<close> and \<open>1\<close> collide), truthiness, \<open>str\<close>/\<open>repr\<close>, \<open>str.split\<close>/\<open>join\<close>,
    \<open>in\<close> with a string operand, subscripting, dict get/set and \<open>dict(items)\<close>
    (\<open>dict_of_list\<close>), with the split/join round trip and the lookup law of
    repeated assignment.
  \<^item> \<open>World\<close>: the runtime state as a record (standard output, logger calls,
    \<open>os.environ\<close>, \<open>sys.modules\<close>, the \<open>random\<close> module, library seeds) and its
    primitive effects (\<open>py_print\<close>, \<open>logger_log\<close>, \<open>randint\<close>, \<open>random_seed\<close>).
    The generator of \<open>random\<close> is an arbitrary stream of integers per seed, so every
    property holds for every generator.
  \<^item> \<open>ExecMaxN\<close> (\<open>exec_max_n.py\<close>): the record \<open>tb_state\<close> extends the runtime with the
    two module globals \<open>dict_printing_objs_counter\<close> and \<open>dict_log_objs_counter\<close>;
    \<open>obj_to_discr_obj\<close>, \<open>print_max_n\<close>, \<open>print_once\<close>, \<open>log_max_n\<close>,
    \<open>log_once\<close>, \<open>warn_max_n\<close>, \<open>warn_once\<close> are state transformers on it;
    \<open>exec_max_n\<close> builds a \<open>wrapper\<close> record (the closure and its attribute
    \<open>counter\<close>) and \<open>wrapper_call\<close> is one call of it. Runs over sequences of calls
    (\<open>print_run\<close>, \<open>wrapper_run\<close>) are refined against abstract specifications
    (\<open>first_n_per_key\<close>, \<open>executed\<close>/\<open>run_actions\<close>) that mention no counter.
  \<^item> \<open>Config\<close> (\<open>config.py\<close>): \<open>try_get\<close> (split path, descent loop
    \<open>try_get_path\<close> with Python's \<open>in\<close>/\<open>[]\<close>, \<open>default_value\<close> with
    \<open>co_varnames\<close>-based injection and keyword binding \<open>call_kw\<close>, the warning), its
    contract \<open>cfg_lookup\<close> (descent through dicts only) and the lemma relating them;
    \<open>merge_container\<close> (with \<open>OmegaConf.to_container\<close> as \<open>to_container\<close>),
    \<open>get_env_variable\<close>, \<open>instantiate_class\<close> over a table of importable modules,
    \<open>register_hydra_resolvers\<close> over OmegaConf's resolver registry (a second call
    raises \<open>ValueError\<close>).
  \<^item> \<open>Seed\<close> (\<open>seed.py\<close>): \<open>try_get_seed\<close> (eager random default, lookup,
    \<open>isinstance(int)\<close> as \<open>py_isint\<close>, second draw and warning) and \<open>set_seed\<close>, with
    \<open>try_get_seed_draw\<close>, the closed form of \<open>try_get_seed\<close> for a positive bound.
  \<^item> \<open>Struct\<close> (\<open>struct.py\<close>): \<open>get_dict_flattened\<close> (\<open>flat_items\<close>, \<open>flat_key\<close>),
    \<open>unflatten_dict\<close> (\<open>unflatten_items\<close>, \<open>set_path\<close>), \<open>get_shape\<close>
    (\<open>function\<close> terminating on the size of the value); the round trip through the
    leaves of a dict (\<open>leaves\<close>, \<open>ins_paths\<close>) under \<open>nested_ok\<close>/\<open>top_ok\<close>.
  \<^item> \<open>Jax\<close> (\<open>jax.py\<close>): the decorator \<open>nest_for_array\<close> as the mutually recursive
    \<open>nest_apply\<close>/\<open>nest_dict\<close>/\<open>nest_list\<close> over \<open>'a jval\<close> (arrays, dicts, lists,
    other values), threading \<open>key_random\<close>; a PRNG key is the path of
    \<open>random.split\<close> calls that derived it (\<open>jsplit\<close>).
  \<^item> \<open>Info\<close> (\<open>info.py\<close>, \<open>check_jax_device\<close> of \<open>jax.py\<close>): what \<open>sys\<close>,
    \<open>platform\<close> and each library answer as the record \<open>sysinfo\<close>; \<open>is_installed\<close>,
    \<open>check_versions\<close> as the lines it prints (\<open>check_versions_lines\<close>), and
    \<open>check_jax_device\<close> with its caught \<open>NameError\<close> when JAX is absent.
  \<^item> \<open>Examples\<close> (\<open>src/examples/\<close>): each \<open>__main__\<close> block as an \<open>sseq\<close> of
    statements (\<open>exec_example_main\<close>, \<open>struct_example_main\<close>,
    \<open>config_example_main\<close>, \<open>seed_example_main\<close>) with the functions and literals
    the scripts define, and what those literals evaluate to.
  \<^item> \<open>Spec2Isabelle\<close>: the claims with their witnesses on the inputs of
    \<open>src/examples/\<close>; C19 (\<open>register_hydra_resolvers\<close>) is stated in \<open>Config\<close> and
    C31 (\<open>check_versions\<close>) in \<open>Info\<close>. Its last section checks the models of the
    example scripts against the output they produce (evaluations, not claims).

  \<^bold>\<open>What is proved.\<close> C1--C9: the limiter refines counter-free specifications
  (the wrapped function runs on the first \<open>n\<close> calls that pass the criterion; each
  discriminator key is printed \<open>min(n, count)\<close> times), the budget invariant, the
  criterion guard, the errors (non-callable at wrap time, unhashable discriminators), the
  independence of the two tables, and the sharing of one counter by hash-equal
  discriminators (C9). C10--C17: \<open>try_get\<close> on every branch (found, missing, callable
  default, injection by \<open>co_varnames\<close>, string intermediates for any path, builtin
  defaults, one warning per key) and its refinement of \<open>cfg_lookup\<close>. C18, C20--C23:
  the flatten/unflatten round trip, strict and non-strict \<open>get_shape\<close>, the strict
  check on any sequence and the splatting of a dict's description. C19: a second
  \<open>register_hydra_resolvers\<close> raises. C24--C30: \<open>try_get_seed\<close> on every branch, its
  range, its failure for \<open>seed_max <= 0\<close>, reproducibility after \<open>set_seed\<close>, and the
  effects of \<open>set_seed\<close> (numpy always seeded with 0). C31: the report of
  \<open>check_versions\<close>. C32: the result of \<open>get_dict_flattened\<close> is flat. C33--C37:
  \<open>merge_container\<close> (dicts, lists, mixed nodes, the dead tuple branch) and
  \<open>instantiate_class\<close> (the call and its errors). C38: the logging side of the
  limiter refines the same specification as printing.
  C39--C40: \<open>nest_for_array\<close> hands out independent keys and, without a key, is the
  structural map of the function. Every recursion is total (structural or with a
  measure) and every loop of the source is over a finite list, so no fuel is needed.

  \<^bold>\<open>Not modelled.\<close> The contents of JAX arrays; Python's \<open>eval\<close> behind the
  \<open>eval\<close> resolver (resolvers are tags); what the libraries queried by \<open>info.py\<close>
  answer (a parameter); the aliasing of input dict values into the result of
  \<open>unflatten_dict\<close> and the in-place updates of \<open>nest_for_array\<close> (the model
  returns fresh values); floats, sets, NumPy arrays (\<open>examples/struct_example.py\<close>
  uses values \<open>get_shape\<close> treats identically) and threads (the source is
  single-threaded); the \<open>input()\<close> prompt of \<open>examples/exec_max_n.py\<close>;
  \<open>setup.py\<close> (packaging metadata) and \<open>examples/tmeasure_example.py\<close> (its module
  \<open>tbutils.tmeasure\<close> is not in the repository; wall-clock time). Constructors called
  by \<open>instantiate_class\<close> and functions wrapped by \<open>exec_max_n\<close> are parameters.
\<close>

section \<open>Concrete inputs for the witnesses\<close>

text \<open>An interpreter at start: nothing printed or logged, no seed set.\<close>

definition world0 :: world where
  "world0 = \<lparr>stdout = [], log_calls = [], environ = Map.empty, sys_modules = [],
     rng_seed = None, rng_pos = 0, rng_stream = (\<lambda>_ _. 0), np_seed = None, torch_seed = None,
     torch_cuda_seed = None, torch_cuda_seed_all = None, cudnn_deterministic = False,
     cudnn_enabled = True, cudnn_benchmark = False, tf_seed = None\<rparr>"

text \<open>The requests of the last loop of \<open>examples/exec_max_n.py\<close>, and their keys.\<close>

definition ten_reqs :: "print_req list" where
  "ten_reqs = map (\<lambda>k. (PStr (''A number of a new ten was detected : '' @ int_str k), PInt k, Some tens))
                  [5, 9, 13, 14, 15, 16, 25]"

definition ten_key :: "print_req \<Rightarrow> pyval" where
  "ten_key r = (case r of (_, PInt k, _) \<Rightarrow> PInt (k div 10) | _ \<Rightarrow> PNone)"

text \<open>A factory \<open>def make(): config = {}; return config\<close>: \<open>config\<close> is a local variable.\<close>

definition local_config_code :: pycode where
  "local_config_code = \<lparr>co_varnames = [''config''], kw_params = [], required_params = [], var_kw = False\<rparr>"

text \<open>
  A runtime with numpy and PyTorch imported, and a \<open>random\<close> stream whose raw value
  at position \<open>p\<close> of seed \<open>n\<close> is \<open>10 n + 37 p\<close>.
\<close>

definition world_rng :: world where
  "world_rng = world0\<lparr>sys_modules := [''numpy'', ''torch''],
     rng_stream := (\<lambda>sd p. (case sd of Some n \<Rightarrow> n | None \<Rightarrow> 0) * 10 + int p * 37)\<rparr>"

section \<open>The limiter of exec_max_n.py\<close>

text \<open>
  C1. A function wrapped by \<open>exec_max_n(func, n, criteria_exec)\<close> (without the counter
  display) and then called any number of times changes the state exactly as calling
  \<open>func\<close> on the first \<open>n\<close> calls that pass the criterion, in order; every other
  call is suppressed.
\<close>

theorem exec_max_n_refinement:
  assumes "exec_max_n (Callable name f) n crit False = Inr w"
  shows "snd (snd (wrapper_run w cs s)) = run_actions f (take (nat n) (filter (crit_pass crit) cs)) s"
proof -
  from assms have w: "w_func w = f" "counter w = n" "w_criteria w = crit" "\<not> w_show_counter w"
    by (auto simp: exec_max_n_def)
  then show ?thesis using wrapper_run_refines [of w cs s] by (simp add: executed_def)
qed

theorem exec_max_n_refinement_witness:
  "exec_max_n (Callable ''test_func2'' (test_func2 :: world action)) 3 None False
     = Inr \<lparr>w_name = ''test_func2'', w_func = test_func2, w_n = 3, w_criteria = None,
            w_show_counter = False, counter = 3\<rparr>
   \<and> stdout (snd (snd (wrapper_run
       \<lparr>w_name = ''test_func2'', w_func = test_func2, w_n = 3, w_criteria = None,
        w_show_counter = False, counter = 3\<rparr>
       (replicate 5 ([], [])) world0)))
     = replicate 3 ''Will be printed only 3 times''"
proof -
  have e: "exec_max_n (Callable ''test_func2'' (test_func2 :: world action)) 3 None False
     = Inr \<lparr>w_name = ''test_func2'', w_func = test_func2, w_n = 3, w_criteria = None,
            w_show_counter = False, counter = 3\<rparr>"
    by (simp add: exec_max_n_def)
  show ?thesis
    using exec_max_n_refinement [OF e, of "replicate 5 ([], [])" world0] e
    by (simp add: numeral_eq_Suc crit_pass_def test_func2_def world0_def del: wrapper_run.simps)
qed

text \<open>
  C2. Whatever the criterion and the counter display, a wrapper built with
  \<open>n \<ge> 0\<close> never lets its counter go negative, and after any sequence of calls
  \<open>n - counter\<close> is the number of executions: the smaller of \<open>n\<close> and the number
  of calls that passed the criterion.
\<close>

theorem exec_max_n_budget:
  assumes "exec_max_n (Callable name f) n crit sc = Inr w" and "0 \<le> n"
  shows "0 \<le> counter (fst (snd (wrapper_run w cs s)))
    \<and> n - counter (fst (snd (wrapper_run w cs s)))
        = int (min (nat n) (length (filter (crit_pass crit) cs)))"
proof -
  from assms(1) have w: "counter w = n" "w_criteria w = crit"
    by (auto simp: exec_max_n_def)
  with assms(2) show ?thesis
    using wrapper_run_refines [of w cs s] by (auto simp: executed_def)
qed

theorem exec_max_n_budget_witness:
  "exec_max_n (Callable ''test_func2'' (test_func2 :: world action)) 3 None True
     = Inr \<lparr>w_name = ''test_func2'', w_func = test_func2, w_n = 3, w_criteria = None,
            w_show_counter = True, counter = 3\<rparr>
   \<and> (0::int) \<le> 3
   \<and> counter (fst (snd (wrapper_run
       \<lparr>w_name = ''test_func2'', w_func = test_func2, w_n = 3, w_criteria = None,
        w_show_counter = True, counter = 3\<rparr>
       (replicate 5 ([], [])) world0))) = 0"
proof -
  have e: "exec_max_n (Callable ''test_func2'' (test_func2 :: world action)) 3 None True
     = Inr \<lparr>w_name = ''test_func2'', w_func = test_func2, w_n = 3, w_criteria = None,
            w_show_counter = True, counter = 3\<rparr>"
    by (simp add: exec_max_n_def)
  show ?thesis
    using exec_max_n_budget [OF e, of "replicate 5 ([], [])" world0] e
    by (simp add: numeral_eq_Suc crit_pass_def del: wrapper_run.simps)
qed

text \<open>
  C3. After importing the module, a sequence of \<open>print_max_n\<close> calls with the same
  \<open>n\<close> (no counter display) whose discriminators are all hashable prints the
  \<open>str\<close> of exactly the objects whose discriminator key occurred fewer than \<open>n\<close>
  times among the calls before, in call order.
\<close>

theorem print_max_n_refinement:
  assumes "\<forall>r \<in> set rs. req_key r = Inr (key r)"
  shows "stdout (print_run n False rs (tb_import w))
           = stdout w @ map (py_str \<circ> req_obj) (first_n_per_key n key rs)"
  using print_run_refines [OF assms, of "tb_import w"] by simp

theorem print_max_n_refinement_witness:
  "list_all (\<lambda>r. req_key r = Inr (ten_key r)) ten_reqs
   \<and> stdout (print_run 1 False ten_reqs (tb_import world0))
     = [''A number of a new ten was detected : 5'', ''A number of a new ten was detected : 13'',
        ''A number of a new ten was detected : 25'']"
proof -
  have keys: "\<forall>r \<in> set ten_reqs. req_key r = Inr (ten_key r)"
    by (simp add: ten_reqs_def req_key_def obj_to_discr_obj_def tens_def counter_key_def ten_key_def)
  have "stdout (print_run 1 False ten_reqs (tb_import world0))
      = stdout world0 @ map (py_str \<circ> req_obj) (first_n_per_key 1 ten_key ten_reqs)"
    by (rule print_max_n_refinement [OF keys])
  also have "\<dots> = [''A number of a new ten was detected : 5'', ''A number of a new ten was detected : 13'',
        ''A number of a new ten was detected : 25'']"
    by code_simp
  finally show ?thesis using keys by (simp add: list_all_iff)
qed

text \<open>
  C4. In the same setting, no discriminator key is printed more than \<open>n\<close> times: the
  printed objects are among the requested ones, and each key is printed exactly
  \<open>min n m\<close> times, where \<open>m\<close> is the number of requests with that key.
\<close>

theorem print_max_n_per_key_bound:
  assumes "\<forall>r \<in> set rs. req_key r = Inr (key r)"
  shows "\<exists>ps. stdout (print_run n False rs (tb_import w)) = stdout w @ map (py_str \<circ> req_obj) ps
           \<and> set ps \<subseteq> set rs
           \<and> (\<forall>k. int (count_list (map key ps) k) \<le> max 0 n
                 \<and> int (count_list (map key ps) k) = min (max 0 n) (int (count_list (map key rs) k)))"
proof (intro exI conjI allI)
  show "stdout (print_run n False rs (tb_import w))
      = stdout w @ map (py_str \<circ> req_obj) (first_n_per_key n key rs)"
    using print_run_refines [OF assms, of "tb_import w"] by simp
  show "set (first_n_per_key n key rs) \<subseteq> set rs"
    by (auto simp: first_n_per_key_def set_zip)
  fix k
  show "int (count_list (map key (first_n_per_key n key rs)) k) = min (max 0 n) (int (count_list (map key rs) k))"
    by (rule count_first_n_per_key)
  then show "int (count_list (map key (first_n_per_key n key rs)) k) \<le> max 0 n" by simp
qed

theorem print_max_n_per_key_bound_witness:
  "list_all (\<lambda>r. req_key r = Inr (ten_key r)) ten_reqs
   \<and> (\<exists>ps. stdout (print_run 1 False ten_reqs (tb_import world0)) = stdout world0 @ map (py_str \<circ> req_obj) ps
        \<and> set ps \<subseteq> set ten_reqs
        \<and> (\<forall>k. int (count_list (map ten_key ps) k) \<le> max 0 1
              \<and> int (count_list (map ten_key ps) k) = min (max 0 1) (int (count_list (map ten_key ten_reqs) k))))"
proof -
  have keys: "\<forall>r \<in> set ten_reqs. req_key r = Inr (ten_key r)"
    by (simp add: ten_reqs_def req_key_def obj_to_discr_obj_def tens_def counter_key_def ten_key_def)
  show ?thesis using keys print_max_n_per_key_bound [OF keys, of 1 world0] by (simp add: list_all_iff)
qed

text \<open>
  C5. A call of the wrapper whose criterion returns a false value returns \<open>None\<close> and
  changes neither the state nor the wrapper: it does not consume an execution.
\<close>

theorem wrapper_call_criteria_false:
  assumes "w_criteria w = Some crit" and "crit args kw = Inr b" and "\<not> py_truthy b"
  shows "wrapper_call w args kw s = (Inr PNone, w, s)"
  using assms by (simp add: wrapper_call_def)

theorem wrapper_call_criteria_false_witness:
  "w_criteria \<lparr>w_name = ''test_func2'', w_func = (test_func2 :: world action), w_n = 3,
       w_criteria = Some (\<lambda>a k. Inr (PInt 0)), w_show_counter = False, counter = 3\<rparr>
     = Some (\<lambda>a k. Inr (PInt 0))
   \<and> (\<lambda>a k. Inr (PInt 0) :: pyval result) [PInt 7] [] = Inr (PInt 0) \<and> \<not> py_truthy (PInt 0)
   \<and> wrapper_call \<lparr>w_name = ''test_func2'', w_func = test_func2, w_n = 3,
       w_criteria = Some (\<lambda>a k. Inr (PInt 0)), w_show_counter = False, counter = 3\<rparr> [PInt 7] [] world0
     = (Inr PNone, \<lparr>w_name = ''test_func2'', w_func = test_func2, w_n = 3,
       w_criteria = Some (\<lambda>a k. Inr (PInt 0)), w_show_counter = False, counter = 3\<rparr>, world0)"
  using wrapper_call_criteria_false [of "\<lparr>w_name = ''test_func2'', w_func = (test_func2 :: world action), w_n = 3,
       w_criteria = Some (\<lambda>a k. Inr (PInt 0)), w_show_counter = False, counter = 3\<rparr>"
      "\<lambda>a k. Inr (PInt 0)" "[PInt 7]" "[]" "PInt 0" world0]
  by simp

text \<open>
  C6. Wrapping fails at wrap time, not at the first call: \<open>exec_max_n\<close> returns an
  \<open>AssertionError\<close> exactly when \<open>func\<close> is not callable, with the source's message.
\<close>

theorem exec_max_n_fails_fast:
  "((\<exists>e. exec_max_n func n crit sc = Inl e) \<longleftrightarrow> (\<exists>v. func = NotCallable v))
   \<and> exec_max_n (NotCallable v) n crit sc = Inl (AssertionError [PStr (''Expected a callable, got '' @ py_str v)])"
  by (auto simp: exec_max_n_def split: func_arg.splits)

text \<open>
  C7. The two counter tables are independent: \<open>print_max_n\<close> never changes the log
  table or the logger calls, and \<open>log_max_n\<close> never changes the print table or the
  standard output, whatever the arguments and the outcome.
\<close>

theorem counter_tables_independent:
  "dict_log_objs_counter (snd (print_max_n obj n d f sc s)) = dict_log_objs_counter s
   \<and> log_calls (snd (print_max_n obj n d f sc s)) = log_calls s
   \<and> dict_printing_objs_counter (snd (log_max_n lg obj' n' d' f' lv sc' a kw s)) = dict_printing_objs_counter s
   \<and> stdout (snd (log_max_n lg obj' n' d' f' lv sc' a kw s)) = stdout s"
  by (auto simp: print_max_n_def log_max_n_def Let_def split: sum.splits)

text \<open>
  C8. A discriminator that is not hashable (a list or a dict) makes \<open>print_max_n\<close>
  raise \<open>TypeError\<close> before anything is printed or counted.
\<close>

theorem print_max_n_unhashable:
  assumes "obj_to_discr_obj obj d f = Inr v" and "py_key v = None"
  shows "print_max_n obj n d f sc s = (Inl TypeError, s)"
  using assms by (simp add: print_max_n_def counter_key_def)

theorem print_max_n_unhashable_witness:
  "obj_to_discr_obj (PList [PInt 1]) PNone None = Inr (PList [PInt 1]) \<and> py_key (PList [PInt 1]) = None
   \<and> print_max_n (PList [PInt 1]) 3 PNone None False (tb_import world0) = (Inl TypeError, tb_import world0)"
  using print_max_n_unhashable [of "PList [PInt 1]" PNone None "PList [PInt 1]" 3 False "tb_import world0"]
  by (simp add: obj_to_discr_obj_def)

text \<open>
  C9. Counters are keyed by the hash of the discriminator, not by the printed object:
  two requests whose discriminators are hash-equal (\<open>True\<close> and \<open>1\<close>, or two values
  a discriminator function maps to one key) draw on one budget. After one has been
  printed once, \<open>print_once\<close> of the other changes nothing, and \<open>print_max_n\<close> of
  either leaves the same counters.
\<close>

theorem print_once_hash_shared:
  assumes "req_key (a, da, fa) = Inr k" and "req_key (b, db, fb) = Inr k"
    and "0 \<le> dict_printing_objs_counter s k"
  shows "snd (print_once b db fb sc (snd (print_once a da fa sc s))) = snd (print_once a da fa sc s)
       \<and> dict_printing_objs_counter (snd (print_max_n b n db fb sc s))
         = dict_printing_objs_counter (snd (print_max_n a n da fa sc s))"
  using assms by (simp add: print_once_def print_max_n_key [OF assms(1)] print_max_n_key [OF assms(2)] Let_def)

theorem print_once_hash_shared_witness:
  "req_key (PBool True, PNone, None) = Inr (PInt 1) \<and> req_key (PInt 1, PNone, None) = Inr (PInt 1)
   \<and> 0 \<le> dict_printing_objs_counter (tb_import world0) (PInt 1)
   \<and> stdout (snd (print_once (PInt 1) PNone None False (snd (print_once (PBool True) PNone None False (tb_import world0)))))
     = [''True'']"
proof -
  have k1: "req_key (PBool True, PNone, None) = Inr (PInt 1)"
    and k2: "req_key (PInt 1, PNone, None) = Inr (PInt 1)"
    by (simp_all add: req_key_def obj_to_discr_obj_def counter_key_def)
  have z: "0 \<le> dict_printing_objs_counter (tb_import world0) (PInt 1)" by simp
  have "stdout (snd (print_once (PBool True) PNone None False (tb_import world0))) = [''True'']"
    by (simp add: print_once_def print_max_n_key [OF k1] world0_def)
  then show ?thesis using k1 k2 z print_once_hash_shared [OF k1 k2 z, of False 1] by simp
qed

section \<open>Dotted-path lookup of config.py\<close>

text \<open>
  C10. When the split path resolves through dicts to a value, \<open>try_get\<close> returns that
  value and changes nothing: the default is never evaluated (even one that would raise)
  and no warning is printed.
\<close>

theorem try_get_found:
  assumes "py_split key sep = Inr ks" and "cfg_lookup config ks = Some v"
  shows "try_get config key dflt warn sep s = (Inr v, s)"
  using assms by (simp add: try_get_def try_get_path_found)

theorem try_get_found_witness:
  "py_split ''a.b.c'' ''.'' = Inr [''a'', ''b'', ''c''] \<and> cfg_lookup cfg_abc [''a'', ''b'', ''c''] = Some (PInt 1)
   \<and> try_get cfg_abc ''a.b.c'' DNoCode True ''.'' (tb_import world0) = (Inr (PInt 1), tb_import world0)"
proof -
  have sp: "py_split ''a.b.c'' ''.'' = Inr [''a'', ''b'', ''c'']" by code_simp
  have lk: "cfg_lookup cfg_abc [''a'', ''b'', ''c''] = Some (PInt 1)" by (simp add: cfg_abc_def key_eq_def)
  show ?thesis using sp lk try_get_found [OF sp lk, of DNoCode True "tb_import world0"] by simp
qed

text \<open>
  C11. When the path is missing (a subkey not \<open>in\<close> the current mapping) and the
  default is a plain value, \<open>try_get\<close> returns the default verbatim and changes
  nothing; the contract also says "not found" there.
\<close>

theorem try_get_missing_value:
  assumes "py_split key sep = Inr ks" and "try_get_path config ks = Inr (Inr subkey)"
  shows "try_get config key (DValue d) False sep s = (Inr d, s) \<and> cfg_lookup config ks = None"
  using assms by (simp add: try_get_def default_value_def try_get_path_missing)

theorem try_get_missing_value_witness:
  "py_split ''a.b.x'' ''.'' = Inr [''a'', ''b'', ''x''] \<and> try_get_path cfg_abc [''a'', ''b'', ''x''] = Inr (Inr ''x'')
   \<and> try_get cfg_abc ''a.b.x'' (DValue (PStr ''dflt'')) False ''.'' (tb_import world0)
       = (Inr (PStr ''dflt''), (tb_import world0)) \<and> cfg_lookup cfg_abc [''a'', ''b'', ''x''] = None"
proof -
  have sp: "py_split ''a.b.x'' ''.'' = Inr [''a'', ''b'', ''x'']" by code_simp
  have tp: "try_get_path cfg_abc [''a'', ''b'', ''x''] = Inr (Inr ''x'')" by (simp add: cfg_abc_def key_eq_def)
  show ?thesis using sp tp try_get_missing_value [OF sp tp] by simp
qed

text \<open>
  C12. On a miss, a default function whose keyword parameters include \<open>config\<close> and
  \<open>key\<close> (and require nothing else) is called with the original mapping and the full
  key string, and its result (or exception) is what \<open>try_get\<close> returns.
\<close>

theorem try_get_callable_default:
  assumes "py_split key sep = Inr ks" and "try_get_path config ks = Inr (Inr subkey)"
    and "''config'' \<in> set (kw_params code)" and "''key'' \<in> set (kw_params code)"
    and "set (kw_params code) \<subseteq> set (co_varnames code)"
    and "set (required_params code) \<subseteq> {''config'', ''key''}"
  shows "try_get config key (DFunction code body) False sep s
           = (body [(''config'', config), (''key'', PStr key)], s)"
proof -
  have "default_value (DFunction code body) config key = body [(''config'', config), (''key'', PStr key)]"
    using assms(3-6) by (auto simp: default_value_def call_kw_def)
  with assms(1,2) show ?thesis by (simp add: try_get_def split: sum.splits)
qed

theorem try_get_callable_default_witness:
  "py_split ''double_a'' ''.'' = Inr [''double_a''] \<and> try_get_path (PDict [(PStr ''a'', PInt 1)]) [''double_a''] = Inr (Inr ''double_a'')
   \<and> ''config'' \<in> set (kw_params double_a_code) \<and> ''key'' \<in> set (kw_params double_a_code)
   \<and> set (kw_params double_a_code) \<subseteq> set (co_varnames double_a_code)
   \<and> set (required_params double_a_code) \<subseteq> {''config'', ''key''}
   \<and> try_get (PDict [(PStr ''a'', PInt 1)]) ''double_a'' (DFunction double_a_code double_a_body) False ''.'' (tb_import world0)
       = (Inr (PInt 2), (tb_import world0))"
proof -
  have sp: "py_split ''double_a'' ''.'' = Inr [''double_a'']" by code_simp
  have tp: "try_get_path (PDict [(PStr ''a'', PInt 1)]) [''double_a''] = Inr (Inr ''double_a'')"
    by (simp add: key_eq_def)
  have c: "''config'' \<in> set (kw_params double_a_code)" "''key'' \<in> set (kw_params double_a_code)"
    "set (kw_params double_a_code) \<subseteq> set (co_varnames double_a_code)"
    "set (required_params double_a_code) \<subseteq> {''config'', ''key''}"
    by (simp_all add: double_a_code_def)
  have b: "double_a_body [(''config'', PDict [(PStr ''a'', PInt 1)]), (''key'', PStr ''double_a'')] = Inr (PInt 2)"
    by (simp add: double_a_body_def key_eq_def)
  show ?thesis using sp tp c b try_get_callable_default [OF sp tp c, of double_a_body "tb_import world0"] by simp
qed

text \<open>
  C13. The parameters to inject are detected with \<open>co_varnames\<close>, which also lists
  local variables: a default function with a local variable named \<open>config\<close> but no
  such parameter (and no \<open>**kwargs\<close>) is called with \<open>config=...\<close> and
  \<open>try_get\<close> raises \<open>TypeError\<close> instead of returning a default.
\<close>

theorem try_get_local_named_config:
  assumes "py_split key sep = Inr ks" and "try_get_path config ks = Inr (Inr subkey)"
    and "''config'' \<in> set (co_varnames code)" and "''config'' \<notin> set (kw_params code)"
    and "\<not> var_kw code"
  shows "try_get config key (DFunction code body) warn sep s = (Inl TypeError, s)"
proof -
  have "default_value (DFunction code body) config key = Inl TypeError"
    using assms(3-5) by (auto simp: default_value_def call_kw_def)
  with assms(1,2) show ?thesis by (simp add: try_get_def)
qed

theorem try_get_local_named_config_witness:
  "py_split ''x'' ''.'' = Inr [''x''] \<and> try_get_path (PDict []) [''x''] = Inr (Inr ''x'')
   \<and> ''config'' \<in> set (co_varnames local_config_code) \<and> ''config'' \<notin> set (kw_params local_config_code)
   \<and> \<not> var_kw local_config_code
   \<and> try_get (PDict []) ''x'' (DFunction local_config_code (\<lambda>kw. Inr (PDict []))) True ''.'' (tb_import world0)
       = (Inl TypeError, (tb_import world0))"
proof -
  have sp: "py_split ''x'' ''.'' = Inr [''x'']" by code_simp
  have tp: "try_get_path (PDict []) [''x''] = Inr (Inr ''x'')" by simp
  have c: "''config'' \<in> set (co_varnames local_config_code)" "''config'' \<notin> set (kw_params local_config_code)"
    "\<not> var_kw local_config_code"
    by (simp_all add: local_config_code_def)
  show ?thesis using sp tp c try_get_local_named_config [OF sp tp c, of "\<lambda>kw. Inr (PDict [])" True "tb_import world0"] by simp
qed

text \<open>
  C14. Against the contract \<open>cfg_lookup\<close> (descent through mappings, anything else
  "not found"): where the contract finds a value, \<open>try_get\<close> returns it; where it
  finds nothing, \<open>try_get\<close> returns the evaluated default exactly as on a plain miss,
  or raises \<open>TypeError\<close>; it never returns a value the contract does not give.
\<close>

theorem try_get_contract:
  assumes "py_split key sep = Inr ks"
  shows "(cfg_lookup config ks = Some v \<longrightarrow> fst (try_get config key dflt warn sep s) = Inr v)
       \<and> (cfg_lookup config ks = None \<longrightarrow>
            fst (try_get config key dflt warn sep s) = default_value dflt config key
            \<or> fst (try_get config key dflt warn sep s) = Inl TypeError)"
proof -
  have "fst (try_get config key dflt warn sep s) = default_value dflt config key"
    if "try_get_path config ks = Inr (Inr k)" for k
    using assms that by (simp add: try_get_def split: sum.splits)
  then show ?thesis
    using try_get_path_cases [of config ks] assms
    by (auto simp: try_get_def)
qed

theorem try_get_contract_witness:
  "py_split ''a.b'' ''.'' = Inr [''a'', ''b'']
   \<and> cfg_lookup (PDict [(PStr ''a'', PInt 1)]) [''a'', ''b''] = None
   \<and> fst (try_get (PDict [(PStr ''a'', PInt 1)]) ''a.b'' (DValue PNone) False ''.'' (tb_import world0)) = Inl TypeError"
proof -
  have sp: "py_split ''a.b'' ''.'' = Inr [''a'', ''b'']" by code_simp
  have "fst (try_get (PDict [(PStr ''a'', PInt 1)]) ''a.b'' (DValue PNone) False ''.'' (tb_import world0)) = default_value (DValue PNone) (PDict [(PStr ''a'', PInt 1)]) ''a.b''
      \<or> fst (try_get (PDict [(PStr ''a'', PInt 1)]) ''a.b'' (DValue PNone) False ''.'' (tb_import world0)) = Inl TypeError"
    using try_get_contract [OF sp, of "PDict [(PStr ''a'', PInt 1)]" _ "DValue PNone" False "tb_import world0"] by (simp add: key_eq_def)
  moreover have "fst (try_get (PDict [(PStr ''a'', PInt 1)]) ''a.b'' (DValue PNone) False ''.'' (tb_import world0)) = Inl TypeError"
    using sp by (simp add: try_get_def key_eq_def)
  ultimately show ?thesis using sp by (simp add: key_eq_def)
qed

text \<open>
  C15. The specification asks that a path reaching a non-mapping be "not found". The code
  tests \<open>subkey in value\<close> on whatever it reached: when the path leads through dicts to a
  string, the next subkey is a substring test; a subkey that is a substring leads to
  \<open>value[subkey]\<close>, which raises \<open>TypeError\<close>, and any other falls back to the
  default, although the contract \<open>cfg_lookup\<close> finds nothing in both cases.
\<close>

theorem try_get_string_intermediate:
  assumes "py_split key sep = Inr (ks @ k # rest)" and "cfg_lookup config ks = Some (PStr t)"
  shows "fst (try_get config key dflt warn sep s)
           = (if str_contains k t then Inl TypeError else default_value dflt config key)
         \<and> cfg_lookup config (ks @ k # rest) = None"
  using assms
  by (auto simp: try_get_def try_get_path_append cfg_lookup_append split: sum.split)

theorem try_get_string_intermediate_witness:
  "py_split ''a.ell'' ''.'' = Inr ([''a''] @ ''ell'' # [])
   \<and> cfg_lookup (PDict [(PStr ''a'', PStr ''hello'')]) [''a''] = Some (PStr ''hello'')
   \<and> fst (try_get (PDict [(PStr ''a'', PStr ''hello'')]) ''a.ell'' (DValue PNone) False ''.'' (tb_import world0))
     = Inl TypeError"
proof -
  have sp: "py_split ''a.ell'' ''.'' = Inr ([''a''] @ ''ell'' # [])" by code_simp
  have c: "cfg_lookup (PDict [(PStr ''a'', PStr ''hello'')]) [''a''] = Some (PStr ''hello'')"
    by (simp add: key_eq_def)
  have i: "str_contains ''ell'' ''hello''" by code_simp
  show ?thesis using sp c i try_get_string_intermediate [OF sp c, of "DValue PNone" False "tb_import world0"] by simp
qed

text \<open>
  C16. With \<open>warn_if_unvalid\<close>, the fallback warning is printed once per key: two misses
  of the same key, starting with its print counter at zero, add exactly one line, the
  warning text naming the key, the missing subkey and the default.
\<close>

theorem try_get_warns_once:
  assumes "py_split key sep = Inr ks" and "try_get_path config ks = Inr (Inr subkey)"
    and "default_value dflt config key = Inr dv"
    and "dict_printing_objs_counter s (PStr key) = 0"
  shows "stdout (snd (try_get config key dflt True sep (snd (try_get config key dflt True sep s))))
           = stdout s @ [warn_text key subkey dv]"
  using assms by (simp add: try_get_def print_once_def print_max_n_def obj_to_discr_obj_def counter_key_def)

theorem try_get_warns_once_witness:
  "py_split ''a.b.x'' ''.'' = Inr [''a'', ''b'', ''x''] \<and> try_get_path cfg_abc [''a'', ''b'', ''x''] = Inr (Inr ''x'')
   \<and> default_value (DValue (PInt 0)) cfg_abc ''a.b.x'' = Inr (PInt 0)
   \<and> dict_printing_objs_counter (tb_import world0) (PStr ''a.b.x'') = 0
   \<and> stdout (snd (try_get cfg_abc ''a.b.x'' (DValue (PInt 0)) True ''.''
        (snd (try_get cfg_abc ''a.b.x'' (DValue (PInt 0)) True ''.'' (tb_import world0)))))
     = [''[tbutils.config WARNING] The key a.b.x is not found (x not in config/subconfig), using a default value: 0'']"
proof -
  have sp: "py_split ''a.b.x'' ''.'' = Inr [''a'', ''b'', ''x'']" by code_simp
  have tp: "try_get_path cfg_abc [''a'', ''b'', ''x''] = Inr (Inr ''x'')" by (simp add: cfg_abc_def key_eq_def)
  have dv: "default_value (DValue (PInt 0)) cfg_abc ''a.b.x'' = Inr (PInt 0)" by (simp add: default_value_def)
  have c0: "dict_printing_objs_counter (tb_import world0) (PStr ''a.b.x'') = 0" by simp
  have wt: "warn_text ''a.b.x'' ''x'' (PInt 0)
      = ''[tbutils.config WARNING] The key a.b.x is not found (x not in config/subconfig), using a default value: 0''"
    by code_simp
  show ?thesis using sp tp dv c0 wt try_get_warns_once [OF sp tp dv c0]
    by (simp add: world0_def)
qed

text \<open>
  C17. A callable default without \<open>__code__\<close> (a class or builtin such as \<open>list\<close> or
  \<open>dict\<close>) makes \<open>try_get\<close> raise \<open>AttributeError\<close> on a miss instead of calling it.
\<close>

theorem try_get_builtin_default:
  assumes "py_split key sep = Inr ks" and "try_get_path config ks = Inr (Inr subkey)"
  shows "try_get config key DNoCode warn sep s = (Inl AttributeError, s)"
  using assms by (simp add: try_get_def default_value_def)

theorem try_get_builtin_default_witness:
  "py_split ''x'' ''.'' = Inr [''x''] \<and> try_get_path (PDict []) [''x''] = Inr (Inr ''x'')
   \<and> try_get (PDict []) ''x'' DNoCode False ''.'' (tb_import world0) = (Inl AttributeError, (tb_import world0))"
proof -
  have sp: "py_split ''x'' ''.'' = Inr [''x'']" by code_simp
  have tp: "try_get_path (PDict []) [''x''] = Inr (Inr ''x'')" by simp
  show ?thesis using sp tp try_get_builtin_default [OF sp tp, of False "tb_import world0"] by simp
qed

section \<open>Nested structures of struct.py\<close>

text \<open>
  C18. Round trip: for a nested dict with string keys that do not contain the
  one-character separator, distinct keys, no empty sub-dict, and a non-empty key for
  every top-level dict value, \<open>unflatten_dict(get_dict_flattened(d))\<close> is \<open>d\<close> again,
  with the same key order.
\<close>

theorem flatten_unflatten_roundtrip:
  assumes "nested_ok c d" and "top_ok d"
  shows "rbind (get_dict_flattened (PDict d) (PStr []) [c]) (\<lambda>f. unflatten_dict f [c]) = Inr (PDict d)"
proof -
  have items: "flat_items [c] (PStr []) d = Inr (map (\<lambda>(ks, v). (PStr (py_join [c] ks), v)) (leaves d))"
    by (rule flat_items_top [OF assms])
  have dd: "dict_of_list (map (\<lambda>(ks, v). (PStr (py_join [c] ks), v)) (leaves d))
      = map (\<lambda>(ks, v). (PStr (py_join [c] ks), v)) (leaves d)"
    using flat_keys_distinct [OF assms(1), of "[]"] by (intro dict_of_list_distinct) auto
  have "unflatten_items [c] (PDict []) (map (\<lambda>(ks, v). (PStr (py_join [c] ks), v)) (leaves d))
      = ins_paths (PDict []) (leaves d)"
    using leaves_shape [of d] leaves_sep_free [OF assms(1)] by (intro unflatten_items_joined) auto
  also have "\<dots> = Inr (PDict d)"
    using ins_paths_leaves [OF assms(1), of "[]"] by simp
  finally show ?thesis
    using items dd by (simp add: get_dict_flattened_def unflatten_dict_def)
qed

theorem flatten_unflatten_roundtrip_witness:
  "nested_ok CHR ''.'' struct_d \<and> top_ok struct_d
   \<and> rbind (get_dict_flattened (PDict struct_d) (PStr []) ''.'') (\<lambda>f. unflatten_dict f ''.'') = Inr (PDict struct_d)"
proof -
  have ok: "nested_ok CHR ''.'' struct_d" by code_simp
  have top: "top_ok struct_d" by code_simp
  show ?thesis using ok top flatten_unflatten_roundtrip [OF ok top] by simp
qed

text \<open>
  The round trip stated by the specification fails for dicts without the separator
  in any key: for an empty sub-dict, \<open>get_dict_flattened({"a": {}})\<close> is \<open>{}\<close>, so
  unflattening gives \<open>{}\<close>; for a sub-dict under the empty key,
  \<open>{"": {"a": 1}}\<close> flattens to \<open>{"a": 1}\<close>, because the falsy parent key is
  not prefixed, and unflattens to that.
\<close>

theorem roundtrip_counterexamples:
  "rbind (get_dict_flattened (PDict [(PStr ''a'', PDict [])]) (PStr []) ''.'') (\<lambda>f. unflatten_dict f ''.'')
     = Inr (PDict [])
   \<and> rbind (get_dict_flattened (PDict [(PStr [], PDict [(PStr ''a'', PInt 1)])]) (PStr []) ''.'')
       (\<lambda>f. unflatten_dict f ''.'') = Inr (PDict [(PStr ''a'', PInt 1)])"
  by code_simp

text \<open>
  C20. \<open>assert_same_shape=True\<close> only adds a check: whenever the strict inspection returns
  a shape, the non-strict one returns the same shape.
\<close>

theorem get_shape_strict_agrees:
  assumes "get_shape auth True obj = Inr r"
  shows "get_shape auth False obj = Inr r"
  using assms by (rule get_shape_strict_nonstrict)

theorem get_shape_strict_agrees_witness:
  "get_shape default_authorized True (PList [PList [PInt 1, PInt 2], PList [PInt 3, PInt 4]]) = Inr (PTuple [PInt 2, PInt 2])
   \<and> get_shape default_authorized False (PList [PList [PInt 1, PInt 2], PList [PInt 3, PInt 4]]) = Inr (PTuple [PInt 2, PInt 2])"
proof -
  have s: "get_shape default_authorized True (PList [PList [PInt 1, PInt 2], PList [PInt 3, PInt 4]]) = Inr (PTuple [PInt 2, PInt 2])"
    by code_simp
  show ?thesis using s get_shape_strict_agrees [OF s] by simp
qed

text \<open>C21. Without \<open>assert_same_shape\<close>, \<open>get_shape\<close> never raises, for any value and any authorized types.\<close>

theorem get_shape_nonstrict_never_raises: "\<exists>r. get_shape auth False obj = Inr r"
  by (rule get_shape_nonstrict_total)

text \<open>
  C22. With \<open>assert_same_shape=True\<close>, a non-empty list or tuple whose elements all have
  shapes \<open>subs\<close> gets \<open>(len(obj), *subs[0])\<close> when the shapes agree, and otherwise the
  \<open>AssertionError\<close> that carries all the sub-shapes.
\<close>

theorem get_shape_strict_sequence:
  assumes "is_authorized auth obj" and "\<forall>d. obj \<noteq> PDict d"
    and "rmap (get_shape auth True) (elems obj) = Inr subs" and "subs \<noteq> []"
  shows "get_shape auth True obj =
           (if \<exists>sh \<in> set subs. sh \<noteq> hd subs then Inl (shape_error subs)
            else Inr (PTuple (PInt (int (length subs)) # splat (hd subs))))"
proof -
  have len: "length subs = length (elems obj)" using rmap_Inr_length [OF assms(3)] by simp
  with assms(4) have ne: "elems obj \<noteq> []" by auto
  have "get_shape auth True (elems obj ! 0) = Inr (subs ! 0)"
    using rmap_Inr_nth [OF assms(3)] ne by simp
  then have first: "get_shape auth True (hd (elems obj)) = Inr (hd subs)"
    using ne assms(4) by (simp add: hd_conv_nth)
  show ?thesis using get_shape_seq [OF assms(1) ne assms(2)] first assms(3) len by simp
qed

theorem get_shape_strict_sequence_witness:
  "is_authorized default_authorized (PList [PList [PInt 7], PList [PInt 1, PInt 2]])
   \<and> (\<forall>d. PList [PList [PInt 7], PList [PInt 1, PInt 2]] \<noteq> PDict d)
   \<and> rmap (get_shape default_authorized True) (elems (PList [PList [PInt 7], PList [PInt 1, PInt 2]]))
     = Inr [PTuple [PInt 1], PTuple [PInt 2]]
   \<and> get_shape default_authorized True (PList [PList [PInt 7], PList [PInt 1, PInt 2]])
     = Inl (shape_error [PTuple [PInt 1], PTuple [PInt 2]])"
proof -
  have a: "is_authorized default_authorized (PList [PList [PInt 7], PList [PInt 1, PInt 2]])"
    by (simp add: is_authorized_def default_authorized_def)
  have nd: "\<forall>d. PList [PList [PInt 7], PList [PInt 1, PInt 2]] \<noteq> PDict d" by simp
  have r: "rmap (get_shape default_authorized True) (elems (PList [PList [PInt 7], PList [PInt 1, PInt 2]]))
     = Inr [PTuple [PInt 1], PTuple [PInt 2]]" by code_simp
  show ?thesis using a nd r get_shape_strict_sequence [OF a nd r] by simp
qed

text \<open>
  The script \<open>examples/struct_example.py\<close> (without its NumPy and set inputs,
  which \<open>Examples\<close> replaces by values \<open>get_shape\<close> treats alike) prints the nested dict,
  its flattened form, the unflattened one (equal to the original), the shapes \<open>(2, 2)\<close>,
  \<open>(2, 2)\<close>, the string \<open>'Dict(3 keys to (3, 2))'\<close> and \<open>(2, 2, 7)\<close>, and for the
  strict inspection of the ragged list the caught \<open>AssertionError\<close> with the sub-shapes
  \<open>[(7,), (1,)]\<close>; it changes nothing else.
\<close>

theorem struct_example_output:
  "struct_example_main s = (Inr (), s\<lparr>stdout := stdout s @
     [''Testing get_dict_flattened with '' @ py_repr (PDict struct_d),
      ''Flattened: '' @ py_repr (PDict flat_d),
      ''Unflattened: '' @ py_repr (PDict struct_d),
      ''get_shape([[1, 2], [3, 4]])=(2, 2)'',
      ''get_shape(np.array([[1, 2], [3, 4]]))=(2, 2)'',
      ''get_shape({1: [1, 2], 2: (1, 2), 3: {1, 2}})='' @ repr_str ''Dict(3 keys to (3, 2))'',
      ''get_shape([[[None, None, None, None, None, None, None], [4]], [None, [7, 8]]])=(2, 2, 7)'',
      ''AssertionError was raised: ('' @ repr_str ''All sub-objects must have the same shape, but got: ''
        @ '', [(7,), (1,)])'']\<rparr>)"
  by (simp add: struct_example_main_def example_script_defs struct_d_flattened flat_d_unflattened
      example_shapes example_reprs del: py_repr.simps)

text \<open>
  C23. For a list or tuple whose first element is a non-empty dict, the dict's shape is the
  string \<open>"Dict(n keys to ...)"\<close>, and \<open>(len(obj), *first_shape)\<close> splats that
  string into one element per character instead of nesting it.
\<close>

theorem get_shape_list_of_dicts:
  assumes "is_authorized auth obj" and "\<forall>d'. obj \<noteq> PDict d'"
    and "elems obj = PDict d # rest" and "CDict \<in> set auth" and "d \<noteq> []"
  shows "\<exists>sh. get_shape auth False obj =
           Inr (PTuple (PInt (int (Suc (length rest))) # map (\<lambda>c. PStr [c])
                  (''Dict('' @ int_str (int (length d)) @ '' keys to '' @ py_str sh @ '')'')))"
proof -
  obtain sh where sh: "get_shape auth False (PList (map snd d)) = Inr sh"
    using get_shape_nonstrict_total by blast
  have "is_authorized auth (PDict d)" using assms(4) by (simp add: is_authorized_def)
  then have "get_shape auth False (PDict d) =
      Inr (PStr (''Dict('' @ int_str (int (length d)) @ '' keys to '' @ py_str sh @ '')''))"
    using get_shape_dict assms(5) sh by simp
  then show ?thesis using get_shape_seq [OF assms(1) _ assms(2)] assms(3) by auto
qed

theorem get_shape_list_of_dicts_witness:
  "is_authorized default_authorized (PList [PDict [(PInt 1, PList [PInt 1, PInt 2])]])
   \<and> (\<forall>d'. PList [PDict [(PInt 1, PList [PInt 1, PInt 2])]] \<noteq> PDict d')
   \<and> elems (PList [PDict [(PInt 1, PList [PInt 1, PInt 2])]]) = PDict [(PInt 1, PList [PInt 1, PInt 2])] # []
   \<and> CDict \<in> set default_authorized \<and> [(PInt 1, PList [PInt 1, PInt 2])] \<noteq> []
   \<and> (\<exists>sh. get_shape default_authorized False (PList [PDict [(PInt 1, PList [PInt 1, PInt 2])]]) =
        Inr (PTuple (PInt (int (Suc (length ([] :: pyval list)))) # map (\<lambda>c. PStr [c])
          (''Dict('' @ int_str (int (length [(PInt 1, PList [PInt 1, PInt 2])])) @ '' keys to '' @ py_str sh @ '')''))))"
proof -
  have a: "is_authorized default_authorized (PList [PDict [(PInt 1, PList [PInt 1, PInt 2])]])"
    by (simp add: is_authorized_def default_authorized_def)
  have nd: "\<forall>d'. PList [PDict [(PInt 1, PList [PInt 1, PInt 2])]] \<noteq> PDict d'" by simp
  have e: "elems (PList [PDict [(PInt 1, PList [PInt 1, PInt 2])]]) = PDict [(PInt 1, PList [PInt 1, PInt 2])] # []"
    by simp
  have c: "CDict \<in> set default_authorized" by (simp add: default_authorized_def)
  have ne: "[(PInt 1, PList [PInt 1, PInt 2])] \<noteq> []" by simp
  show ?thesis using a nd e c ne get_shape_list_of_dicts [OF a nd e c ne] by blast
qed

text \<open>
  C32. \<open>get_dict_flattened\<close> returns a flat dict: whenever it returns, the result is a
  dict none of whose values is a dict.
\<close>

theorem get_dict_flattened_flat:
  assumes "get_dict_flattened d parent sep = Inr r"
  shows "\<exists>items. r = PDict items \<and> (\<forall>x \<in> set items. \<not> is_dict (snd x))"
proof -
  from assms obtain items its where f: "flat_items sep parent items = Inr its"
    and r: "r = PDict (dict_of_list its)"
    by (cases d) (auto simp: get_dict_flattened_def rbind_eq_Inr_iff)
  have "\<forall>x \<in> set (dict_of_list its). \<not> is_dict (snd x)"
    using flat_items_no_dict [OF f] by (rule dict_of_list_values_pres)
  with r show ?thesis by blast
qed

theorem get_dict_flattened_flat_witness:
  "get_dict_flattened (PDict struct_d) (PStr []) ''.'' = Inr (PDict flat_d)
   \<and> list_all (\<lambda>x. \<not> is_dict (snd x)) flat_d"
  using struct_d_flattened get_dict_flattened_flat [OF struct_d_flattened] by (simp add: list_all_iff)

section \<open>Seeding of seed.py\<close>

text \<open>
  C24. When the config has an \<open>int\<close> (or \<open>bool\<close>) at the seed key, \<open>try_get_seed\<close>
  returns it unchanged and prints nothing; the random default is still drawn, so the
  \<open>random\<close> stream advances by one position.
\<close>

theorem try_get_seed_found:
  assumes "0 < seed_max" and "py_split key ''.'' = Inr ks" and "cfg_lookup config ks = Some v"
    and "py_isint v"
  shows "try_get_seed config seed_max key w s = (Inr v, s\<lparr>rng_pos := Suc (rng_pos s)\<rparr>)"
  using assms by (simp add: try_get_seed_draw Let_def try_get_fst_found [OF assms(2,3)])

theorem try_get_seed_found_witness:
  "py_split ''seed'' ''.'' = Inr [''seed''] \<and> cfg_lookup (PDict [(PStr ''seed'', PInt 42)]) [''seed''] = Some (PInt 42)
   \<and> try_get_seed (PDict [(PStr ''seed'', PInt 42)]) 1000 ''seed'' True (tb_import world_rng)
     = (Inr (PInt 42), (tb_import world_rng)\<lparr>rng_pos := 1\<rparr>)"
proof -
  have sp: "py_split ''seed'' ''.'' = Inr [''seed'']" by code_simp
  have lk: "cfg_lookup (PDict [(PStr ''seed'', PInt 42)]) [''seed''] = Some (PInt 42)" by (simp add: key_eq_def)
  show ?thesis
    using sp lk try_get_seed_found [OF _ sp lk, of 1000 True "tb_import world_rng"]
    by (simp add: world_rng_def world0_def)
qed

text \<open>
  C25. When the seed key is missing, \<open>try_get_seed\<close> returns the random default
  \<open>randint(0, seed_max - 1)\<close> drawn at the current position of the stream, and prints
  no warning whatever \<open>warn_if_unvalid\<close> is.
\<close>

theorem try_get_seed_missing:
  assumes "0 < seed_max" and "py_split key ''.'' = Inr ks" and "try_get_path config ks = Inr (Inr k)"
  shows "try_get_seed config seed_max key w s =
           (Inr (PInt (rng_stream s (rng_seed s) (rng_pos s) mod seed_max)), s\<lparr>rng_pos := Suc (rng_pos s)\<rparr>)"
  using assms by (simp add: try_get_seed_draw Let_def try_get_fst_missing [OF assms(2,3)])

theorem try_get_seed_missing_witness:
  "py_split ''seed'' ''.'' = Inr [''seed''] \<and> try_get_path (PDict []) [''seed''] = Inr (Inr ''seed'')
   \<and> try_get_seed (PDict []) 1000 ''seed'' True (set_seed 5 (tb_import world_rng))
     = (Inr (PInt 50), (set_seed 5 (tb_import world_rng))\<lparr>rng_pos := 1\<rparr>)"
proof -
  have sp: "py_split ''seed'' ''.'' = Inr [''seed'']" by code_simp
  have tp: "try_get_path (PDict []) [''seed''] = Inr (Inr ''seed'')" by code_simp
  show ?thesis
    using sp tp try_get_seed_missing [OF _ sp tp, of 1000 True "set_seed 5 (tb_import world_rng)"]
    by (simp add: world_rng_def world0_def)
qed

text \<open>
  C26. When the config holds a value that is not an \<open>int\<close> at the seed key,
  \<open>try_get_seed\<close> returns a second random draw, so the stream advances by two, and
  with \<open>warn_if_unvalid\<close> prints the warning naming that seed unless the same line was
  printed before.
\<close>

theorem try_get_seed_not_int:
  assumes "0 < seed_max" and "py_split key ''.'' = Inr ks" and "cfg_lookup config ks = Some v"
    and "\<not> py_isint v"
  shows "let r' = rng_stream s (rng_seed s) (Suc (rng_pos s)) mod seed_max in
           fst (try_get_seed config seed_max key True s) = Inr (PInt r')
           \<and> stdout (snd (try_get_seed config seed_max key True s))
               = stdout s @ (if dict_printing_objs_counter s (PStr (seed_warning r')) < 1
                             then [seed_warning r'] else [])
           \<and> rng_pos (snd (try_get_seed config seed_max key True s)) = rng_pos s + 2"
  using assms
  by (simp add: try_get_seed_draw Let_def try_get_fst_found [OF assms(2,3)] print_once_str_state)

theorem try_get_seed_not_int_witness:
  "py_split ''seed'' ''.'' = Inr [''seed''] \<and> cfg_lookup (PDict [(PStr ''seed'', PStr ''42'')]) [''seed''] = Some (PStr ''42'')
   \<and> fst (try_get_seed (PDict [(PStr ''seed'', PStr ''42'')]) 1000 ''seed'' True (tb_import world_rng)) = Inr (PInt 37)
   \<and> stdout (snd (try_get_seed (PDict [(PStr ''seed'', PStr ''42'')]) 1000 ''seed'' True (tb_import world_rng)))
       = [seed_warning 37]"
proof -
  have sp: "py_split ''seed'' ''.'' = Inr [''seed'']" by code_simp
  have lk: "cfg_lookup (PDict [(PStr ''seed'', PStr ''42'')]) [''seed''] = Some (PStr ''42'')" by (simp add: key_eq_def)
  show ?thesis
    using sp lk try_get_seed_not_int [OF _ sp lk, of 1000 "tb_import world_rng"]
    by (simp add: world_rng_def world0_def Let_def)
qed

text \<open>
  C27. Every seed \<open>try_get_seed\<close> returns is either the \<open>int\<close> (or \<open>bool\<close>) found
  in the config at the seed key or an integer of \<open>[0, seed_max)\<close>.
\<close>

theorem try_get_seed_range:
  assumes "try_get_seed config seed_max key w s = (Inr v, s')"
  shows "(\<exists>ks. py_split key ''.'' = Inr ks \<and> cfg_lookup config ks = Some v \<and> py_isint v)
         \<or> (\<exists>r. v = PInt r \<and> 0 \<le> r \<and> r < seed_max)"
proof (cases "0 < seed_max")
  case True
  let ?r = "rng_stream s (rng_seed s) (rng_pos s) mod seed_max"
  let ?t = "try_get config key (DValue (PInt ?r)) False ''.'' (s\<lparr>rng_pos := Suc (rng_pos s)\<rparr>)"
  show ?thesis
  proof (cases "fst ?t")
    case (Inr x)
    with try_get_fst_cases [OF Inr] assms True show ?thesis
      by (auto simp: try_get_seed_draw Let_def split: if_splits)
  qed (use assms True in \<open>simp add: try_get_seed_draw Let_def\<close>)
qed (use assms in \<open>simp add: try_get_seed_def randint_def\<close>)

theorem try_get_seed_range_witness:
  "try_get_seed (PDict []) 10 ''seed'' True (tb_import world_rng) = (Inr (PInt 0), (tb_import world_rng)\<lparr>rng_pos := 1\<rparr>)
   \<and> (PInt 0 = PInt 0 \<and> 0 \<le> (0::int) \<and> (0::int) < 10)"
proof -
  have run: "try_get_seed (PDict []) 10 ''seed'' True (tb_import world_rng) = (Inr (PInt 0), (tb_import world_rng)\<lparr>rng_pos := 1\<rparr>)"
    by (simp add: try_get_seed_def randint_def try_get_def default_value_def world_rng_def world0_def py_split_def)
  have "(\<exists>ks. py_split ''seed'' ''.'' = Inr ks \<and> cfg_lookup (PDict []) ks = Some (PInt 0) \<and> py_isint (PInt 0))
         \<or> (\<exists>r. PInt 0 = PInt r \<and> 0 \<le> r \<and> r < 10)"
    by (rule try_get_seed_range [OF run])
  with run show ?thesis by simp
qed

text \<open>
  C28. With \<open>seed_max <= 0\<close> the eager default \<open>random.randint(0, seed_max - 1)\<close>
  raises \<open>ValueError\<close> before the config is read, even when the config has a valid
  seed; nothing else happens.
\<close>

theorem try_get_seed_nonpositive_max:
  "seed_max \<le> 0 \<Longrightarrow> try_get_seed config seed_max key w s = (Inl ValueError, s)"
  by (simp add: try_get_seed_def randint_def)

theorem try_get_seed_nonpositive_max_witness:
  "(0::int) \<le> 0 \<and> try_get_seed (PDict [(PStr ''seed'', PInt 42)]) 0 ''seed'' True (tb_import world_rng)
     = (Inl ValueError, tb_import world_rng)"
  using try_get_seed_nonpositive_max [of 0 "PDict [(PStr ''seed'', PInt 42)]" "''seed''" True "tb_import world_rng"]
  by simp

text \<open>
  C29. Reproducibility: after \<open>set_seed(n)\<close>, the seed \<open>try_get_seed\<close> returns (or
  the error it raises) depends only on \<open>n\<close>, the config and the arguments, not on the
  state the run started in (for one generator of the \<open>random\<close> module).
\<close>

theorem try_get_seed_reproducible:
  assumes "rng_stream s = rng_stream t"
  shows "fst (try_get_seed config seed_max key w (set_seed n s))
       = fst (try_get_seed config seed_max key w (set_seed n t))"
proof (cases "0 < seed_max")
  case True
  let ?r = "rng_stream t (Some n) 0 mod seed_max"
  have "fst (try_get config key (DValue (PInt ?r)) False ''.'' ((set_seed n s)\<lparr>rng_pos := Suc 0\<rparr>))
      = fst (try_get config key (DValue (PInt ?r)) False ''.'' ((set_seed n t)\<lparr>rng_pos := Suc 0\<rparr>))"
    by (rule try_get_result_indep)
  then show ?thesis
    using True assms by (simp add: try_get_seed_draw Let_def split: sum.splits)
qed (simp add: try_get_seed_def randint_def)

theorem try_get_seed_reproducible_witness:
  "rng_stream (tb_import world_rng) = rng_stream ((tb_import world_rng)\<lparr>stdout := [''x''], rng_pos := 9\<rparr>)
   \<and> fst (try_get_seed (PDict []) 1000 ''seed'' True (set_seed 5 (tb_import world_rng)))
     = fst (try_get_seed (PDict []) 1000 ''seed'' True (set_seed 5 ((tb_import world_rng)\<lparr>stdout := [''x''], rng_pos := 9\<rparr>)))"
proof -
  have eq: "rng_stream (tb_import world_rng) = rng_stream ((tb_import world_rng)\<lparr>stdout := [''x''], rng_pos := 9\<rparr>)"
    by simp
  show ?thesis using eq try_get_seed_reproducible [OF eq] by blast
qed

text \<open>
  C30. \<open>set_seed(n)\<close> seeds \<open>random\<close> with \<open>n\<close> and restarts its stream, sets
  \<open>PYTHONHASHSEED\<close> to \<open>str(n)\<close>, sets numpy's seed to \<open>0\<close> when numpy is loaded,
  seeds PyTorch (CPU, current GPU, all GPUs) with \<open>n\<close> and makes cudnn deterministic and
  disabled when torch is loaded, seeds TensorFlow with \<open>n\<close> when it is loaded, and
  leaves the seeds of libraries that are not loaded and the output alone.
\<close>

theorem set_seed_effects:
  "rng_seed (set_seed n s) = Some n \<and> rng_pos (set_seed n s) = 0
   \<and> environ (set_seed n s) ''PYTHONHASHSEED'' = Some (int_str n)
   \<and> np_seed (set_seed n s) = (if ''numpy'' \<in> set (sys_modules s) then Some 0 else np_seed s)
   \<and> torch_seed (set_seed n s) = (if ''torch'' \<in> set (sys_modules s) then Some n else torch_seed s)
   \<and> torch_cuda_seed (set_seed n s) = (if ''torch'' \<in> set (sys_modules s) then Some n else torch_cuda_seed s)
   \<and> torch_cuda_seed_all (set_seed n s) = (if ''torch'' \<in> set (sys_modules s) then Some n else torch_cuda_seed_all s)
   \<and> cudnn_deterministic (set_seed n s) = (''torch'' \<in> set (sys_modules s) \<or> cudnn_deterministic s)
   \<and> cudnn_enabled (set_seed n s) = (''torch'' \<notin> set (sys_modules s) \<and> cudnn_enabled s)
   \<and> cudnn_benchmark (set_seed n s) = (''torch'' \<notin> set (sys_modules s) \<and> cudnn_benchmark s)
   \<and> tf_seed (set_seed n s) = (if ''tensorflow'' \<in> set (sys_modules s) then Some n else tf_seed s)
   \<and> stdout (set_seed n s) = stdout s"
  by (simp add: set_seed_def random_seed_def Let_def)

text \<open>
  The numpy seed that \<open>set_seed\<close> leaves does not depend on its argument: two
  runs seeded with different values get the same numpy stream, while the seeds of
  \<open>random\<close>, PyTorch and TensorFlow are the argument.
\<close>

theorem set_seed_numpy_ignores_seed: "np_seed (set_seed n s) = np_seed (set_seed n' s)"
  by (simp add: set_seed_def random_seed_def Let_def)

section \<open>Config helpers of config.py\<close>

text \<open>
  C33. \<open>merge_container\<close> on one or more dicts returns a dict in which each key maps to
  the value of the last container that has it.
\<close>

theorem merge_container_dicts:
  assumes "ds \<noteq> []"
  shows "\<exists>m. merge_container (map PDict ds) = Inr (PDict m)
           \<and> (\<forall>k. dict_get m k = (case filter (\<lambda>(k', v). key_eq k k') (concat ds) of
                                   [] \<Rightarrow> None | xs \<Rightarrow> Some (snd (last xs))))"
  using assms by (simp add: merge_container_def dict_get_dict_of_list)

theorem merge_container_dicts_witness:
  "[[(PStr ''a'', PInt 1), (PStr ''b'', PInt 2)], [(PStr ''a'', PInt 3)]] \<noteq> []
   \<and> merge_container [PDict [(PStr ''a'', PInt 1), (PStr ''b'', PInt 2)], PDict [(PStr ''a'', PInt 3)]]
     = Inr (PDict [(PStr ''a'', PInt 3), (PStr ''b'', PInt 2)])"
proof -
  have ne: "[[(PStr ''a'', PInt 1), (PStr ''b'', PInt 2)], [(PStr ''a'', PInt 3)]] \<noteq> []" by simp
  have "merge_container [PDict [(PStr ''a'', PInt 1), (PStr ''b'', PInt 2)], PDict [(PStr ''a'', PInt 3)]]
     = Inr (PDict [(PStr ''a'', PInt 3), (PStr ''b'', PInt 2)])"
    by code_simp
  with ne merge_container_dicts [OF ne] show ?thesis by simp
qed

text \<open>
  C34. The tuple branch of \<open>merge_container\<close> is dead: \<open>OmegaConf.to_container\<close>
  never yields a tuple, so the result is never a tuple.
\<close>

theorem merge_container_never_tuple: "merge_container cs \<noteq> Inr (PTuple xs)"
proof
  assume m: "merge_container cs = Inr (PTuple xs)"
  then obtain cs' where r: "rmap to_container cs = Inr cs'"
    by (cases "rmap to_container cs") (auto simp: merge_container_def)
  from rmap_to_container_shape [OF r] have eq: "cs' = cs"
    and sh: "\<forall>c \<in> set cs. (\<exists>xs. c = PList xs) \<or> (\<exists>d. c = PDict d)" by auto
  show False
  proof (cases "cs = []")
    case True
    with m show False by (simp add: merge_container_def)
  next
    case False
    with m r eq those_as_tuple_containers [OF sh False] show False
      by (auto simp: merge_container_def split: option.splits)
  qed
qed

text \<open>
  C36. \<open>instantiate_class(**kwargs)\<close> with \<open>class_string = "m:C"\<close>, where module
  \<open>m\<close> imports and defines \<open>C\<close>, calls \<open>C\<close> with exactly the other keyword
  arguments, in order, and returns what it returns.
\<close>

theorem instantiate_class_calls:
  assumes "map_of kwargs ''class_string'' = Some (PStr (m @ '':'' @ c))"
    and "CHR '':'' \<notin> set m" and "CHR '':'' \<notin> set c"
    and "modules m = Inr module" and "module c = Some Class"
  shows "instantiate_class modules kwargs = Class (filter (\<lambda>(k, _). k \<noteq> ''class_string'') kwargs)"
proof -
  have "split_class_string (PStr (m @ '':'' @ c)) = Inr (m, c)"
    using assms(2,3) by (rule split_class_string_ok)
  then show ?thesis using assms(1,4,5) by (simp add: instantiate_class_def)
qed

theorem instantiate_class_calls_witness:
  "map_of config_for_class ''class_string'' = Some (PStr (''examples.config'' @ '':'' @ ''Class''))
   \<and> CHR '':'' \<notin> set ''examples.config'' \<and> CHR '':'' \<notin> set ''Class''
   \<and> example_modules ''examples.config'' = Inr (\<lambda>c. if c = ''Class'' then Some example_class else None)
   \<and> (\<lambda>c. if c = ''Class'' then Some example_class else None) ''Class'' = Some example_class
   \<and> instantiate_class example_modules config_for_class = Inr (PStr ''Class(arg1=1, arg2=2)'')"
proof -
  have a: "map_of config_for_class ''class_string'' = Some (PStr (''examples.config'' @ '':'' @ ''Class''))"
    by (simp add: config_for_class_def)
  have b: "CHR '':'' \<notin> set ''examples.config''" "CHR '':'' \<notin> set ''Class''" by simp_all
  have c: "example_modules ''examples.config'' = Inr (\<lambda>c. if c = ''Class'' then Some example_class else None)"
    by (simp add: example_modules_def)
  have d: "(\<lambda>c. if c = ''Class'' then Some example_class else None) ''Class'' = Some example_class" by simp
  have e: "example_class (filter (\<lambda>(k, _). k \<noteq> ''class_string'') config_for_class) = Inr (PStr ''Class(arg1=1, arg2=2)'')"
    by code_simp
  show ?thesis
    using a b c d e instantiate_class_calls [where m = "''examples.config''" and c = "''Class''"
      and module = "\<lambda>c. if c = ''Class'' then Some example_class else None" and Class = example_class
      and modules = example_modules and kwargs = config_for_class, OF a b c d]
    by simp
qed

section \<open>The nest_for_array decorator of jax.py\<close>

text \<open>
  C39. With \<open>key_random\<close>, \<open>nest_for_array\<close> hands every array of a nested structure
  a key derived from the given key, and no two arrays get keys one of which was derived
  from the other (in particular no key is used twice): a function that returns its array
  with the key it received shows the keys.
\<close>

theorem nest_for_array_keys_independent:
  assumes "nest_apply (\<lambda>a k. Inr (a, k)) (Some k0) v = Inr v'"
  shows "keys_ok k0 (jleaves v')"
  by (rule nest_keys(1) [where f = "\<lambda>a k. Inr (a, k)" and k = "Some k0" and v = v]) (simp_all add: assms)

theorem nest_for_array_keys_independent_witness:
  "nest_apply (\<lambda>a k. Inr (a, k)) (Some []) (JList [JArr (1::int), JDict [(PStr ''w'', JArr 2), (PStr ''b'', JArr 3)]])
     = Inr (JList [JArr (1, Some [True]), JDict [(PStr ''w'', JArr (2, Some [False, True, True])),
                                              (PStr ''b'', JArr (3, Some [False, True, False, True]))]])
   \<and> keys_ok [] (jleaves (JList [JArr ((1::int), Some [True]), JDict [(PStr ''w'', JArr (2, Some [False, True, True])),
                                              (PStr ''b'', JArr (3, Some [False, True, False, True]))]]))"
proof -
  have run: "nest_apply (\<lambda>a k. Inr (a, k)) (Some []) (JList [JArr (1::int), JDict [(PStr ''w'', JArr 2), (PStr ''b'', JArr 3)]])
     = Inr (JList [JArr (1, Some [True]), JDict [(PStr ''w'', JArr (2, Some [False, True, True])),
                                              (PStr ''b'', JArr (3, Some [False, True, False, True]))]])"
    by (simp add: jsplit_def)
  show ?thesis using run nest_for_array_keys_independent [OF run] by simp
qed

text \<open>
  C40. Without \<open>key_random\<close>, \<open>nest_for_array(func)\<close> applied to a structure of dicts and
  lists of arrays returns the same structure with \<open>func\<close> applied to every array, and
  raises \<open>ValueError\<close> when the structure holds anything that is not a dict, a list or an
  array (a tuple, a number, a string).
\<close>

theorem nest_for_array_no_key_map:
  "nest_apply (\<lambda>a k. Inr (g a k)) None v
     = (if has_other v then Inl ValueError else Inr (map_jval (\<lambda>a. g a None) v))"
  by (rule nest_nokey(1) [where f = "\<lambda>a k. Inr (g a k)" and g = g and k = None]) simp_all

text \<open>
  C35. \<open>merge_container\<close> on list nodes returns their concatenation, in order (none
  at all gives \<open>[]\<close>); given both a list node and a dict node it raises
  \<open>ValueError\<close>, since no branch of its \<open>all(isinstance(...))\<close> tests applies.
\<close>

theorem merge_container_lists_mixed:
  "merge_container (map PList xss) = Inr (PList (concat xss))
   \<and> (PList xs \<in> set cs \<longrightarrow> PDict d \<in> set cs \<longrightarrow> merge_container cs = Inl ValueError)"
  using merge_container_mixed_error [of xs cs d] by (simp add: merge_container_def)

theorem merge_container_lists_mixed_witness:
  "merge_container (map PList [[PInt 1], [PInt 2, PInt 3]]) = Inr (PList (concat [[PInt 1], [PInt 2, PInt 3]]))
   \<and> PList [PInt 1] \<in> set [PList [PInt 1], PDict [(PStr ''a'', PInt 2)]]
   \<and> PDict [(PStr ''a'', PInt 2)] \<in> set [PList [PInt 1], PDict [(PStr ''a'', PInt 2)]]
   \<and> merge_container [PList [PInt 1], PDict [(PStr ''a'', PInt 2)]] = Inl ValueError"
  using merge_container_lists_mixed [of "[[PInt 1], [PInt 2, PInt 3]]" "[PInt 1]"
      "[PList [PInt 1], PDict [(PStr ''a'', PInt 2)]]" "[(PStr ''a'', PInt 2)]"]
  by simp

text \<open>
  C37. \<open>instantiate_class\<close> fails before importing anything when the keyword arguments
  have no \<open>class_string\<close> (the \<open>AssertionError\<close> with the source's message), when
  \<open>class_string\<close> is a string without exactly one colon (\<open>ValueError\<close> from the
  two-name unpacking), and when it is not a string (\<open>AttributeError\<close>: no \<open>split\<close>);
  whatever the importable modules are.
\<close>

theorem instantiate_class_errors:
  "(map_of kwargs ''class_string'' = None \<longrightarrow> instantiate_class modules kwargs = Inl class_string_error)
   \<and> (map_of kwargs ''class_string'' = Some (PStr cs) \<longrightarrow> count_list cs CHR '':'' \<noteq> 1
        \<longrightarrow> instantiate_class modules kwargs = Inl ValueError)
   \<and> (map_of kwargs ''class_string'' = Some v \<longrightarrow> (\<forall>cs'. v \<noteq> PStr cs')
        \<longrightarrow> instantiate_class modules kwargs = Inl AttributeError)"
  using split_class_string_count [of cs]
  by (cases v) (auto simp: instantiate_class_def split_class_string_def)

theorem instantiate_class_errors_witness:
  "instantiate_class example_modules [(''arg1'', PInt 1)] = Inl class_string_error
   \<and> instantiate_class example_modules [(''class_string'', PStr ''examples.config.Class'')] = Inl ValueError
   \<and> instantiate_class example_modules [(''class_string'', PStr ''a:b:Class'')] = Inl ValueError
   \<and> instantiate_class example_modules [(''class_string'', PInt 3)] = Inl AttributeError"
proof -
  have c1: "count_list ''examples.config.Class'' CHR '':'' \<noteq> 1" by simp
  have c2: "count_list ''a:b:Class'' CHR '':'' \<noteq> 1" by simp
  show ?thesis
    using instantiate_class_errors [of "[(''arg1'', PInt 1)]" example_modules]
      instantiate_class_errors [of "[(''class_string'', PStr ''examples.config.Class'')]" example_modules
        "''examples.config.Class''"]
      instantiate_class_errors [of "[(''class_string'', PStr ''a:b:Class'')]" example_modules "''a:b:Class''"]
      instantiate_class_errors [of "[(''class_string'', PInt 3)]" example_modules _ "PInt 3"] c1 c2
    by simp
qed

text \<open>
  C38. The logging side refines the same specification: from import, a run of
  \<open>log_max_n\<close> calls on one logger with one \<open>n\<close>, level and pass-through arguments
  hands the logger exactly the messages of the requests \<open>first_n_per_key\<close> keeps, in
  order, each at that level and with those arguments.
\<close>

theorem log_max_n_refinement:
  assumes "\<forall>r \<in> set rs. req_key r = Inr (key r)"
  shows "log_calls (log_run lg n lv False args kw rs (tb_import w))
           = log_calls w @ map (\<lambda>r. \<lparr>lc_logger = lg, lc_level = lv, lc_msg = req_obj r,
                                       lc_args = args, lc_kwargs = kw\<rparr>) (first_n_per_key n key rs)"
  using log_run_refines [OF assms, of "tb_import w"] by simp

theorem log_max_n_refinement_witness:
  "list_all (\<lambda>r. req_key r = Inr (ten_key r)) ten_reqs
   \<and> map lc_msg (log_calls (log_run ''root'' 1 INFO False [] [] ten_reqs (tb_import world0)))
     = [PStr ''A number of a new ten was detected : 5'', PStr ''A number of a new ten was detected : 13'',
        PStr ''A number of a new ten was detected : 25'']"
proof -
  have keys: "\<forall>r \<in> set ten_reqs. req_key r = Inr (ten_key r)"
    by (simp add: ten_reqs_def req_key_def obj_to_discr_obj_def tens_def counter_key_def ten_key_def)
  have "map lc_msg (log_calls (log_run ''root'' 1 INFO False [] [] ten_reqs (tb_import world0)))
      = map lc_msg (log_calls world0 @ map (\<lambda>r. \<lparr>lc_logger = ''root'', lc_level = INFO, lc_msg = req_obj r,
                                       lc_args = [], lc_kwargs = []\<rparr>) (first_n_per_key 1 ten_key ten_reqs))"
    by (simp only: log_max_n_refinement [OF keys])
  also have "\<dots> = [PStr ''A number of a new ten was detected : 5'', PStr ''A number of a new ten was detected : 13'',
        PStr ''A number of a new ten was detected : 25'']"
    by code_simp
  finally show ?thesis using keys by (simp add: list_all_iff)
qed

section \<open>The example scripts of src/examples\<close>

text \<open>
  Run in a fresh interpreter, \<open>examples/exec_max_n.py\<close> prints the one-time line
  once, the three-times line three times (with \<open>(1/3)\<close>, \<open>(2/3)\<close>, \<open>(3/3)\<close> when
  the counter is shown), runs \<open>test_func\<close> once and \<open>test_func2\<close> three times (each run
  announced when the counter is shown), prints the ten-detection line for 5, 13 and 25
  only, and logs the one-time message once and the three-times message three times.
\<close>

theorem exec_example_output:
  "fst (exec_example_main False (tb_import world0)) = Inr ()
   \<and> stdout (snd (exec_example_main False (tb_import world0))) =
       [''Testing printing functions:'', ''Will be printed only once'', [],
        ''Will be printed only 3 times'', ''Will be printed only 3 times'', ''Will be printed only 3 times'', [],
        ''Testing logging functions:'', [], [], ''Testing one_time_exec:'', ''Will be printed only once'',
        ''Will be printed only 3 times'', ''Will be printed only 3 times'', ''Will be printed only 3 times'', [],
        ''Testing discr_obj and discr_fn:'', ''A number of a new ten was detected : 5'',
        ''A number of a new ten was detected : 13'', ''A number of a new ten was detected : 25'']
   \<and> map lc_msg (log_calls (snd (exec_example_main False (tb_import world0)))) =
       [PStr ''Will be logged only once'', PStr ''Will be logged only 3 times'',
        PStr ''Will be logged only 3 times'', PStr ''Will be logged only 3 times'']
   \<and> fst (exec_example_main True (tb_import world0)) = Inr ()
   \<and> stdout (snd (exec_example_main True (tb_import world0))) =
       [''Testing printing functions:'', ''Will be printed only once'', [],
        ''Will be printed only 3 times (1/3)'', ''Will be printed only 3 times (2/3)'',
        ''Will be printed only 3 times (3/3)'', [],
        ''Testing logging functions:'', [], [], ''Testing one_time_exec:'', ''Will be printed only once'',
        ''test_func2 was called (1/3)'', ''Will be printed only 3 times'',
        ''test_func2 was called (2/3)'', ''Will be printed only 3 times'',
        ''test_func2 was called (3/3)'', ''Will be printed only 3 times'', [],
        ''Testing discr_obj and discr_fn:'', ''A number of a new ten was detected : 5'',
        ''A number of a new ten was detected : 13'', ''A number of a new ten was detected : 25'']
   \<and> map lc_msg (log_calls (snd (exec_example_main True (tb_import world0)))) =
       [PStr ''Will be logged only once'', PStr ''Will be logged only 3 times (1/3)'',
        PStr ''Will be logged only 3 times (2/3)'', PStr ''Will be logged only 3 times (3/3)'']"
  by code_simp

text \<open>
  \<open>examples/config.py\<close>, with \<open>examples.config\<close> importable, prints
  \<open>try_get(...)=1\<close> for the dotted path, \<open>=2\<close> for the callable default called with
  the config, the class config, \<open>Obj: Class(arg1=1, arg2=2)\<close> for the instance, and the
  value of \<open>USERNAME\<close> (or \<open>None\<close>), whatever the state it starts in.
\<close>

theorem config_example_output:
  "config_example_main example_modules s = (Inr (), s\<lparr>stdout := stdout s @
     [''try_get('' @ py_repr cfg_abc @ '', '' @ repr_str ''a.b.c'' @ '')=1'',
      ''try_get('' @ py_repr (PDict [(PStr ''a'', PInt 1)]) @ '', '' @ repr_str ''double_a''
        @ '', lambda config, key: config['' @ repr_str ''a'' @ ''] * 2)=2'',
      ''Class instanciation from config: '' @ py_repr (kwargs_dict config_for_class),
      ''Obj: Class(arg1=1, arg2=2)'',
      ''Environment variable: '' @ (case environ s ''USERNAME'' of Some u \<Rightarrow> u | None \<Rightarrow> ''None'')]\<rparr>)"
  by (cases "environ s ''USERNAME''")
     (simp_all add: config_example_main_def example_script_defs get_env_variable_def example_lookups
        example_instance example_reprs kwargs_dict_def del: py_repr.simps(2-7))

text \<open>
  \<open>examples/seed.py\<close>, run after import on any runtime, prints \<open>42\<close> for the config
  with a seed; for the config without one, the value drawn second (the first draw is the
  unused eager default); for the string seed, the warning and then the value drawn fourth;
  and leaves \<open>random\<close> seeded with 42 at the start of its stream.
\<close>

theorem seed_example_output:
  fixes w :: world
  shows "let s' = snd (seed_example_main (tb_import w));
             st = rng_stream w (rng_seed w); p = rng_pos w in
     fst (seed_example_main (tb_import w)) = Inr ()
     \<and> stdout s' = stdout w @
        [''Try get seed on a config with seed: 42'',
         ''Try get seed on a config without seed: '' @ int_str (st (Suc p) mod 1000),
         seed_warning (st (Suc (Suc (Suc p))) mod 1000),
         ''Try get seed on a config with non-integer seed: '' @ int_str (st (Suc (Suc (Suc p))) mod 1000)]
     \<and> rng_seed s' = Some 42 \<and> rng_pos s' = 0"
  by (simp add: seed_example_main_def example_script_defs try_get_seed_draw example_seed_lookups
      example_reprs Let_def print_once_str_state print_once_str)

end
